theory Spec2Isabelle
  imports Complex_Main "HOL-Library.AList" "HOL-Library.Word"
begin

section \<open>Data model (src/types/index.ts)\<close>

text \<open>
  \<^verbatim>\<open>RenderJob\<close>: one in-flight render. The status and type unions become datatypes, the
  \<^verbatim>\<open>Date\<close> of \<^verbatim>\<open>startedAt\<close> its epoch milliseconds.
\<close>

datatype JobStatus = Pending | Rendering | Uploading | Completed | Failed

datatype JobType = PdfJob | ImageJob

record RenderJob =
  job_id :: string
  job_type :: JobType
  job_url :: string
  job_startedAt :: int
  job_status :: JobStatus

datatype RenderErrorCode =
    VALIDATION_FAILED
  | UNAUTHORIZED
  | FORBIDDEN
  | RENDER_FAILED
  | READY_FLAG_TIMEOUT
  | NAVIGATION_TIMEOUT
  | STORAGE_FAILED
  | CONCURRENCY_LIMIT
  | INTERNAL_ERROR

text \<open>A Zod issue, reduced to its code and the path of the offending field.\<close>

datatype IssueCode = invalid_type | too_small | too_big | invalid_enum_value

record ZodIssue =
  issue_code :: IssueCode
  issue_path :: "string list"

text \<open>
  The \<^verbatim>\<open>details\<close> object of an error response: the route handlers put the Zod issues
  there, the concurrency middleware the two counters.
\<close>

datatype Details =
    ValidationErrors "ZodIssue list"
  | Capacity nat int

record RenderErrorResponse =
  err_error :: RenderErrorCode
  err_message :: string
  err_jobId :: "string option"
  err_details :: "Details option"

datatype OutputFormat = FmtPdf | FmtPng | FmtJpeg | FmtWebp

record Metadata =
  md_renderTimeMs :: int
  md_format :: OutputFormat
  md_width :: "rat option"
  md_height :: "rat option"

record RenderSuccessResponse =
  ok_jobId :: string
  ok_url :: "string option"
  ok_dataUrl :: "string option"
  ok_filename :: string
  ok_fileSize :: nat
  ok_expiresAt :: "string option"
  ok_metadata :: Metadata

datatype ResponseBody =
    Success RenderSuccessResponse
  | Failure RenderErrorResponse
  | NotFound

record HttpResponse =
  res_status :: nat
  res_body :: ResponseBody

text \<open>
  What a \<^verbatim>\<open>catch\<close> clause can receive: a \<^verbatim>\<open>ZodError\<close> with its issues, any other
  \<^verbatim>\<open>Error\<close> with its message, or a thrown value that is no \<^verbatim>\<open>Error\<close> at all.
\<close>

datatype Thrown =
    ZodError "ZodIssue list"
  | Error string
  | NonError

section \<open>Configuration (src/config/env.ts)\<close>

datatype NodeEnv = Development | Production | Test

text \<open>
  The fields of \<^verbatim>\<open>env\<close> the control plane reads. Configured numbers are modelled at
  their integer values; an unset optional string is \<open>None\<close>.
\<close>

record Env =
  NODE_ENV :: NodeEnv
  API_KEY :: string
  SUPABASE_URL :: "string option"
  SUPABASE_SERVICE_ROLE_KEY :: "string option"
  STORAGE_BUCKET :: string
  SIGNED_URL_EXPIRY_SECONDS :: int
  MAX_CONCURRENT_JOBS :: int
  NAVIGATION_TIMEOUT_MS :: int
  READY_FLAG_TIMEOUT_MS :: int

text \<open>
  \<^verbatim>\<open>MAX_CONCURRENT_JOBS: z.coerce.number().min(1).max(10).default(2)\<close>. The input is the
  environment variable after \<^verbatim>\<open>Number(...)\<close>: unset, not a number, or a number (at its
  integer values). A value the schema refuses makes \<^verbatim>\<open>loadEnv\<close> exit the process (\<open>None\<close>).
\<close>

datatype EnvNumber = Unset | NotANumber | Num int

definition parse_MAX_CONCURRENT_JOBS :: "EnvNumber \<Rightarrow> int option" where
  "parse_MAX_CONCURRENT_JOBS v =
     (case v of
        Unset \<Rightarrow> Some 2
      | NotANumber \<Rightarrow> None
      | Num n \<Rightarrow> if n < 1 then None else if n > 10 then None else Some n)"

text \<open>\<^verbatim>\<open>READY_FLAG_TIMEOUT_MS: z.coerce.number().default(10000)\<close>\<close>

definition parse_READY_FLAG_TIMEOUT_MS :: "EnvNumber \<Rightarrow> int option" where
  "parse_READY_FLAG_TIMEOUT_MS v =
     (case v of Unset \<Rightarrow> Some 10000 | NotANumber \<Rightarrow> None | Num n \<Rightarrow> Some n)"

section \<open>Strings\<close>

text \<open>\<^verbatim>\<open>String.prototype.startsWith\<close>, \<^verbatim>\<open>includes\<close> and \<^verbatim>\<open>replace\<close> with a string pattern
  (which replaces the first occurrence only).\<close>

definition startsWith :: "string \<Rightarrow> string \<Rightarrow> bool" where
  "startsWith s p = (take (length p) s = p)"

fun str_includes :: "string \<Rightarrow> string \<Rightarrow> bool" where
  "str_includes [] sub = (sub = [])"
| "str_includes (c # cs) sub = (startsWith (c # cs) sub \<or> str_includes cs sub)"

fun replace_first :: "string \<Rightarrow> string \<Rightarrow> string \<Rightarrow> string" where
  "replace_first pat rep [] = (if pat = [] then rep else [])"
| "replace_first pat rep (c # cs) =
     (if startsWith (c # cs) pat then rep @ drop (length pat) (c # cs)
      else c # replace_first pat rep cs)"

text \<open>Decimal rendering of an integer, as a template literal prints it.\<close>

definition digit_char :: "nat \<Rightarrow> char" where
  "digit_char d = ''0123456789'' ! (d mod 10)"

fun decimal_nat :: "nat \<Rightarrow> string" where
  "decimal_nat n =
     (if n < 10 then [digit_char n] else decimal_nat (n div 10) @ [digit_char (n mod 10)])"

declare decimal_nat.simps [simp del]

definition decimal :: "int \<Rightarrow> string" where
  "decimal i = (if i < 0 then CHR ''-'' # decimal_nat (nat (- i)) else decimal_nat (nat i))"

section \<open>Job Registry (src/middleware/concurrency.ts)\<close>

text \<open>
  \<^verbatim>\<open>activeJobs\<close> is a JavaScript \<^verbatim>\<open>Map<string, RenderJob>\<close>: keys in insertion order,
  \<^verbatim>\<open>set\<close> overwrites an existing key in place and appends a new one, \<^verbatim>\<open>delete\<close> drops
  the key. The model is an association list with these operations. The map holds
  references to job objects; a job is registered under its own id and no code changes
  the id of a job, so no object sits under two keys and the jobs are modelled by value.
\<close>

type_synonym Registry = "(string \<times> RenderJob) list"

definition getActiveJobCount :: "Registry \<Rightarrow> nat" where
  "getActiveJobCount activeJobs = length activeJobs"

definition getActiveJobs :: "Registry \<Rightarrow> RenderJob list" where
  "getActiveJobs activeJobs = map snd activeJobs"

definition registerJob :: "RenderJob \<Rightarrow> Registry \<Rightarrow> Registry" where
  "registerJob job activeJobs = AList.update (job_id job) job activeJobs"

definition updateJobStatus :: "string \<Rightarrow> JobStatus \<Rightarrow> Registry \<Rightarrow> Registry" where
  "updateJobStatus jobId st activeJobs =
     (case map_of activeJobs jobId of
        None \<Rightarrow> activeJobs
      | Some job \<Rightarrow> AList.update jobId (job\<lparr>job_status := st\<rparr>) activeJobs)"

definition removeJob :: "string \<Rightarrow> Registry \<Rightarrow> Registry" where
  "removeJob jobId activeJobs = AList.delete jobId activeJobs"

text \<open>
  The reads as operations on the shared state: each returns its value together with the
  registry it leaves behind.
\<close>

definition count_op :: "Registry \<Rightarrow> nat \<times> Registry" where
  "count_op activeJobs = (getActiveJobCount activeJobs, activeJobs)"

definition list_op :: "Registry \<Rightarrow> RenderJob list \<times> Registry" where
  "list_op activeJobs = (getActiveJobs activeJobs, activeJobs)"

section \<open>Error mapping (src/routes/render.ts)\<close>

definition handleRenderError :: "NodeEnv \<Rightarrow> Thrown \<Rightarrow> string \<Rightarrow> RenderErrorResponse" where
  "handleRenderError nodeEnv error jobId =
     (case error of
        ZodError errors \<Rightarrow>
          \<lparr>err_error = VALIDATION_FAILED, err_message = ''Invalid request data'',
           err_jobId = Some jobId, err_details = Some (ValidationErrors errors)\<rparr>
      | Error message \<Rightarrow>
          if str_includes message ''READY_FLAG_TIMEOUT'' then
            \<lparr>err_error = READY_FLAG_TIMEOUT,
             err_message =
               ''Page did not signal render ready in time. Ensure __RENDER_READY__ is set.'',
             err_jobId = Some jobId, err_details = None\<rparr>
          else if str_includes message ''NAVIGATION_TIMEOUT'' \<or> str_includes message ''Timeout'' then
            \<lparr>err_error = NAVIGATION_TIMEOUT, err_message = ''Page navigation timed out'',
             err_jobId = Some jobId, err_details = None\<rparr>
          else if str_includes message ''STORAGE_FAILED'' then
            \<lparr>err_error = STORAGE_FAILED,
             err_message = replace_first ''STORAGE_FAILED: '' [] message,
             err_jobId = Some jobId, err_details = None\<rparr>
          else
            \<lparr>err_error = RENDER_FAILED,
             err_message = (if nodeEnv = Production then ''Render failed'' else message),
             err_jobId = Some jobId, err_details = None\<rparr>
      | NonError \<Rightarrow>
          \<lparr>err_error = INTERNAL_ERROR, err_message = ''An unexpected error occurred'',
           err_jobId = Some jobId, err_details = None\<rparr>)"

fun getStatusCode :: "RenderErrorCode \<Rightarrow> nat" where
  "getStatusCode VALIDATION_FAILED = 400"
| "getStatusCode UNAUTHORIZED = 401"
| "getStatusCode FORBIDDEN = 403"
| "getStatusCode CONCURRENCY_LIMIT = 503"
| "getStatusCode READY_FLAG_TIMEOUT = 408"
| "getStatusCode NAVIGATION_TIMEOUT = 408"
| "getStatusCode STORAGE_FAILED = 500"
| "getStatusCode RENDER_FAILED = 500"
| "getStatusCode INTERNAL_ERROR = 500"

section \<open>Request schemas (src/types/index.ts)\<close>

text \<open>
  A parsed JSON body. An object is the list of its own properties; a key that is absent
  reads as \<^verbatim>\<open>undefined\<close>, which the schemas below receive as \<open>None\<close>.
\<close>

datatype json =
    JNull
  | JBool bool
  | JNum rat
  | JStr string
  | JArr "json list"
  | JObj "(string \<times> json) list"

text \<open>
  The result of a Zod schema: the typed value, or the issues found. An object schema
  parses every key of its shape and gathers the issues of all of them.
\<close>

datatype 'a parsed = Valid 'a | Invalid "ZodIssue list"

fun issues_of :: "'a parsed \<Rightarrow> ZodIssue list" where
  "issues_of (Valid _) = []"
| "issues_of (Invalid es) = es"

fun and_field :: "('a \<Rightarrow> 'b) parsed \<Rightarrow> 'a parsed \<Rightarrow> 'b parsed" where
  "and_field (Valid f) (Valid x) = Valid (f x)"
| "and_field (Valid f) (Invalid es) = Invalid es"
| "and_field (Invalid es) (Valid x) = Invalid es"
| "and_field (Invalid es) (Invalid es') = Invalid (es @ es')"

definition issue :: "IssueCode \<Rightarrow> string list \<Rightarrow> ZodIssue" where
  "issue c p = \<lparr>issue_code = c, issue_path = p\<rparr>"

definition z_string :: "string list \<Rightarrow> json option \<Rightarrow> string parsed" where
  "z_string path v =
     (case v of Some (JStr s) \<Rightarrow> Valid s | _ \<Rightarrow> Invalid [issue invalid_type path])"

definition z_string_min :: "nat \<Rightarrow> string list \<Rightarrow> json option \<Rightarrow> string parsed" where
  "z_string_min n path v =
     (case z_string path v of
        Valid s \<Rightarrow> if length s < n then Invalid [issue too_small path] else Valid s
      | Invalid es \<Rightarrow> Invalid es)"

definition z_boolean :: "string list \<Rightarrow> json option \<Rightarrow> bool parsed" where
  "z_boolean path v =
     (case v of Some (JBool b) \<Rightarrow> Valid b | _ \<Rightarrow> Invalid [issue invalid_type path])"

definition z_number_min_max :: "rat \<Rightarrow> rat \<Rightarrow> string list \<Rightarrow> json option \<Rightarrow> rat parsed" where
  "z_number_min_max lo hi path v =
     (case v of
        Some (JNum x) \<Rightarrow>
          (let es = (if x < lo then [issue too_small path] else []) @
                    (if x > hi then [issue too_big path] else [])
           in if es = [] then Valid x else Invalid es)
      | _ \<Rightarrow> Invalid [issue invalid_type path])"

definition z_enum :: "(string \<times> 'a) list \<Rightarrow> string list \<Rightarrow> json option \<Rightarrow> 'a parsed" where
  "z_enum options path v =
     (case v of
        Some (JStr s) \<Rightarrow>
          (case map_of options s of
             Some a \<Rightarrow> Valid a
           | None \<Rightarrow> Invalid [issue invalid_enum_value path])
      | _ \<Rightarrow> Invalid [issue invalid_type path])"

text \<open>\<^verbatim>\<open>.optional()\<close> lets \<^verbatim>\<open>undefined\<close> through; \<^verbatim>\<open>.default(d)\<close> replaces \<^verbatim>\<open>undefined\<close> by
  \<open>d\<close> and hands it to the inner schema. \<^verbatim>\<open>null\<close> is neither.\<close>

definition z_optional :: "(json option \<Rightarrow> 'a parsed) \<Rightarrow> json option \<Rightarrow> 'a option parsed" where
  "z_optional schema v =
     (case v of
        None \<Rightarrow> Valid None
      | Some _ \<Rightarrow> (case schema v of Valid a \<Rightarrow> Valid (Some a) | Invalid es \<Rightarrow> Invalid es))"

definition z_default :: "(json option \<Rightarrow> 'a parsed) \<Rightarrow> json \<Rightarrow> json option \<Rightarrow> 'a parsed" where
  "z_default schema d v = schema (case v of None \<Rightarrow> Some d | Some x \<Rightarrow> Some x)"

datatype PaperSize = A4 | Letter | Legal

datatype Orientation = Portrait | Landscape

record Margins =
  m_top :: string
  m_bottom :: string
  m_left :: string
  m_right :: string

record PdfRenderRequest =
  pdf_url :: string
  pdf_authToken :: "string option"
  pdf_paperSize :: PaperSize
  pdf_orientation :: Orientation
  pdf_printBackground :: bool
  pdf_margins :: Margins
  pdf_filename :: "string option"
  pdf_uploadToStorage :: bool
  pdf_storagePath :: "string option"

datatype ImageFormat = Png | Jpeg | Webp

record ImageRenderRequest =
  img_url :: string
  img_authToken :: "string option"
  img_format :: ImageFormat
  img_quality :: rat
  img_width :: rat
  img_height :: rat
  img_scale :: rat
  img_filename :: "string option"
  img_uploadToStorage :: bool
  img_storagePath :: "string option"

text \<open>The key schemas of \<^verbatim>\<open>PdfRenderRequestSchema\<close>, in the order of its shape.\<close>

definition s_url :: "json option \<Rightarrow> string parsed" where
  "s_url = z_string_min 1 [''url'']"

definition s_authToken :: "json option \<Rightarrow> string option parsed" where
  "s_authToken = z_optional (z_string [''authToken''])"

definition s_paperSize :: "json option \<Rightarrow> PaperSize parsed" where
  "s_paperSize =
     z_default (z_enum [(''A4'', A4), (''Letter'', Letter), (''Legal'', Legal)] [''paperSize''])
       (JStr ''A4'')"

definition s_orientation :: "json option \<Rightarrow> Orientation parsed" where
  "s_orientation =
     z_default (z_enum [(''portrait'', Portrait), (''landscape'', Landscape)] [''orientation''])
       (JStr ''portrait'')"

definition s_printBackground :: "json option \<Rightarrow> bool parsed" where
  "s_printBackground = z_default (z_boolean [''printBackground'']) (JBool True)"

definition s_margin :: "string \<Rightarrow> string \<Rightarrow> json option \<Rightarrow> string parsed" where
  "s_margin side d = z_default (z_string [''margins'', side]) (JStr d)"

definition margins_object :: "json option \<Rightarrow> Margins parsed" where
  "margins_object v =
     (case v of
        Some (JObj kvs) \<Rightarrow>
          and_field (and_field (and_field (and_field
            (Valid (\<lambda>t b l r. \<lparr>m_top = t, m_bottom = b, m_left = l, m_right = r\<rparr>))
            (s_margin ''top'' ''20mm'' (map_of kvs ''top'')))
            (s_margin ''bottom'' ''20mm'' (map_of kvs ''bottom'')))
            (s_margin ''left'' ''15mm'' (map_of kvs ''left'')))
            (s_margin ''right'' ''15mm'' (map_of kvs ''right''))
      | _ \<Rightarrow> Invalid [issue invalid_type [''margins'']])"

definition s_margins :: "json option \<Rightarrow> Margins parsed" where
  "s_margins = z_default margins_object (JObj [])"

definition s_filename :: "json option \<Rightarrow> string option parsed" where
  "s_filename = z_optional (z_string [''filename''])"

definition s_uploadToStorage :: "json option \<Rightarrow> bool parsed" where
  "s_uploadToStorage = z_default (z_boolean [''uploadToStorage'']) (JBool True)"

definition s_storagePath :: "json option \<Rightarrow> string option parsed" where
  "s_storagePath = z_optional (z_string [''storagePath''])"

definition PdfRenderRequestSchema_parse :: "json option \<Rightarrow> PdfRenderRequest parsed" where
  "PdfRenderRequestSchema_parse body =
     (case body of
        Some (JObj kvs) \<Rightarrow>
          and_field (and_field (and_field (and_field (and_field (and_field (and_field
          (and_field (and_field
            (Valid (\<lambda>u a p o' b m f up sp.
               \<lparr>pdf_url = u, pdf_authToken = a, pdf_paperSize = p, pdf_orientation = o',
                pdf_printBackground = b, pdf_margins = m, pdf_filename = f,
                pdf_uploadToStorage = up, pdf_storagePath = sp\<rparr>))
            (s_url (map_of kvs ''url'')))
            (s_authToken (map_of kvs ''authToken'')))
            (s_paperSize (map_of kvs ''paperSize'')))
            (s_orientation (map_of kvs ''orientation'')))
            (s_printBackground (map_of kvs ''printBackground'')))
            (s_margins (map_of kvs ''margins'')))
            (s_filename (map_of kvs ''filename'')))
            (s_uploadToStorage (map_of kvs ''uploadToStorage'')))
            (s_storagePath (map_of kvs ''storagePath''))
      | _ \<Rightarrow> Invalid [issue invalid_type []])"

text \<open>The key schemas \<^verbatim>\<open>ImageRenderRequestSchema\<close> adds.\<close>

definition s_format :: "json option \<Rightarrow> ImageFormat parsed" where
  "s_format =
     z_default (z_enum [(''png'', Png), (''jpeg'', Jpeg), (''webp'', Webp)] [''format''])
       (JStr ''png'')"

definition s_quality :: "json option \<Rightarrow> rat parsed" where
  "s_quality = z_default (z_number_min_max 1 100 [''quality'']) (JNum 90)"

definition s_width :: "json option \<Rightarrow> rat parsed" where
  "s_width = z_default (z_number_min_max 1 4096 [''width'']) (JNum 1080)"

definition s_height :: "json option \<Rightarrow> rat parsed" where
  "s_height = z_default (z_number_min_max 1 4096 [''height'']) (JNum 1080)"

definition s_scale :: "json option \<Rightarrow> rat parsed" where
  "s_scale = z_default (z_number_min_max 1 3 [''scale'']) (JNum 1)"

definition ImageRenderRequestSchema_parse :: "json option \<Rightarrow> ImageRenderRequest parsed" where
  "ImageRenderRequestSchema_parse body =
     (case body of
        Some (JObj kvs) \<Rightarrow>
          and_field (and_field (and_field (and_field (and_field (and_field (and_field
          (and_field (and_field (and_field
            (Valid (\<lambda>u a f q w h s fn up sp.
               \<lparr>img_url = u, img_authToken = a, img_format = f, img_quality = q,
                img_width = w, img_height = h, img_scale = s, img_filename = fn,
                img_uploadToStorage = up, img_storagePath = sp\<rparr>))
            (s_url (map_of kvs ''url'')))
            (s_authToken (map_of kvs ''authToken'')))
            (s_format (map_of kvs ''format'')))
            (s_quality (map_of kvs ''quality'')))
            (s_width (map_of kvs ''width'')))
            (s_height (map_of kvs ''height'')))
            (s_scale (map_of kvs ''scale'')))
            (s_filename (map_of kvs ''filename'')))
            (s_uploadToStorage (map_of kvs ''uploadToStorage'')))
            (s_storagePath (map_of kvs ''storagePath''))
      | _ \<Rightarrow> Invalid [issue invalid_type []])"

section \<open>Base64 and data URLs\<close>

text \<open>
  \<^verbatim>\<open>Buffer.toString("base64")\<close>: the standard alphabet, three bytes to four characters,
  padded with \<^verbatim>\<open>=\<close>.
\<close>

type_synonym byte = "8 word"

definition b64_alphabet :: string where
  "b64_alphabet = ''ABCDEFGHIJKLMNOPQRSTUVWXYZabcdefghijklmnopqrstuvwxyz0123456789+/''"

definition b64_char :: "nat \<Rightarrow> char" where
  "b64_char i = b64_alphabet ! (i mod 64)"

fun toBase64 :: "byte list \<Rightarrow> string" where
  "toBase64 [] = []"
| "toBase64 [a] =
     (let n = unat a * 65536
      in [b64_char (n div 262144), b64_char (n div 4096), CHR ''='', CHR ''=''])"
| "toBase64 [a, b] =
     (let n = unat a * 65536 + unat b * 256
      in [b64_char (n div 262144), b64_char (n div 4096), b64_char (n div 64), CHR ''=''])"
| "toBase64 (a # b # c # rest) =
     (let n = unat a * 65536 + unat b * 256 + unat c
      in [b64_char (n div 262144), b64_char (n div 4096), b64_char (n div 64), b64_char n]
         @ toBase64 rest)"

text \<open>The reader's side: the decoder of the same encoding, and of a base64 data URL.\<close>

fun index_of :: "char \<Rightarrow> string \<Rightarrow> nat option" where
  "index_of c [] = None"
| "index_of c (x # xs) = (if c = x then Some 0 else map_option Suc (index_of c xs))"

definition b64_value :: "char \<Rightarrow> nat option" where
  "b64_value c = index_of c b64_alphabet"

fun fromBase64 :: "string \<Rightarrow> byte list option" where
  "fromBase64 [] = Some []"
| "fromBase64 (c1 # c2 # c3 # c4 # rest) =
     (case (b64_value c1, b64_value c2) of
        (Some v1, Some v2) \<Rightarrow>
          if c3 = CHR ''='' \<and> c4 = CHR ''='' \<and> rest = [] then
            Some [of_nat ((v1 * 64 + v2) div 16)]
          else
            (case b64_value c3 of
               Some v3 \<Rightarrow>
                 if c4 = CHR ''='' \<and> rest = [] then
                   (let n = v1 * 4096 + v2 * 64 + v3
                    in Some [of_nat (n div 1024), of_nat (n div 4)])
                 else
                   (case b64_value c4 of
                      Some v4 \<Rightarrow>
                        (let n = v1 * 262144 + v2 * 4096 + v3 * 64 + v4
                         in map_option
                              (\<lambda>bs. of_nat (n div 65536) # of_nat (n div 256) # of_nat n # bs)
                              (fromBase64 rest))
                    | None \<Rightarrow> None)
             | None \<Rightarrow> None)
      | _ \<Rightarrow> None)"
| "fromBase64 _ = None"

definition decodeDataUrl :: "string \<Rightarrow> (string \<times> byte list) option" where
  "decodeDataUrl u =
     (if startsWith u ''data:'' then
        (let rest = drop 5 u;
             mediaType = takeWhile (\<lambda>c. c \<noteq> CHR '';'') rest;
             payload = dropWhile (\<lambda>c. c \<noteq> CHR '';'') rest
         in if startsWith payload '';base64,'' then
              map_option (Pair mediaType) (fromBase64 (drop 8 payload))
            else None)
      else None)"

section \<open>Effects of one request\<close>

text \<open>
  The shared registry together with the log of what this request did to it and which
  collaborators it called, in program order. \<open>StatusSet\<close> is logged when
  \<^verbatim>\<open>updateJobStatus\<close> finds the job and assigns its status: the registry holds the
  very object the handler created, so these assignments are the history of the job's
  \<^verbatim>\<open>status\<close> field.
\<close>

datatype Event =
    JobRegistered string
  | StatusSet string JobStatus
  | JobRemoved string
  | EngineInvoked string
  | StorageUpload string
  | SignedUrlRequested string

record World =
  activeJobs :: Registry
  trace :: "Event list"

definition w_emit :: "Event list \<Rightarrow> World \<Rightarrow> World" where
  "w_emit evs w = w\<lparr>trace := trace w @ evs\<rparr>"

definition w_registerJob :: "RenderJob \<Rightarrow> World \<Rightarrow> World" where
  "w_registerJob job w =
     w\<lparr>activeJobs := registerJob job (activeJobs w),
       trace := trace w @ [JobRegistered (job_id job)]\<rparr>"

definition w_updateJobStatus :: "string \<Rightarrow> JobStatus \<Rightarrow> World \<Rightarrow> World" where
  "w_updateJobStatus jobId st w =
     w\<lparr>activeJobs := updateJobStatus jobId st (activeJobs w),
       trace := trace w @
         (case map_of (activeJobs w) jobId of None \<Rightarrow> [] | Some _ \<Rightarrow> [StatusSet jobId st])\<rparr>"

definition w_removeJob :: "string \<Rightarrow> World \<Rightarrow> World" where
  "w_removeJob jobId w =
     w\<lparr>activeJobs := removeJob jobId (activeJobs w), trace := trace w @ [JobRemoved jobId]\<rparr>"

text \<open>While the request is suspended at an \<^verbatim>\<open>await\<close>, other requests run on the registry.\<close>

definition w_others :: "(Registry \<Rightarrow> Registry) \<Rightarrow> World \<Rightarrow> World" where
  "w_others f w = w\<lparr>activeJobs := f (activeJobs w)\<rparr>"

section \<open>Storage (src/services/storage.ts)\<close>

datatype SupabaseClient = Client string string

definition initStorage :: "Env \<Rightarrow> SupabaseClient option \<Rightarrow> SupabaseClient option" where
  "initStorage env supabase =
     (case supabase of
        Some c \<Rightarrow> Some c
      | None \<Rightarrow>
          (case (SUPABASE_URL env, SUPABASE_SERVICE_ROLE_KEY env) of
             (Some u, Some k) \<Rightarrow> if u = [] \<or> k = [] then None else Some (Client u k)
           | _ \<Rightarrow> None))"

definition getClient :: "SupabaseClient option \<Rightarrow> Thrown + SupabaseClient" where
  "getClient supabase =
     (case supabase of
        None \<Rightarrow>
          Inl (Error (''STORAGE_FAILED: Supabase not configured. Set SUPABASE_URL and '' @
                      ''SUPABASE_SERVICE_ROLE_KEY or use uploadToStorage: false''))
      | Some c \<Rightarrow> Inr c)"

text \<open>
  The clock readings of one request and the storage backend's answers. An answer is a
  thrown value, or the call's result: for \<^verbatim>\<open>upload\<close> its \<^verbatim>\<open>error\<close> message if any, for
  \<^verbatim>\<open>createSignedUrl\<close> the signed URL, \<open>None\<close> when it reports an error or no data.
\<close>

record Clock =
  t_start :: int
  t_rendered :: int
  t_signed :: int
  t_done :: int
  toISOString :: "int \<Rightarrow> string"

record StorageExt =
  upload_answer :: "string \<Rightarrow> string \<Rightarrow> byte list \<Rightarrow> string \<Rightarrow> Thrown + string option"
  signedUrl_answer :: "string \<Rightarrow> string \<Rightarrow> int \<Rightarrow> Thrown + string option"

record UploadResult =
  up_path :: string
  up_signedUrl :: string
  up_expiresAt :: string

text \<open>\<^verbatim>\<open>storagePath.replace(/^\/|\/$/g, "")\<close>: one leading and one trailing slash go.\<close>

definition strip_slashes :: "string \<Rightarrow> string" where
  "strip_slashes s =
     (let s1 = (if startsWith s ''/'' then drop 1 s else s)
      in if s1 \<noteq> [] \<and> last s1 = CHR ''/'' then butlast s1 else s1)"

definition uploadFile ::
  "Env \<Rightarrow> SupabaseClient option \<Rightarrow> StorageExt \<Rightarrow> Clock \<Rightarrow> byte list \<Rightarrow> string \<Rightarrow> string \<Rightarrow>
   string option \<Rightarrow> string \<Rightarrow> (Thrown + UploadResult) \<times> Event list" where
  "uploadFile env supabase sx clk buffer filename contentType storagePath jobId =
     (case getClient supabase of
        Inl e \<Rightarrow> (Inl e, [])
      | Inr client \<Rightarrow>
          (let basePath =
                 (case storagePath of
                    Some p \<Rightarrow> if p \<noteq> [] then strip_slashes p else []
                  | None \<Rightarrow> []);
               fullPath = (if basePath \<noteq> [] then basePath @ ''/'' @ filename else filename)
           in case upload_answer sx (STORAGE_BUCKET env) fullPath buffer contentType of
                Inl thrown \<Rightarrow> (Inl thrown, [StorageUpload fullPath])
              | Inr (Some uploadError) \<Rightarrow>
                  (Inl (Error (''STORAGE_FAILED: '' @ uploadError)), [StorageUpload fullPath])
              | Inr None \<Rightarrow>
                  (case signedUrl_answer sx (STORAGE_BUCKET env) fullPath
                          (SIGNED_URL_EXPIRY_SECONDS env) of
                     Inl thrown \<Rightarrow>
                       (Inl thrown, [StorageUpload fullPath, SignedUrlRequested fullPath])
                   | Inr None \<Rightarrow>
                       (Inl (Error ''STORAGE_FAILED: Failed to create signed URL''),
                        [StorageUpload fullPath, SignedUrlRequested fullPath])
                   | Inr (Some signedUrl) \<Rightarrow>
                       (Inr \<lparr>up_path = fullPath, up_signedUrl = signedUrl,
                             up_expiresAt =
                               toISOString clk
                                 (t_signed clk + SIGNED_URL_EXPIRY_SECONDS env * 1000)\<rparr>,
                        [StorageUpload fullPath, SignedUrlRequested fullPath]))))"

section \<open>Render engine (src/services/playwright.ts)\<close>

text \<open>
  What the browser does for one request. A Playwright call that rejects gives the thrown
  value. \<open>fontsReadyAt\<close> is the time, in milliseconds after \<^verbatim>\<open>waitForRenderReady\<close> is
  entered, at which \<^verbatim>\<open>document.fonts.ready\<close> resolves (\<open>None\<close>: never); \<open>readyFlag t\<close>
  is the truthiness of \<^verbatim>\<open>window.__RENDER_READY__\<close> at time \<open>t\<close> on the same scale.
  The two \<^verbatim>\<open>page.evaluate\<close> calls of \<^verbatim>\<open>waitForRenderReady\<close> are taken not to reject.
\<close>

record PageExt =
  browserInitialized :: bool
  newContext_fails :: "Thrown option"
  newPage_fails :: "Thrown option"
  emulateMedia_fails :: "Thrown option"
  goto_fails :: "string \<Rightarrow> string option \<Rightarrow> Thrown option"
  fontsReadyAt :: "nat option"
  readyFlag :: "nat \<Rightarrow> bool"
  pdf_answer :: "PdfRenderRequest \<Rightarrow> Thrown + byte list"
  screenshot_answer :: "ImageRenderRequest \<Rightarrow> Thrown + byte list"

text \<open>
  The \<^verbatim>\<open>setInterval\<close> callback, with a timer that fires exactly every 100 ms: the
  \<open>k\<close>-th call runs at \<open>startTime + 100 * k\<close>, looks at the flag first and at the clock
  second. It returns what the promise resolves to and when.
\<close>

function pollReady :: "(nat \<Rightarrow> bool) \<Rightarrow> int \<Rightarrow> nat \<Rightarrow> nat \<Rightarrow> bool \<times> nat" where
  "pollReady flag timeout startTime k =
     (let now = startTime + 100 * k
      in if flag now then (True, now)
         else if int now - int startTime > timeout then (False, now)
         else pollReady flag timeout startTime (Suc k))"
  by pat_completeness auto
termination
  by (relation "measure (\<lambda>(flag, timeout, startTime, k). nat (timeout + 100 - 100 * int k))")
     auto

declare pollReady.simps [simp del]

text \<open>
  \<^verbatim>\<open>waitForRenderReady\<close>: \<open>None\<close> when it never returns, otherwise the error it throws or
  the time at which it returns.
\<close>

definition waitForRenderReady :: "PageExt \<Rightarrow> int \<Rightarrow> (Thrown + nat) option" where
  "waitForRenderReady page timeout =
     (case fontsReadyAt page of
        None \<Rightarrow> None
      | Some start \<Rightarrow>
          (let (result, t1) =
                 (if readyFlag page start then (True, start)
                  else pollReady (readyFlag page) timeout start 1)
           in if \<not> result then
                Some (Inl (Error (''READY_FLAG_TIMEOUT: __RENDER_READY__ flag not set within '' @
                                  decimal timeout @ ''ms'')))
              else Some (Inr (t1 + 150))))"

definition getBrowser :: "PageExt \<Rightarrow> Thrown + unit" where
  "getBrowser page =
     (if \<not> browserInitialized page then
        Inl (Error ''Browser not initialized. Call initBrowser() first.'')
      else Inr ())"

text \<open>
  \<^verbatim>\<open>renderPdf\<close> and \<^verbatim>\<open>renderImage\<close>. Their \<^verbatim>\<open>finally\<close> blocks close the page and the
  context and swallow what closing throws, so they do not change the outcome.
\<close>

definition renderPdf :: "Env \<Rightarrow> PageExt \<Rightarrow> PdfRenderRequest \<Rightarrow> string \<Rightarrow> (Thrown + byte list) option"
  where
  "renderPdf env page request jobId =
     (case getBrowser page of
        Inl e \<Rightarrow> Some (Inl e)
      | Inr _ \<Rightarrow>
     (case newContext_fails page of
        Some e \<Rightarrow> Some (Inl e)
      | None \<Rightarrow>
     (case newPage_fails page of
        Some e \<Rightarrow> Some (Inl e)
      | None \<Rightarrow>
     (case goto_fails page (pdf_url request) (pdf_authToken request) of
        Some e \<Rightarrow> Some (Inl e)
      | None \<Rightarrow>
     (case waitForRenderReady page (READY_FLAG_TIMEOUT_MS env) of
        None \<Rightarrow> None
      | Some (Inl e) \<Rightarrow> Some (Inl e)
      | Some (Inr _) \<Rightarrow> Some (pdf_answer page request))))))"

definition renderImage ::
  "Env \<Rightarrow> PageExt \<Rightarrow> ImageRenderRequest \<Rightarrow> string \<Rightarrow> (Thrown + byte list) option" where
  "renderImage env page request jobId =
     (case getBrowser page of
        Inl e \<Rightarrow> Some (Inl e)
      | Inr _ \<Rightarrow>
     (case newContext_fails page of
        Some e \<Rightarrow> Some (Inl e)
      | None \<Rightarrow>
     (case newPage_fails page of
        Some e \<Rightarrow> Some (Inl e)
      | None \<Rightarrow>
     (case emulateMedia_fails page of
        Some e \<Rightarrow> Some (Inl e)
      | None \<Rightarrow>
     (case goto_fails page (img_url request) (img_authToken request) of
        Some e \<Rightarrow> Some (Inl e)
      | None \<Rightarrow>
     (case waitForRenderReady page (READY_FLAG_TIMEOUT_MS env) of
        None \<Rightarrow> None
      | Some (Inl e) \<Rightarrow> Some (Inl e)
      | Some (Inr _) \<Rightarrow> Some (screenshot_answer page request)))))))"

section \<open>Route handlers (src/routes/render.ts)\<close>

text \<open>
  Everything outside the process that one request meets. Each \<^verbatim>\<open>await\<close> of a handler is
  a point where other requests run on the registry: \<open>x_during_render\<close> and
  \<open>x_during_upload\<close> are what they do to it meanwhile. \<^verbatim>\<open>res.json\<close> and the loggers are
  taken not to throw.
\<close>

record External =
  x_clock :: Clock
  x_page :: PageExt
  x_storage :: StorageExt
  x_during_render :: "Registry \<Rightarrow> Registry"
  x_during_upload :: "Registry \<Rightarrow> Registry"

text \<open>\<^verbatim>\<open>req.body?.url || "unknown"\<close>, for a \<^verbatim>\<open>url\<close> that is a string or missing.\<close>

definition url_or_unknown :: "json option \<Rightarrow> string" where
  "url_or_unknown body =
     (case body of
        Some (JObj kvs) \<Rightarrow>
          (case map_of kvs ''url'' of
             Some (JStr u) \<Rightarrow> if u \<noteq> [] then u else ''unknown''
           | _ \<Rightarrow> ''unknown'')
      | _ \<Rightarrow> ''unknown'')"

text \<open>\<^verbatim>\<open>new Date().toISOString().replace(/[:.]/g, "-")\<close>\<close>

definition filename_timestamp :: "Clock \<Rightarrow> string" where
  "filename_timestamp clk =
     map (\<lambda>c. if c = CHR '':'' \<or> c = CHR ''.'' then CHR ''-'' else c)
       (toISOString clk (t_rendered clk))"

definition output_filename :: "string option \<Rightarrow> string \<Rightarrow> string \<Rightarrow> string" where
  "output_filename requested timestamp extension =
     (case requested of
        Some f \<Rightarrow>
          if f \<noteq> [] then f @ ''.'' @ extension else ''render-'' @ timestamp @ ''.'' @ extension
      | None \<Rightarrow> ''render-'' @ timestamp @ ''.'' @ extension)"

text \<open>The end of the \<^verbatim>\<open>try\<close> block followed by \<^verbatim>\<open>finally\<close>.\<close>

definition send_success :: "string \<Rightarrow> RenderSuccessResponse \<Rightarrow> World \<Rightarrow> HttpResponse \<times> World" where
  "send_success jobId response w =
     (let w1 = w_updateJobStatus jobId Completed w
      in (\<lparr>res_status = 200, res_body = Success response\<rparr>, w_removeJob jobId w1))"

text \<open>The \<^verbatim>\<open>catch\<close> block followed by \<^verbatim>\<open>finally\<close>.\<close>

definition catch_finally :: "Env \<Rightarrow> string \<Rightarrow> Thrown \<Rightarrow> World \<Rightarrow> HttpResponse \<times> World" where
  "catch_finally env jobId error w =
     (let w1 = w_updateJobStatus jobId Failed w;
          errorResponse = handleRenderError (NODE_ENV env) error jobId
      in (\<lparr>res_status = getStatusCode (err_error errorResponse),
           res_body = Failure errorResponse\<rparr>,
          w_removeJob jobId w1))"

definition post_pdf ::
  "Env \<Rightarrow> SupabaseClient option \<Rightarrow> External \<Rightarrow> string \<Rightarrow> json option \<Rightarrow> World \<Rightarrow>
   (HttpResponse \<times> World) option" where
  "post_pdf env supabase x jobId body w0 =
     (let job = \<lparr>job_id = jobId, job_type = PdfJob, job_url = url_or_unknown body,
                 job_startedAt = t_start (x_clock x), job_status = Pending\<rparr>
      in case PdfRenderRequestSchema_parse body of
           Invalid errors \<Rightarrow> Some (catch_finally env jobId (ZodError errors) w0)
         | Valid request \<Rightarrow>
             (let w1 = w_registerJob (job\<lparr>job_url := pdf_url request\<rparr>) w0;
                  w2 = w_updateJobStatus jobId Rendering w1;
                  w3 = w_emit [EngineInvoked jobId] w2
              in case renderPdf env (x_page x) request jobId of
                   None \<Rightarrow> None
                 | Some rendered \<Rightarrow>
                     (let w4 = w_others (x_during_render x) w3
                      in case rendered of
                           Inl error \<Rightarrow> Some (catch_finally env jobId error w4)
                         | Inr pdfBuffer \<Rightarrow>
                             (let filename =
                                    output_filename (pdf_filename request)
                                      (filename_timestamp (x_clock x)) ''pdf''
                              in if pdf_uploadToStorage request then
                                   (let w5 = w_updateJobStatus jobId Uploading w4;
                                        (uploaded, calls) =
                                          uploadFile env supabase (x_storage x) (x_clock x)
                                            pdfBuffer filename ''application/pdf''
                                            (pdf_storagePath request) jobId;
                                        w6 = w_others (x_during_upload x) (w_emit calls w5)
                                    in case uploaded of
                                         Inl error \<Rightarrow> Some (catch_finally env jobId error w6)
                                       | Inr uploadResult \<Rightarrow>
                                           Some (send_success jobId
                                             \<lparr>ok_jobId = jobId,
                                              ok_url = Some (up_signedUrl uploadResult),
                                              ok_dataUrl = None,
                                              ok_filename = filename,
                                              ok_fileSize = length pdfBuffer,
                                              ok_expiresAt = Some (up_expiresAt uploadResult),
                                              ok_metadata =
                                                \<lparr>md_renderTimeMs =
                                                   t_done (x_clock x) - t_start (x_clock x),
                                                 md_format = FmtPdf,
                                                 md_width = None, md_height = None\<rparr>\<rparr>
                                             w6))
                                 else
                                   Some (send_success jobId
                                     \<lparr>ok_jobId = jobId,
                                      ok_url = None,
                                      ok_dataUrl =
                                        Some (''data:application/pdf;base64,'' @
                                              toBase64 pdfBuffer),
                                      ok_filename = filename,
                                      ok_fileSize = length pdfBuffer,
                                      ok_expiresAt = None,
                                      ok_metadata =
                                        \<lparr>md_renderTimeMs =
                                           t_done (x_clock x) - t_start (x_clock x),
                                         md_format = FmtPdf,
                                         md_width = None, md_height = None\<rparr>\<rparr>
                                     w4)))))"

fun format_name :: "ImageFormat \<Rightarrow> string" where
  "format_name Png = ''png''"
| "format_name Jpeg = ''jpeg''"
| "format_name Webp = ''webp''"

fun format_of :: "ImageFormat \<Rightarrow> OutputFormat" where
  "format_of Png = FmtPng"
| "format_of Jpeg = FmtJpeg"
| "format_of Webp = FmtWebp"

definition image_contentType :: "ImageFormat \<Rightarrow> string" where
  "image_contentType f =
     (if f = Jpeg then ''image/jpeg'' else if f = Webp then ''image/webp'' else ''image/png'')"

definition post_image ::
  "Env \<Rightarrow> SupabaseClient option \<Rightarrow> External \<Rightarrow> string \<Rightarrow> json option \<Rightarrow> World \<Rightarrow>
   (HttpResponse \<times> World) option" where
  "post_image env supabase x jobId body w0 =
     (let job = \<lparr>job_id = jobId, job_type = ImageJob, job_url = url_or_unknown body,
                 job_startedAt = t_start (x_clock x), job_status = Pending\<rparr>
      in case ImageRenderRequestSchema_parse body of
           Invalid errors \<Rightarrow> Some (catch_finally env jobId (ZodError errors) w0)
         | Valid request \<Rightarrow>
             (let w1 = w_registerJob (job\<lparr>job_url := img_url request\<rparr>) w0;
                  w2 = w_updateJobStatus jobId Rendering w1;
                  w3 = w_emit [EngineInvoked jobId] w2
              in case renderImage env (x_page x) request jobId of
                   None \<Rightarrow> None
                 | Some rendered \<Rightarrow>
                     (let w4 = w_others (x_during_render x) w3
                      in case rendered of
                           Inl error \<Rightarrow> Some (catch_finally env jobId error w4)
                         | Inr imageBuffer \<Rightarrow>
                             (let extension = format_name (img_format request);
                                  filename =
                                    output_filename (img_filename request)
                                      (filename_timestamp (x_clock x)) extension;
                                  contentType = image_contentType (img_format request)
                              in if img_uploadToStorage request then
                                   (let w5 = w_updateJobStatus jobId Uploading w4;
                                        (uploaded, calls) =
                                          uploadFile env supabase (x_storage x) (x_clock x)
                                            imageBuffer filename contentType
                                            (img_storagePath request) jobId;
                                        w6 = w_others (x_during_upload x) (w_emit calls w5)
                                    in case uploaded of
                                         Inl error \<Rightarrow> Some (catch_finally env jobId error w6)
                                       | Inr uploadResult \<Rightarrow>
                                           Some (send_success jobId
                                             \<lparr>ok_jobId = jobId,
                                              ok_url = Some (up_signedUrl uploadResult),
                                              ok_dataUrl = None,
                                              ok_filename = filename,
                                              ok_fileSize = length imageBuffer,
                                              ok_expiresAt = Some (up_expiresAt uploadResult),
                                              ok_metadata =
                                                \<lparr>md_renderTimeMs =
                                                   t_done (x_clock x) - t_start (x_clock x),
                                                 md_format = format_of (img_format request),
                                                 md_width = Some (img_width request),
                                                 md_height = Some (img_height request)\<rparr>\<rparr>
                                             w6))
                                 else
                                   Some (send_success jobId
                                     \<lparr>ok_jobId = jobId,
                                      ok_url = None,
                                      ok_dataUrl =
                                        Some (''data:'' @ contentType @ '';base64,'' @
                                              toBase64 imageBuffer),
                                      ok_filename = filename,
                                      ok_fileSize = length imageBuffer,
                                      ok_expiresAt = None,
                                      ok_metadata =
                                        \<lparr>md_renderTimeMs =
                                           t_done (x_clock x) - t_start (x_clock x),
                                         md_format = format_of (img_format request),
                                         md_width = Some (img_width request),
                                         md_height = Some (img_height request)\<rparr>\<rparr>
                                     w4)))))"

section \<open>Middleware and routing (src/middleware, src/index.ts)\<close>

datatype Route = PostPdf | PostImage | OtherRoute

record Request =
  req_x_api_key :: "string option"
  req_authorization :: "string option"
  req_route :: Route
  req_body :: "json option"

text \<open>A middleware either sends a response and stops the chain, or calls \<^verbatim>\<open>next()\<close>.\<close>

datatype Middleware = Respond HttpResponse | Next

definition apiKeyAuth :: "Env \<Rightarrow> Request \<Rightarrow> Middleware" where
  "apiKeyAuth env req =
     (let providedKey =
            (case req_x_api_key req of
               Some k \<Rightarrow> Some k
             | None \<Rightarrow>
                 (case req_authorization req of
                    Some a \<Rightarrow> if startsWith a ''Bearer '' then Some (drop 7 a) else None
                  | None \<Rightarrow> None))
      in if providedKey = None \<or> providedKey = Some [] then
           Respond \<lparr>res_status = 401,
                    res_body = Failure
                      \<lparr>err_error = UNAUTHORIZED,
                       err_message =
                         ''API key required. Provide via X-API-Key header or Authorization: Bearer <key>'',
                       err_jobId = None, err_details = None\<rparr>\<rparr>
         else if providedKey \<noteq> Some (API_KEY env) then
           Respond \<lparr>res_status = 403,
                    res_body = Failure
                      \<lparr>err_error = FORBIDDEN, err_message = ''Invalid API key'',
                       err_jobId = None, err_details = None\<rparr>\<rparr>
         else Next)"

definition concurrencyLimit :: "Env \<Rightarrow> Registry \<Rightarrow> Middleware" where
  "concurrencyLimit env jobs =
     (if int (length jobs) \<ge> MAX_CONCURRENT_JOBS env then
        Respond \<lparr>res_status = 503,
                 res_body = Failure
                   \<lparr>err_error = CONCURRENCY_LIMIT,
                    err_message =
                      ''Server is at capacity. Max '' @ decimal (MAX_CONCURRENT_JOBS env) @
                      '' concurrent jobs allowed. Please retry later.'',
                    err_jobId = None,
                    err_details = Some (Capacity (length jobs) (MAX_CONCURRENT_JOBS env))\<rparr>\<rparr>
      else Next)"

text \<open>
  \<^verbatim>\<open>app.use("/render", apiKeyAuth, concurrencyLimit, renderRouter)\<close>, and the 404 handler
  behind it for a path the router does not serve.
\<close>

definition render_app ::
  "Env \<Rightarrow> SupabaseClient option \<Rightarrow> External \<Rightarrow> string \<Rightarrow> Request \<Rightarrow> World \<Rightarrow>
   (HttpResponse \<times> World) option" where
  "render_app env supabase x jobId req w =
     (case apiKeyAuth env req of
        Respond r \<Rightarrow> Some (r, w)
      | Next \<Rightarrow>
          (case concurrencyLimit env (activeJobs w) of
             Respond r \<Rightarrow> Some (r, w)
           | Next \<Rightarrow>
               (case req_route req of
                  PostPdf \<Rightarrow> post_pdf env supabase x jobId (req_body req) w
                | PostImage \<Rightarrow> post_image env supabase x jobId (req_body req) w
                | OtherRoute \<Rightarrow> Some (\<lparr>res_status = 404, res_body = NotFound\<rparr>, w))))"

section \<open>Observing a run\<close>

text \<open>What a run added to the log, the collaborator calls in it, and the statuses the
  job was given: it is created \<^verbatim>\<open>pending\<close>, and every \<open>StatusSet\<close> for its id follows.\<close>

definition new_events :: "World \<Rightarrow> World \<Rightarrow> Event list" where
  "new_events w w' = drop (length (trace w)) (trace w')"

fun is_storage_call :: "Event \<Rightarrow> bool" where
  "is_storage_call (StorageUpload p) = True"
| "is_storage_call (SignedUrlRequested p) = True"
| "is_storage_call _ = False"

fun is_render_work :: "Event \<Rightarrow> bool" where
  "is_render_work (JobRegistered j) = True"
| "is_render_work (EngineInvoked j) = True"
| "is_render_work _ = False"

fun statuses_set :: "string \<Rightarrow> Event list \<Rightarrow> JobStatus list" where
  "statuses_set jobId [] = []"
| "statuses_set jobId (StatusSet j st # evs) =
     (if j = jobId then st # statuses_set jobId evs else statuses_set jobId evs)"
| "statuses_set jobId (_ # evs) = statuses_set jobId evs"

definition status_path :: "string \<Rightarrow> Event list \<Rightarrow> JobStatus list" where
  "status_path jobId evs = Pending # statuses_set jobId evs"

text \<open>
  The transitions the handlers make: \<open>lifecycle upload a b\<close> holds when a job of a request
  with that upload flag can go from status \<open>a\<close> to status \<open>b\<close>.
\<close>

fun lifecycle :: "bool \<Rightarrow> JobStatus \<Rightarrow> JobStatus \<Rightarrow> bool" where
  "lifecycle upload Pending Rendering = True"
| "lifecycle upload Rendering Uploading = upload"
| "lifecycle upload Rendering Completed = (\<not> upload)"
| "lifecycle upload Uploading Completed = True"
| "lifecycle upload Rendering Failed = True"
| "lifecycle upload Uploading Failed = True"
| "lifecycle upload _ _ = False"

fun follows_lifecycle :: "bool \<Rightarrow> JobStatus list \<Rightarrow> bool" where
  "follows_lifecycle upload (a # b # rest) =
     (lifecycle upload a b \<and> follows_lifecycle upload (b # rest))"
| "follows_lifecycle upload _ = True"

text \<open>The message each error code other than \<^verbatim>\<open>STORAGE_FAILED\<close> has in production.\<close>

fun fixed_message :: "RenderErrorCode \<Rightarrow> string" where
  "fixed_message VALIDATION_FAILED = ''Invalid request data''"
| "fixed_message READY_FLAG_TIMEOUT =
     ''Page did not signal render ready in time. Ensure __RENDER_READY__ is set.''"
| "fixed_message NAVIGATION_TIMEOUT = ''Page navigation timed out''"
| "fixed_message RENDER_FAILED = ''Render failed''"
| "fixed_message INTERNAL_ERROR = ''An unexpected error occurred''"
| "fixed_message _ = []"

text \<open>Other requests have job ids of their own: what they do leaves this job's entry.\<close>

definition leaves_job :: "string \<Rightarrow> (Registry \<Rightarrow> Registry) \<Rightarrow> bool" where
  "leaves_job jobId f = (\<forall>reg. map_of (f reg) jobId = map_of reg jobId)"

section \<open>Sample inputs\<close>

text \<open>Concrete configurations, collaborators and requests, for the examples below.\<close>

definition sample_env :: Env where
  "sample_env =
     \<lparr>NODE_ENV = Production, API_KEY = ''secret'',
      SUPABASE_URL = None, SUPABASE_SERVICE_ROLE_KEY = None,
      STORAGE_BUCKET = ''renders'', SIGNED_URL_EXPIRY_SECONDS = 3600,
      MAX_CONCURRENT_JOBS = 2, NAVIGATION_TIMEOUT_MS = 15000,
      READY_FLAG_TIMEOUT_MS = 10000\<rparr>"

definition sample_clock :: Clock where
  "sample_clock =
     \<lparr>t_start = 1000, t_rendered = 3000, t_signed = 3200, t_done = 3500,
      toISOString = (\<lambda>t. ''2026-02-02T10:30:00.000Z'')\<rparr>"

text \<open>A page that is ready at once, and one that sets its flag 10050 ms after polling
  began.\<close>

definition sample_page :: PageExt where
  "sample_page =
     \<lparr>browserInitialized = True, newContext_fails = None, newPage_fails = None,
      emulateMedia_fails = None, goto_fails = (\<lambda>u a. None),
      fontsReadyAt = Some 0, readyFlag = (\<lambda>t. True),
      pdf_answer = (\<lambda>r. Inr [37, 80, 68, 70, 45]),
      screenshot_answer = (\<lambda>r. Inr [137, 80, 78, 71])\<rparr>"

definition late_page :: PageExt where
  "late_page = sample_page\<lparr>readyFlag := (\<lambda>t. 10050 \<le> t)\<rparr>"

definition never_ready_page :: PageExt where
  "never_ready_page = sample_page\<lparr>readyFlag := (\<lambda>t. False)\<rparr>"

text \<open>A page whose navigation times out.\<close>

definition unreachable_page :: PageExt where
  "unreachable_page =
     sample_page\<lparr>goto_fails := (\<lambda>u a. Some (Error ''page.goto: Timeout 15000ms exceeded.''))\<rparr>"

text \<open>A storage backend that works, and one whose upload call throws.\<close>

definition sample_storage :: StorageExt where
  "sample_storage =
     \<lparr>upload_answer = (\<lambda>bucket path buffer contentType. Inr None),
      signedUrl_answer = (\<lambda>bucket path ttl. Inr (Some ''https://storage.example/signed''))\<rparr>"

definition throwing_storage :: StorageExt where
  "throwing_storage =
     sample_storage\<lparr>upload_answer := (\<lambda>bucket path buffer contentType.
                                        Inl (Error ''socket hang up''))\<rparr>"

definition other_job :: RenderJob where
  "other_job =
     \<lparr>job_id = ''job-0'', job_type = ImageJob, job_url = ''/social/post-1'',
      job_startedAt = 900, job_status = Rendering\<rparr>"

definition sample_external :: External where
  "sample_external =
     \<lparr>x_clock = sample_clock, x_page = sample_page, x_storage = sample_storage,
      x_during_render = registerJob other_job, x_during_upload = removeJob ''job-0''\<rparr>"

definition empty_world :: World where
  "empty_world = \<lparr>activeJobs = [], trace = []\<rparr>"

definition busy_world :: World where
  "busy_world =
     \<lparr>activeJobs = [(''job-0'', other_job),
                    (''job-9'', other_job\<lparr>job_id := ''job-9'', job_status := Uploading\<rparr>)],
      trace = []\<rparr>"

definition pdf_inline_body :: "json option" where
  "pdf_inline_body =
     Some (JObj [(''url'', JStr ''/render/a4/invoice-123''), (''uploadToStorage'', JBool False)])"

definition pdf_upload_body :: "json option" where
  "pdf_upload_body =
     Some (JObj [(''url'', JStr ''/render/a4/invoice-123''), (''filename'', JStr ''invoice''),
                 (''storagePath'', JStr ''/org-123/invoices/'')])"

definition image_max_body :: "json option" where
  "image_max_body =
     Some (JObj [(''url'', JStr ''/render/social/post-456''), (''width'', JNum 4096),
                 (''height'', JNum 4096), (''scale'', JNum 3)])"

definition image_wide_body :: "json option" where
  "image_wide_body =
     Some (JObj [(''url'', JStr ''/render/social/post-456''), (''width'', JNum 4097)])"

definition image_bad_body :: "json option" where
  "image_bad_body =
     Some (JObj [(''width'', JNum 4097), (''height'', JNum 0), (''scale'', JStr ''2''),
                 (''format'', JStr ''gif'')])"

definition pdf_bad_body :: "json option" where
  "pdf_bad_body =
     Some (JObj [(''paperSize'', JStr ''A3''), (''margins'', JObj [(''top'', JNum 3)])])"

definition image_inline_body :: "json option" where
  "image_inline_body =
     Some (JObj [(''url'', JStr ''/render/social/post-456''), (''format'', JStr ''jpeg''),
                 (''uploadToStorage'', JBool False)])"

definition authorized :: "Route \<Rightarrow> json option \<Rightarrow> Request" where
  "authorized route body =
     \<lparr>req_x_api_key = Some ''secret'', req_authorization = None,
      req_route = route, req_body = body\<rparr>"

text \<open>Two storage backends that differ only in the text of the upload error.\<close>

definition bucket_missing_storage :: StorageExt where
  "bucket_missing_storage =
     sample_storage\<lparr>upload_answer := (\<lambda>bucket path buffer contentType.
                                        Inr (Some ''Bucket not found''))\<rparr>"

definition quota_storage :: StorageExt where
  "quota_storage =
     sample_storage\<lparr>upload_answer := (\<lambda>bucket path buffer contentType.
                                        Inr (Some ''Quota exceeded for org-123''))\<rparr>"

lemmas sample_defs =
  sample_env_def sample_clock_def sample_page_def late_page_def never_ready_page_def
  sample_storage_def throwing_storage_def other_job_def sample_external_def empty_world_def
  busy_world_def pdf_inline_body_def pdf_upload_body_def image_max_body_def
  image_wide_body_def image_bad_body_def authorized_def bucket_missing_storage_def
  quota_storage_def unreachable_page_def image_inline_body_def pdf_bad_body_def

lemmas zod_defs =
  PdfRenderRequestSchema_parse_def ImageRenderRequestSchema_parse_def
  s_url_def s_authToken_def s_paperSize_def s_orientation_def s_printBackground_def
  s_margin_def margins_object_def s_margins_def s_filename_def s_uploadToStorage_def
  s_storagePath_def s_format_def s_quality_def s_width_def s_height_def s_scale_def
  z_string_def z_string_min_def z_boolean_def z_number_min_max_def z_enum_def
  z_optional_def z_default_def issue_def

lemmas engine_defs =
  renderPdf_def renderImage_def getBrowser_def waitForRenderReady_def uploadFile_def
  getClient_def strip_slashes_def startsWith_def output_filename_def filename_timestamp_def
  image_contentType_def

lemmas world_defs =
  w_emit_def w_registerJob_def w_updateJobStatus_def w_removeJob_def w_others_def
  registerJob_def updateJobStatus_def removeJob_def

section \<open>The Job Registry\<close>

lemma map_of_registerJob:
  "map_of (registerJob job reg) k = (if k = job_id job then Some job else map_of reg k)"
  by (simp add: registerJob_def update_conv')

lemma map_of_removeJob:
  "map_of (removeJob jobId reg) k = (if k = jobId then None else map_of reg k)"
  by (simp add: removeJob_def delete_conv')

lemma map_of_updateJobStatus:
  "map_of (updateJobStatus jobId st reg) k =
     (if k = jobId then map_option (\<lambda>j. j\<lparr>job_status := st\<rparr>) (map_of reg jobId)
      else map_of reg k)"
  by (simp add: updateJobStatus_def update_conv' split: option.splits)

lemma keys_updateJobStatus: "map fst (updateJobStatus jobId st reg) = map fst reg"
proof (cases "map_of reg jobId")
  case None
  then show ?thesis by (simp add: updateJobStatus_def)
next
  case (Some j)
  then have "map_of reg jobId \<noteq> None" by simp
  then have "jobId \<in> fst ` set reg" by (simp add: map_of_eq_None_iff)
  then have "map fst (AList.update jobId (j\<lparr>job_status := st\<rparr>) reg) = map fst reg"
    by (simp add: update_keys)
  with Some show ?thesis by (simp add: updateJobStatus_def)
qed

lemma length_updateJobStatus: "length (updateJobStatus jobId st reg) = length reg"
  using keys_updateJobStatus [of jobId st reg] by (metis length_map)

lemma length_registerJob_new:
  assumes "map_of reg (job_id job) = None"
  shows "length (registerJob job reg) = Suc (length reg)"
proof -
  from assms have "job_id job \<notin> set (map fst reg)" by (simp add: map_of_eq_None_iff)
  then have "map fst (registerJob job reg) = map fst reg @ [job_id job]"
    by (simp add: registerJob_def update_keys)
  then have "length (map fst (registerJob job reg)) = Suc (length reg)" by simp
  then show ?thesis by simp
qed

text \<open>The operations keep the keys of the map distinct.\<close>

lemma registry_keys_distinct:
  assumes "distinct (map fst reg)"
  shows "distinct (map fst (registerJob job reg))"
    and "distinct (map fst (updateJobStatus jobId st reg))"
    and "distinct (map fst (removeJob jobId reg))"
  using assms
  by (simp_all add: registerJob_def removeJob_def distinct_update distinct_delete
      keys_updateJobStatus)

text \<open>
  Claim C9. \<^verbatim>\<open>registerJob\<close> stores the job under its id and touches no other key (and the
  count grows by one when the id is new); \<^verbatim>\<open>updateJobStatus\<close> on a present job changes
  that job's status field only: its other fields, every other job, the count and the order
  of the keys stay, and on an absent job the registry is returned as it was;
  \<^verbatim>\<open>removeJob\<close> deletes the key whatever the registry holds and touches no other key;
  the count and the list reads leave the registry as it was.
\<close>

theorem registry_frame:
  "map_of (registerJob job reg) (job_id job) = Some job
   \<and> (\<forall>k. k \<noteq> job_id job \<longrightarrow> map_of (registerJob job reg) k = map_of reg k)
   \<and> (map_of reg (job_id job) = None \<longrightarrow>
        getActiveJobCount (registerJob job reg) = Suc (getActiveJobCount reg))
   \<and> (\<forall>j. map_of reg jobId = Some j \<longrightarrow>
        map_of (updateJobStatus jobId st reg) jobId = Some (j\<lparr>job_status := st\<rparr>))
   \<and> (\<forall>k. k \<noteq> jobId \<longrightarrow> map_of (updateJobStatus jobId st reg) k = map_of reg k)
   \<and> getActiveJobCount (updateJobStatus jobId st reg) = getActiveJobCount reg
   \<and> map fst (updateJobStatus jobId st reg) = map fst reg
   \<and> (map_of reg jobId = None \<longrightarrow> updateJobStatus jobId st reg = reg)
   \<and> map_of (removeJob jobId reg) jobId = None
   \<and> (\<forall>k. k \<noteq> jobId \<longrightarrow> map_of (removeJob jobId reg) k = map_of reg k)
   \<and> snd (count_op reg) = reg
   \<and> snd (list_op reg) = reg"
  by (simp add: map_of_registerJob map_of_removeJob map_of_updateJobStatus
      keys_updateJobStatus length_updateJobStatus length_registerJob_new
      getActiveJobCount_def count_op_def list_op_def)
     (simp add: updateJobStatus_def)

theorem registry_frame_witness:
  "map_of (activeJobs busy_world) ''job-9'' =
     Some (other_job\<lparr>job_id := ''job-9'', job_status := Uploading\<rparr>)
   \<and> map_of (updateJobStatus ''job-9'' Completed (activeJobs busy_world)) ''job-9'' =
     Some (other_job\<lparr>job_id := ''job-9'', job_status := Completed\<rparr>)
   \<and> map_of (updateJobStatus ''job-9'' Completed (activeJobs busy_world)) ''job-0'' =
     Some other_job
   \<and> map_of (removeJob ''job-9'' (activeJobs busy_world)) ''job-0'' = Some other_job
   \<and> map_of (activeJobs busy_world) ''job-7'' = None
   \<and> updateJobStatus ''job-7'' Failed (activeJobs busy_world) = activeJobs busy_world
   \<and> getActiveJobCount (registerJob (other_job\<lparr>job_id := ''job-7''\<rparr>) (activeJobs busy_world))
       = 3"
  using registry_frame [of "other_job\<lparr>job_id := ''job-7''\<rparr>" "activeJobs busy_world"
      "''job-9''" Completed]
    registry_frame [of other_job "activeJobs busy_world" "''job-7''" Failed]
  by (simp add: busy_world_def other_job_def getActiveJobCount_def)

section \<open>What every run of a handler ends with\<close>

lemma catch_finally_absent:
  "catch_finally env jobId e w = (res, w') \<Longrightarrow> map_of (activeJobs w') jobId = None"
  by (auto simp: catch_finally_def Let_def w_removeJob_def map_of_removeJob)

lemma send_success_absent:
  "send_success jobId r w = (res, w') \<Longrightarrow> map_of (activeJobs w') jobId = None"
  by (auto simp: send_success_def Let_def w_removeJob_def map_of_removeJob)

lemma catch_finally_last:
  "catch_finally env jobId e w = (res, w') \<Longrightarrow> last (trace w') = JobRemoved jobId"
  by (auto simp: catch_finally_def Let_def w_removeJob_def)

lemma send_success_last:
  "send_success jobId r w = (res, w') \<Longrightarrow> last (trace w') = JobRemoved jobId"
  by (auto simp: send_success_def Let_def w_removeJob_def)

lemma catch_finally_status:
  "catch_finally env jobId e w = (res, w') \<Longrightarrow>
     \<exists>r. res_body res = Failure r \<and> res_status res = getStatusCode (err_error r)"
  by (auto simp: catch_finally_def Let_def)

lemma send_success_body:
  "send_success jobId r w = (res, w') \<Longrightarrow> res_body res = Success r \<and> res_status res = 200"
  by (auto simp: send_success_def Let_def)

lemma post_pdf_shape:
  "post_pdf env supabase x jobId body w = Some rw \<Longrightarrow>
     (\<exists>e w1. rw = catch_finally env jobId e w1) \<or> (\<exists>r w1. rw = send_success jobId r w1)"
  unfolding post_pdf_def Let_def
  by (auto split: parsed.splits option.splits sum.splits prod.splits if_splits)

lemma post_image_shape:
  "post_image env supabase x jobId body w = Some rw \<Longrightarrow>
     (\<exists>e w1. rw = catch_finally env jobId e w1) \<or> (\<exists>r w1. rw = send_success jobId r w1)"
  unfolding post_image_def Let_def
  by (auto split: parsed.splits option.splits sum.splits prod.splits if_splits)

text \<open>A handler returns unless the page's fonts never become ready.\<close>

lemma waitForRenderReady_returns:
  "fontsReadyAt page \<noteq> None \<Longrightarrow> \<exists>r. waitForRenderReady page timeout = Some r"
  by (auto simp: waitForRenderReady_def Let_def split: prod.splits)

lemma renderPdf_returns:
  "fontsReadyAt page \<noteq> None \<Longrightarrow> \<exists>r. renderPdf env page request jobId = Some r"
  using waitForRenderReady_returns [of page "READY_FLAG_TIMEOUT_MS env"]
  by (auto simp: renderPdf_def split: sum.splits option.splits)

lemma renderImage_returns:
  "fontsReadyAt page \<noteq> None \<Longrightarrow> \<exists>r. renderImage env page request jobId = Some r"
  using waitForRenderReady_returns [of page "READY_FLAG_TIMEOUT_MS env"]
  by (auto simp: renderImage_def split: sum.splits option.splits)

lemma post_pdf_returns:
  assumes "fontsReadyAt (x_page x) \<noteq> None"
  shows "\<exists>rw. post_pdf env supabase x jobId body w = Some rw"
proof (cases "PdfRenderRequestSchema_parse body")
  case (Invalid es)
  then show ?thesis by (simp add: post_pdf_def)
next
  case (Valid request)
  from assms obtain r where "renderPdf env (x_page x) request jobId = Some r"
    using renderPdf_returns by blast
  with Valid show ?thesis
    unfolding post_pdf_def Let_def
    by (auto split: sum.splits prod.splits)
qed

lemma post_image_returns:
  assumes "fontsReadyAt (x_page x) \<noteq> None"
  shows "\<exists>rw. post_image env supabase x jobId body w = Some rw"
proof (cases "ImageRenderRequestSchema_parse body")
  case (Invalid es)
  then show ?thesis by (simp add: post_image_def)
next
  case (Valid request)
  from assms obtain r where "renderImage env (x_page x) request jobId = Some r"
    using renderImage_returns by blast
  with Valid show ?thesis
    unfolding post_image_def Let_def
    by (auto split: sum.splits prod.splits)
qed

text \<open>
  Claim C2. Whatever the body, the browser and the storage backend do (a validation
  failure, a rejected render, an upload that throws, or success), and whatever other
  requests do to the registry while this one is suspended, a handler that returns leaves
  the registry without an entry for its job id, the removal being the last thing it does;
  and the handler does return whenever the page's fonts become ready.
\<close>

theorem job_removed_when_request_finishes:
  "(post_pdf env supabase x jobId body w = Some (res, w') \<longrightarrow>
      map_of (activeJobs w') jobId = None \<and> last (trace w') = JobRemoved jobId)
   \<and> (post_image env supabase x jobId body w = Some (res, w') \<longrightarrow>
      map_of (activeJobs w') jobId = None \<and> last (trace w') = JobRemoved jobId)
   \<and> (fontsReadyAt (x_page x) \<noteq> None \<longrightarrow>
      (\<exists>r v. post_pdf env supabase x jobId body w = Some (r, v))
      \<and> (\<exists>r v. post_image env supabase x jobId body w = Some (r, v)))"
proof (intro conjI impI)
  assume "post_pdf env supabase x jobId body w = Some (res, w')"
  from post_pdf_shape [OF this]
  show "map_of (activeJobs w') jobId = None" and "last (trace w') = JobRemoved jobId"
    by (metis catch_finally_absent send_success_absent,
        metis catch_finally_last send_success_last)
next
  assume "post_image env supabase x jobId body w = Some (res, w')"
  from post_image_shape [OF this]
  show "map_of (activeJobs w') jobId = None" and "last (trace w') = JobRemoved jobId"
    by (metis catch_finally_absent send_success_absent,
        metis catch_finally_last send_success_last)
next
  assume "fontsReadyAt (x_page x) \<noteq> None"
  then show "\<exists>r v. post_pdf env supabase x jobId body w = Some (r, v)"
    and "\<exists>r v. post_image env supabase x jobId body w = Some (r, v)"
    using post_pdf_returns post_image_returns by (metis surj_pair)+
qed

theorem job_removed_when_request_finishes_witness:
  "(\<exists>res w'. post_pdf sample_env (Some (Client ''u'' ''k''))
        (sample_external\<lparr>x_storage := throwing_storage\<rparr>) ''job-1'' pdf_upload_body busy_world
        = Some (res, w')
      \<and> map_of (activeJobs w') ''job-1'' = None \<and> last (trace w') = JobRemoved ''job-1'')
   \<and> (\<exists>res w'. post_image sample_env None sample_external ''job-2'' image_bad_body busy_world
        = Some (res, w')
      \<and> map_of (activeJobs w') ''job-2'' = None \<and> last (trace w') = JobRemoved ''job-2'')
   \<and> fontsReadyAt (x_page sample_external) \<noteq> None"
proof -
  have "\<exists>res w'. post_pdf sample_env (Some (Client ''u'' ''k''))
        (sample_external\<lparr>x_storage := throwing_storage\<rparr>) ''job-1'' pdf_upload_body busy_world
        = Some (res, w')"
    by (simp add: post_pdf_def sample_defs zod_defs engine_defs Let_def catch_finally_def)
  then obtain res1 w1 where run1: "post_pdf sample_env (Some (Client ''u'' ''k''))
        (sample_external\<lparr>x_storage := throwing_storage\<rparr>) ''job-1'' pdf_upload_body busy_world
        = Some (res1, w1)"
    by blast
  have "\<exists>res w'. post_image sample_env None sample_external ''job-2'' image_bad_body busy_world
        = Some (res, w')"
    by (simp add: post_image_def sample_defs zod_defs Let_def catch_finally_def)
  then obtain res2 w2 where run2:
    "post_image sample_env None sample_external ''job-2'' image_bad_body busy_world
        = Some (res2, w2)"
    by blast
  have fonts: "fontsReadyAt (x_page sample_external) \<noteq> None"
    by (simp add: sample_defs)
  from run1 run2 fonts
    job_removed_when_request_finishes [of sample_env "Some (Client ''u'' ''k'')"
      "sample_external\<lparr>x_storage := throwing_storage\<rparr>" "''job-1''" pdf_upload_body
      busy_world res1 w1]
    job_removed_when_request_finishes [of sample_env None sample_external "''job-2''"
      image_bad_body busy_world res2 w2]
  show ?thesis by blast
qed

section \<open>Status codes\<close>

lemma apiKeyAuth_status:
  "apiKeyAuth env req = Respond res \<Longrightarrow>
     \<exists>r. res_body res = Failure r \<and> res_status res = getStatusCode (err_error r)"
  by (auto simp: apiKeyAuth_def Let_def split: if_splits)

lemma concurrencyLimit_status:
  "concurrencyLimit env jobs = Respond res \<Longrightarrow>
     \<exists>r. res_body res = Failure r \<and> res_status res = getStatusCode (err_error r)"
  by (auto simp: concurrencyLimit_def split: if_splits)

text \<open>
  Claim C3. \<^verbatim>\<open>getStatusCode\<close> is the table of the specification, and every failure
  response of the \<^verbatim>\<open>/render\<close> chain (authentication, admission, either handler) carries
  the status that table gives for its error code. (The 404 answer for a path the router
  does not serve is no \<^verbatim>\<open>RenderErrorResponse\<close>: its \<^verbatim>\<open>NOT_FOUND\<close> is not one of the
  error codes.)
\<close>

theorem status_derived_from_error_code:
  "getStatusCode VALIDATION_FAILED = 400 \<and> getStatusCode UNAUTHORIZED = 401
   \<and> getStatusCode FORBIDDEN = 403 \<and> getStatusCode CONCURRENCY_LIMIT = 503
   \<and> getStatusCode READY_FLAG_TIMEOUT = 408 \<and> getStatusCode NAVIGATION_TIMEOUT = 408
   \<and> getStatusCode STORAGE_FAILED = 500 \<and> getStatusCode RENDER_FAILED = 500
   \<and> getStatusCode INTERNAL_ERROR = 500
   \<and> (\<forall>r. render_app env supabase x jobId req w = Some (res, w') \<and> res_body res = Failure r
          \<longrightarrow> res_status res = getStatusCode (err_error r))"
proof -
  have "res_status res = getStatusCode (err_error r)"
    if run: "render_app env supabase x jobId req w = Some (res, w')"
      and body: "res_body res = Failure r" for r
  proof (cases "apiKeyAuth env req")
    case (Respond a)
    with run have "a = res" by (simp add: render_app_def)
    with Respond body show ?thesis using apiKeyAuth_status by fastforce
  next
    case Next
    note auth = this
    show ?thesis
    proof (cases "concurrencyLimit env (activeJobs w)")
      case (Respond a)
      with run auth have "a = res" by (simp add: render_app_def)
      with Respond body show ?thesis using concurrencyLimit_status by fastforce
    next
      case Next
      show ?thesis
      proof (cases "req_route req")
        case PostPdf
        with run auth Next
        have "post_pdf env supabase x jobId (req_body req) w = Some (res, w')"
          by (simp add: render_app_def)
        from post_pdf_shape [OF this] body show ?thesis
          by (metis catch_finally_status send_success_body ResponseBody.inject(2)
              ResponseBody.distinct(1))
      next
        case PostImage
        with run auth Next
        have "post_image env supabase x jobId (req_body req) w = Some (res, w')"
          by (simp add: render_app_def)
        from post_image_shape [OF this] body show ?thesis
          by (metis catch_finally_status send_success_body ResponseBody.inject(2)
              ResponseBody.distinct(1))
      next
        case OtherRoute
        with run auth Next body show ?thesis by (auto simp: render_app_def)
      qed
    qed
  qed
  then show ?thesis by simp
qed

theorem status_derived_from_error_code_witness:
  "\<exists>res w' r. render_app sample_env None sample_external ''job-1''
         (authorized PostImage image_wide_body) empty_world = Some (res, w')
     \<and> res_body res = Failure r \<and> err_error r = VALIDATION_FAILED
     \<and> res_status res = getStatusCode (err_error r) \<and> res_status res = 400"
proof -
  have "\<exists>res w' r. render_app sample_env None sample_external ''job-1''
         (authorized PostImage image_wide_body) empty_world = Some (res, w')
     \<and> res_body res = Failure r \<and> err_error r = VALIDATION_FAILED"
    by (simp add: render_app_def apiKeyAuth_def concurrencyLimit_def post_image_def
        sample_defs zod_defs Let_def catch_finally_def handleRenderError_def)
  then obtain res w' r where
    run: "render_app sample_env None sample_external ''job-1''
         (authorized PostImage image_wide_body) empty_world = Some (res, w')"
    and body: "res_body res = Failure r" and code: "err_error r = VALIDATION_FAILED"
    by blast
  from run body
    status_derived_from_error_code [of sample_env None sample_external "''job-1''"
      "authorized PostImage image_wide_body" empty_world res w']
  have "res_status res = getStatusCode (err_error r)" by blast
  with run body code show ?thesis by auto
qed

section \<open>Admission\<close>

text \<open>
  Claim C1. When the registry's count has reached \<^verbatim>\<open>MAX_CONCURRENT_JOBS\<close>, the gate
  answers 503 with \<^verbatim>\<open>CONCURRENCY_LIMIT\<close>, and the chain returns with the world as it was
  (no job registered, no engine call, nothing logged), whatever the request; a request
  that has passed \<^verbatim>\<open>apiKeyAuth\<close> gets exactly the gate's answer. Below the maximum the gate
  calls \<^verbatim>\<open>next()\<close>, so such a request reaches its route handler. The maximum is 2 when
  unset, and a configured value is accepted exactly from 1 to 10.
\<close>

theorem admission_gate:
  "(MAX_CONCURRENT_JOBS env \<le> int (getActiveJobCount (activeJobs w)) \<longrightarrow>
      (\<exists>r e. concurrencyLimit env (activeJobs w) = Respond r \<and> res_status r = 503
          \<and> res_body r = Failure e \<and> err_error e = CONCURRENCY_LIMIT)
      \<and> (\<exists>res. render_app env supabase x jobId req w = Some (res, w))
      \<and> (apiKeyAuth env req = Next \<longrightarrow>
           (\<exists>res e. render_app env supabase x jobId req w = Some (res, w)
              \<and> res_status res = 503 \<and> res_body res = Failure e
              \<and> err_error e = CONCURRENCY_LIMIT)))
   \<and> (int (getActiveJobCount (activeJobs w)) < MAX_CONCURRENT_JOBS env \<longrightarrow>
      concurrencyLimit env (activeJobs w) = Next
      \<and> (apiKeyAuth env req = Next \<longrightarrow>
           render_app env supabase x jobId req w =
             (case req_route req of
                PostPdf \<Rightarrow> post_pdf env supabase x jobId (req_body req) w
              | PostImage \<Rightarrow> post_image env supabase x jobId (req_body req) w
              | OtherRoute \<Rightarrow> Some (\<lparr>res_status = 404, res_body = NotFound\<rparr>, w))))
   \<and> parse_MAX_CONCURRENT_JOBS Unset = Some 2
   \<and> (parse_MAX_CONCURRENT_JOBS (Num n) = Some m \<longleftrightarrow> m = n \<and> 1 \<le> n \<and> n \<le> 10)"
proof (intro conjI impI)
  assume full: "MAX_CONCURRENT_JOBS env \<le> int (getActiveJobCount (activeJobs w))"
  then show gate: "\<exists>r e. concurrencyLimit env (activeJobs w) = Respond r \<and> res_status r = 503
          \<and> res_body r = Failure e \<and> err_error e = CONCURRENCY_LIMIT"
    by (simp add: concurrencyLimit_def getActiveJobCount_def)
  then show "\<exists>res. render_app env supabase x jobId req w = Some (res, w)"
    by (cases "apiKeyAuth env req") (auto simp: render_app_def)
  assume "apiKeyAuth env req = Next"
  with gate show "\<exists>res e. render_app env supabase x jobId req w = Some (res, w)
      \<and> res_status res = 503 \<and> res_body res = Failure e \<and> err_error e = CONCURRENCY_LIMIT"
    by (auto simp: render_app_def)
next
  assume room: "int (getActiveJobCount (activeJobs w)) < MAX_CONCURRENT_JOBS env"
  then show gate: "concurrencyLimit env (activeJobs w) = Next"
    by (simp add: concurrencyLimit_def getActiveJobCount_def)
  assume "apiKeyAuth env req = Next"
  with gate show "render_app env supabase x jobId req w =
             (case req_route req of
                PostPdf \<Rightarrow> post_pdf env supabase x jobId (req_body req) w
              | PostImage \<Rightarrow> post_image env supabase x jobId (req_body req) w
              | OtherRoute \<Rightarrow> Some (\<lparr>res_status = 404, res_body = NotFound\<rparr>, w))"
    by (simp add: render_app_def)
next
  show "parse_MAX_CONCURRENT_JOBS Unset = Some 2"
    by (simp add: parse_MAX_CONCURRENT_JOBS_def)
  show "parse_MAX_CONCURRENT_JOBS (Num n) = Some m \<longleftrightarrow> m = n \<and> 1 \<le> n \<and> n \<le> 10"
    by (auto simp: parse_MAX_CONCURRENT_JOBS_def)
qed

theorem admission_gate_witness:
  "MAX_CONCURRENT_JOBS sample_env \<le> int (getActiveJobCount (activeJobs busy_world))
   \<and> apiKeyAuth sample_env (authorized PostPdf pdf_inline_body) = Next
   \<and> (\<exists>res e. render_app sample_env None sample_external ''job-1''
          (authorized PostPdf pdf_inline_body) busy_world = Some (res, busy_world)
        \<and> res_status res = 503 \<and> res_body res = Failure e
        \<and> err_error e = CONCURRENCY_LIMIT)
   \<and> int (getActiveJobCount (activeJobs empty_world)) < MAX_CONCURRENT_JOBS sample_env
   \<and> render_app sample_env None sample_external ''job-1''
        (authorized PostPdf pdf_inline_body) empty_world =
      post_pdf sample_env None sample_external ''job-1'' pdf_inline_body empty_world
   \<and> parse_MAX_CONCURRENT_JOBS (Num 10) = Some 10
   \<and> parse_MAX_CONCURRENT_JOBS (Num 11) = None"
proof -
  have full: "MAX_CONCURRENT_JOBS sample_env \<le> int (getActiveJobCount (activeJobs busy_world))"
    by (simp add: sample_defs getActiveJobCount_def)
  have room: "int (getActiveJobCount (activeJobs empty_world)) < MAX_CONCURRENT_JOBS sample_env"
    by (simp add: sample_defs getActiveJobCount_def)
  have auth: "apiKeyAuth sample_env (authorized PostPdf pdf_inline_body) = Next"
    by (simp add: apiKeyAuth_def sample_defs)
  have route: "req_route (authorized PostPdf pdf_inline_body) = PostPdf"
    "req_body (authorized PostPdf pdf_inline_body) = pdf_inline_body"
    by (simp_all add: authorized_def)
  have "parse_MAX_CONCURRENT_JOBS (Num 11) = None"
    by (simp add: parse_MAX_CONCURRENT_JOBS_def)
  with full room auth route
    admission_gate [of sample_env busy_world None sample_external "''job-1''"
      "authorized PostPdf pdf_inline_body" 10 10]
    admission_gate [of sample_env empty_world None sample_external "''job-1''"
      "authorized PostPdf pdf_inline_body" 10 10]
  show ?thesis by simp
qed

section \<open>The log of a run\<close>

lemma trace_w_others [simp]: "trace (w_others f w) = trace w"
  by (simp add: w_others_def)

lemma trace_w_emit [simp]: "trace (w_emit evs w) = trace w @ evs"
  by (simp add: w_emit_def)

lemma trace_w_registerJob [simp]:
  "trace (w_registerJob job w) = trace w @ [JobRegistered (job_id job)]"
  by (simp add: w_registerJob_def)

lemma trace_w_removeJob [simp]: "trace (w_removeJob jobId w) = trace w @ [JobRemoved jobId]"
  by (simp add: w_removeJob_def)

lemma trace_w_updateJobStatus:
  "trace (w_updateJobStatus jobId st w) =
     trace w @ (case map_of (activeJobs w) jobId of None \<Rightarrow> [] | Some _ \<Rightarrow> [StatusSet jobId st])"
  by (simp add: w_updateJobStatus_def)

lemma activeJobs_w_removeJob [simp]:
  "map_of (activeJobs (w_removeJob jobId w)) k = (if k = jobId then None else map_of (activeJobs w) k)"
  by (simp add: w_removeJob_def map_of_removeJob)

lemma no_storage_call_in_status [simp]:
  "filter is_storage_call (case v of None \<Rightarrow> [] | Some _ \<Rightarrow> [StatusSet jobId st]) = []"
  by (cases v) simp_all

lemma new_events_append [simp]:
  "trace w' = trace w @ evs \<Longrightarrow> new_events w w' = evs"
  by (simp add: new_events_def)

section \<open>Storage that was never configured\<close>

lemma initStorage_unconfigured:
  "SUPABASE_URL env = None \<or> SUPABASE_URL env = Some [] \<or>
   SUPABASE_SERVICE_ROLE_KEY env = None \<or> SUPABASE_SERVICE_ROLE_KEY env = Some [] \<Longrightarrow>
   initStorage env None = None"
  by (auto simp: initStorage_def split: option.splits)

lemma uploadFile_unconfigured:
  "uploadFile env None sx clk buffer filename contentType storagePath jobId =
     (Inl (Error ''STORAGE_FAILED: Supabase not configured. Set SUPABASE_URL and SUPABASE_SERVICE_ROLE_KEY or use uploadToStorage: false''), [])"
  by (simp add: uploadFile_def getClient_def)

lemma not_configured_classified:
  "handleRenderError nodeEnv
     (Error ''STORAGE_FAILED: Supabase not configured. Set SUPABASE_URL and SUPABASE_SERVICE_ROLE_KEY or use uploadToStorage: false'') jobId =
   \<lparr>err_error = STORAGE_FAILED,
    err_message = ''Supabase not configured. Set SUPABASE_URL and SUPABASE_SERVICE_ROLE_KEY or use uploadToStorage: false'',
    err_jobId = Some jobId, err_details = None\<rparr>"
  by (simp add: handleRenderError_def startsWith_def)

lemma post_pdf_unconfigured:
  assumes "PdfRenderRequestSchema_parse body = Valid request"
    and "pdf_uploadToStorage request"
    and "renderPdf env (x_page x) request jobId = Some (Inr buffer)"
  shows "\<exists>res w' e. post_pdf env None x jobId body w = Some (res, w')
           \<and> res_status res = 500 \<and> res_body res = Failure e \<and> err_error e = STORAGE_FAILED
           \<and> filter is_storage_call (new_events w w') = []
           \<and> map_of (activeJobs w') jobId = None"
proof -
  obtain w1 where run: "post_pdf env None x jobId body w =
      Some (catch_finally env jobId
        (Error ''STORAGE_FAILED: Supabase not configured. Set SUPABASE_URL and SUPABASE_SERVICE_ROLE_KEY or use uploadToStorage: false'')
        w1)"
    and log: "\<exists>evs. trace w1 = trace w @ evs \<and> filter is_storage_call evs = []"
    using assms
    by (simp add: post_pdf_def Let_def uploadFile_unconfigured trace_w_updateJobStatus)
  from log obtain evs where evs: "trace w1 = trace w @ evs" "filter is_storage_call evs = []"
    by blast
  let ?w' = "w_removeJob jobId (w_updateJobStatus jobId Failed w1)"
  have "trace ?w' = trace w @ (evs @
      (case map_of (activeJobs w1) jobId of None \<Rightarrow> [] | Some _ \<Rightarrow> [StatusSet jobId Failed])
      @ [JobRemoved jobId])"
    by (simp add: trace_w_updateJobStatus evs)
  then have "new_events w ?w' = evs @
      (case map_of (activeJobs w1) jobId of None \<Rightarrow> [] | Some _ \<Rightarrow> [StatusSet jobId Failed])
      @ [JobRemoved jobId]"
    by (rule new_events_append)
  then have "filter is_storage_call (new_events w ?w') = []"
    by (simp add: evs)
  with run show ?thesis
    by (simp add: catch_finally_def Let_def not_configured_classified)
qed

lemma post_image_unconfigured:
  assumes "ImageRenderRequestSchema_parse body = Valid request"
    and "img_uploadToStorage request"
    and "renderImage env (x_page x) request jobId = Some (Inr buffer)"
  shows "\<exists>res w' e. post_image env None x jobId body w = Some (res, w')
           \<and> res_status res = 500 \<and> res_body res = Failure e \<and> err_error e = STORAGE_FAILED
           \<and> filter is_storage_call (new_events w w') = []
           \<and> map_of (activeJobs w') jobId = None"
proof -
  obtain w1 where run: "post_image env None x jobId body w =
      Some (catch_finally env jobId
        (Error ''STORAGE_FAILED: Supabase not configured. Set SUPABASE_URL and SUPABASE_SERVICE_ROLE_KEY or use uploadToStorage: false'')
        w1)"
    and log: "\<exists>evs. trace w1 = trace w @ evs \<and> filter is_storage_call evs = []"
    using assms
    by (simp add: post_image_def Let_def uploadFile_unconfigured trace_w_updateJobStatus)
  from log obtain evs where evs: "trace w1 = trace w @ evs" "filter is_storage_call evs = []"
    by blast
  let ?w' = "w_removeJob jobId (w_updateJobStatus jobId Failed w1)"
  have "trace ?w' = trace w @ (evs @
      (case map_of (activeJobs w1) jobId of None \<Rightarrow> [] | Some _ \<Rightarrow> [StatusSet jobId Failed])
      @ [JobRemoved jobId])"
    by (simp add: trace_w_updateJobStatus evs)
  then have "new_events w ?w' = evs @
      (case map_of (activeJobs w1) jobId of None \<Rightarrow> [] | Some _ \<Rightarrow> [StatusSet jobId Failed])
      @ [JobRemoved jobId]"
    by (rule new_events_append)
  then have "filter is_storage_call (new_events w ?w') = []"
    by (simp add: evs)
  with run show ?thesis
    by (simp add: catch_finally_def Let_def not_configured_classified)
qed

text \<open>
  Claim C10. If a credential is missing (unset or empty) when \<^verbatim>\<open>initStorage\<close> runs, no
  client is created, and then every PDF or image request that validates with
  \<^verbatim>\<open>uploadToStorage\<close> true and whose render returns bytes is answered 500 with
  \<^verbatim>\<open>STORAGE_FAILED\<close>; the run makes no call to the storage backend, and the job is
  removed.
\<close>

theorem unconfigured_storage_fails_before_upload:
  "(SUPABASE_URL env = None \<or> SUPABASE_URL env = Some [] \<or>
    SUPABASE_SERVICE_ROLE_KEY env = None \<or> SUPABASE_SERVICE_ROLE_KEY env = Some []) \<longrightarrow>
   initStorage env None = None
   \<and> (\<forall>request buffer.
        PdfRenderRequestSchema_parse body = Valid request \<and> pdf_uploadToStorage request
        \<and> renderPdf env (x_page x) request jobId = Some (Inr buffer) \<longrightarrow>
        (\<exists>res w' e. post_pdf env (initStorage env None) x jobId body w = Some (res, w')
           \<and> res_status res = 500 \<and> res_body res = Failure e \<and> err_error e = STORAGE_FAILED
           \<and> filter is_storage_call (new_events w w') = []
           \<and> map_of (activeJobs w') jobId = None))
   \<and> (\<forall>request buffer.
        ImageRenderRequestSchema_parse body = Valid request \<and> img_uploadToStorage request
        \<and> renderImage env (x_page x) request jobId = Some (Inr buffer) \<longrightarrow>
        (\<exists>res w' e. post_image env (initStorage env None) x jobId body w = Some (res, w')
           \<and> res_status res = 500 \<and> res_body res = Failure e \<and> err_error e = STORAGE_FAILED
           \<and> filter is_storage_call (new_events w w') = []
           \<and> map_of (activeJobs w') jobId = None))"
proof (intro impI)
  assume "SUPABASE_URL env = None \<or> SUPABASE_URL env = Some [] \<or>
    SUPABASE_SERVICE_ROLE_KEY env = None \<or> SUPABASE_SERVICE_ROLE_KEY env = Some []"
  then have none: "initStorage env None = None" by (rule initStorage_unconfigured)
  show "initStorage env None = None
   \<and> (\<forall>request buffer.
        PdfRenderRequestSchema_parse body = Valid request \<and> pdf_uploadToStorage request
        \<and> renderPdf env (x_page x) request jobId = Some (Inr buffer) \<longrightarrow>
        (\<exists>res w' e. post_pdf env (initStorage env None) x jobId body w = Some (res, w')
           \<and> res_status res = 500 \<and> res_body res = Failure e \<and> err_error e = STORAGE_FAILED
           \<and> filter is_storage_call (new_events w w') = []
           \<and> map_of (activeJobs w') jobId = None))
   \<and> (\<forall>request buffer.
        ImageRenderRequestSchema_parse body = Valid request \<and> img_uploadToStorage request
        \<and> renderImage env (x_page x) request jobId = Some (Inr buffer) \<longrightarrow>
        (\<exists>res w' e. post_image env (initStorage env None) x jobId body w = Some (res, w')
           \<and> res_status res = 500 \<and> res_body res = Failure e \<and> err_error e = STORAGE_FAILED
           \<and> filter is_storage_call (new_events w w') = []
           \<and> map_of (activeJobs w') jobId = None))"
    unfolding none using post_pdf_unconfigured post_image_unconfigured by blast
qed

theorem unconfigured_storage_fails_before_upload_witness:
  "SUPABASE_URL sample_env = None
   \<and> (\<exists>request. PdfRenderRequestSchema_parse pdf_upload_body = Valid request
         \<and> pdf_uploadToStorage request
         \<and> renderPdf sample_env (x_page sample_external) request ''job-1''
             = Some (Inr [37, 80, 68, 70, 45]))
   \<and> (\<exists>res w' e. post_pdf sample_env (initStorage sample_env None) sample_external ''job-1''
          pdf_upload_body busy_world = Some (res, w')
        \<and> res_status res = 500 \<and> res_body res = Failure e \<and> err_error e = STORAGE_FAILED
        \<and> filter is_storage_call (new_events busy_world w') = []
        \<and> map_of (activeJobs w') ''job-1'' = None)
   \<and> (\<exists>request. ImageRenderRequestSchema_parse image_max_body = Valid request
         \<and> img_uploadToStorage request
         \<and> renderImage sample_env (x_page sample_external) request ''job-2''
             = Some (Inr [137, 80, 78, 71]))
   \<and> (\<exists>res w' e. post_image sample_env (initStorage sample_env None) sample_external ''job-2''
          image_max_body busy_world = Some (res, w')
        \<and> res_status res = 500 \<and> res_body res = Failure e \<and> err_error e = STORAGE_FAILED
        \<and> filter is_storage_call (new_events busy_world w') = []
        \<and> map_of (activeJobs w') ''job-2'' = None)"
proof -
  have url: "SUPABASE_URL sample_env = None" by (simp add: sample_env_def)
  have "\<exists>request. ImageRenderRequestSchema_parse image_max_body = Valid request
         \<and> img_uploadToStorage request
         \<and> renderImage sample_env (x_page sample_external) request ''job-2''
             = Some (Inr [137, 80, 78, 71])"
    by (simp add: sample_defs zod_defs engine_defs Let_def)
  then obtain image where
    image: "ImageRenderRequestSchema_parse image_max_body = Valid image"
      "img_uploadToStorage image"
      "renderImage sample_env (x_page sample_external) image ''job-2''
         = Some (Inr [137, 80, 78, 71])"
    by blast
  from url image
    unconfigured_storage_fails_before_upload [of sample_env image_max_body sample_external
      "''job-2''" busy_world]
  have second: "\<exists>res w' e. post_image sample_env (initStorage sample_env None) sample_external
          ''job-2'' image_max_body busy_world = Some (res, w')
        \<and> res_status res = 500 \<and> res_body res = Failure e \<and> err_error e = STORAGE_FAILED
        \<and> filter is_storage_call (new_events busy_world w') = []
        \<and> map_of (activeJobs w') ''job-2'' = None"
    by blast
  have "\<exists>request. PdfRenderRequestSchema_parse pdf_upload_body = Valid request
         \<and> pdf_uploadToStorage request
         \<and> renderPdf sample_env (x_page sample_external) request ''job-1''
             = Some (Inr [37, 80, 68, 70, 45])"
    by (simp add: sample_defs zod_defs engine_defs Let_def)
  then obtain request where
    req: "PdfRenderRequestSchema_parse pdf_upload_body = Valid request"
      "pdf_uploadToStorage request"
      "renderPdf sample_env (x_page sample_external) request ''job-1''
         = Some (Inr [37, 80, 68, 70, 45])"
    by blast
  from url req
    unconfigured_storage_fails_before_upload [of sample_env pdf_upload_body sample_external
      "''job-1''" busy_world]
  have first: "\<exists>res w' e. post_pdf sample_env (initStorage sample_env None) sample_external
          ''job-1'' pdf_upload_body busy_world = Some (res, w')
        \<and> res_status res = 500 \<and> res_body res = Failure e \<and> err_error e = STORAGE_FAILED
        \<and> filter is_storage_call (new_events busy_world w') = []
        \<and> map_of (activeJobs w') ''job-1'' = None"
    by blast
  from url req image first second show ?thesis by blast
qed

section \<open>What the client is told\<close>

text \<open>
  Claim C8, as stated, fails: in production a \<^verbatim>\<open>STORAGE_FAILED\<close> response carries the
  storage backend's own error text, so two uploads that differ only in that text give
  different client-facing messages; and outside production a navigation timeout is
  answered with the fixed message, not with the original one.
\<close>

theorem production_redaction_counterexample:
  "fst (uploadFile sample_env (Some (Client ''u'' ''k'')) bucket_missing_storage sample_clock
          [37, 80] ''a.pdf'' ''application/pdf'' None ''job-1'')
     = Inl (Error ''STORAGE_FAILED: Bucket not found'')
   \<and> fst (uploadFile sample_env (Some (Client ''u'' ''k'')) quota_storage sample_clock
          [37, 80] ''a.pdf'' ''application/pdf'' None ''job-1'')
     = Inl (Error ''STORAGE_FAILED: Quota exceeded for org-123'')
   \<and> NODE_ENV sample_env = Production
   \<and> err_message (handleRenderError (NODE_ENV sample_env)
        (Error ''STORAGE_FAILED: Bucket not found'') ''job-1'') = ''Bucket not found''
   \<and> err_message (handleRenderError (NODE_ENV sample_env)
        (Error ''STORAGE_FAILED: Quota exceeded for org-123'') ''job-1'')
       = ''Quota exceeded for org-123''
   \<and> err_message (handleRenderError Development
        (Error ''page.goto: Timeout 15000ms exceeded.'') ''job-1'')
       = ''Page navigation timed out''"
  by (simp add: uploadFile_def getClient_def sample_defs handleRenderError_def startsWith_def)

text \<open>
  Claim C8, amended. In production the message of a failure response whose code is not
  \<^verbatim>\<open>STORAGE_FAILED\<close> is fixed by the code: two errors classified to the same such code
  give the same message, whatever their internal text. A \<^verbatim>\<open>STORAGE_FAILED\<close> response
  carries the internal message without its first \<^verbatim>\<open>STORAGE_FAILED: \<close>, in every mode.
  Outside production a \<^verbatim>\<open>RENDER_FAILED\<close> response carries the original message, and a
  response with any other code than these two has the message it has in production. The
  code itself never depends on the mode.
\<close>

theorem message_redaction:
  "(err_error (handleRenderError Production e1 j1) = err_error (handleRenderError Production e2 j2)
      \<and> err_error (handleRenderError Production e1 j1) \<noteq> STORAGE_FAILED \<longrightarrow>
      err_message (handleRenderError Production e1 j1)
        = err_message (handleRenderError Production e2 j2))
   \<and> (err_error (handleRenderError nodeEnv (Error m) j) = STORAGE_FAILED \<longrightarrow>
      err_message (handleRenderError nodeEnv (Error m) j)
        = replace_first ''STORAGE_FAILED: '' [] m)
   \<and> (nodeEnv \<noteq> Production
      \<and> err_error (handleRenderError nodeEnv (Error m) j) = RENDER_FAILED \<longrightarrow>
      err_message (handleRenderError nodeEnv (Error m) j) = m)
   \<and> (err_error (handleRenderError nodeEnv e j) \<noteq> STORAGE_FAILED
      \<and> err_error (handleRenderError nodeEnv e j) \<noteq> RENDER_FAILED \<longrightarrow>
      err_message (handleRenderError nodeEnv e j)
        = err_message (handleRenderError Production e j))
   \<and> err_error (handleRenderError nodeEnv e j) = err_error (handleRenderError Production e j)"
proof -
  have fixed: "err_error (handleRenderError Production e j) \<noteq> STORAGE_FAILED \<Longrightarrow>
      err_message (handleRenderError Production e j)
        = fixed_message (err_error (handleRenderError Production e j))" for e j
    by (cases e) (auto simp: handleRenderError_def split: if_splits)
  have code: "err_error (handleRenderError nodeEnv e j)
      = err_error (handleRenderError Production e j)" for e j
    by (cases e) (simp_all add: handleRenderError_def)
  have storage: "err_error (handleRenderError nodeEnv (Error m) j) = STORAGE_FAILED \<Longrightarrow>
      err_message (handleRenderError nodeEnv (Error m) j)
        = replace_first ''STORAGE_FAILED: '' [] m"
    by (simp add: handleRenderError_def split: if_splits)
  have original: "nodeEnv \<noteq> Production \<Longrightarrow>
      err_error (handleRenderError nodeEnv (Error m) j) = RENDER_FAILED \<Longrightarrow>
      err_message (handleRenderError nodeEnv (Error m) j) = m"
    by (simp add: handleRenderError_def split: if_splits)
  have same: "err_error (handleRenderError nodeEnv e j) \<noteq> STORAGE_FAILED \<Longrightarrow>
      err_error (handleRenderError nodeEnv e j) \<noteq> RENDER_FAILED \<Longrightarrow>
      err_message (handleRenderError nodeEnv e j)
        = err_message (handleRenderError Production e j)"
    by (cases e) (auto simp: handleRenderError_def split: if_splits)
  from fixed [of e1 j1] fixed [of e2 j2] code storage original same
  show ?thesis by metis
qed

theorem message_redaction_witness:
  "err_error (handleRenderError Production (Error ''connect ECONNREFUSED 10.0.0.5:5432'') ''job-1'')
     = RENDER_FAILED
   \<and> err_error (handleRenderError Production (Error ''Cannot read properties of null'') ''job-2'')
     = RENDER_FAILED
   \<and> err_message (handleRenderError Production (Error ''connect ECONNREFUSED 10.0.0.5:5432'')
        ''job-1'')
     = err_message (handleRenderError Production (Error ''Cannot read properties of null'')
        ''job-2'')
   \<and> err_error (handleRenderError Production (Error ''STORAGE_FAILED: Bucket not found'') ''job-1'')
     = STORAGE_FAILED
   \<and> err_message (handleRenderError Production (Error ''STORAGE_FAILED: Bucket not found'')
        ''job-1'') = ''Bucket not found''
   \<and> err_message (handleRenderError Development (Error ''Cannot read properties of null'')
        ''job-2'') = ''Cannot read properties of null''
   \<and> err_message (handleRenderError Development NonError ''job-3'')
     = err_message (handleRenderError Production NonError ''job-3'')"
proof -
  have codes:
    "err_error (handleRenderError Production (Error ''connect ECONNREFUSED 10.0.0.5:5432'')
       ''job-1'') = RENDER_FAILED"
    "err_error (handleRenderError Production (Error ''Cannot read properties of null'') ''job-2'')
       = RENDER_FAILED"
    "err_error (handleRenderError Development (Error ''Cannot read properties of null'') ''job-2'')
       = RENDER_FAILED"
    "err_error (handleRenderError Production (Error ''STORAGE_FAILED: Bucket not found'') ''job-1'')
       = STORAGE_FAILED"
    "err_error (handleRenderError Development NonError ''job-3'') = INTERNAL_ERROR"
    by (simp_all add: handleRenderError_def startsWith_def)
  have strip: "replace_first ''STORAGE_FAILED: '' [] ''STORAGE_FAILED: Bucket not found''
      = ''Bucket not found''"
    by (simp add: startsWith_def)
  from codes strip
    message_redaction [of "Error ''connect ECONNREFUSED 10.0.0.5:5432''" "''job-1''"
      "Error ''Cannot read properties of null''" "''job-2''" Production
      "''STORAGE_FAILED: Bucket not found''" "''job-1''" NonError]
    message_redaction [of "Error ''connect ECONNREFUSED 10.0.0.5:5432''" "''job-1''"
      "Error ''Cannot read properties of null''" "''job-2''" Development
      "''Cannot read properties of null''" "''job-2''" NonError]
    message_redaction [of NonError "''job-3''" NonError "''job-3''" Development
      "''x''" "''job-3''" NonError]
  show ?thesis by simp
qed

section \<open>Base64 decodes what was encoded\<close>

text \<open>The sextets of a number below \<open>2 ^ 24\<close>, and the bytes of a group.\<close>

lemma sextets2: "(m::nat) mod 4096 = (m div 64 mod 64) * 64 + m mod 64"
  using mod_mult2_eq [of m 64 64] by simp

lemma sextets3:
  "(m::nat) mod 262144 = (m div 4096 mod 64) * 4096 + (m div 64 mod 64) * 64 + m mod 64"
proof -
  have "m mod 262144 = 4096 * (m div 4096 mod 64) + m mod 4096"
    using mod_mult2_eq [of m 4096 64] by simp
  then show ?thesis by (simp only: sextets2)
qed

lemma sextets4:
  "(m::nat) mod 16777216 =
     (m div 262144 mod 64) * 262144 + (m div 4096 mod 64) * 4096 + (m div 64 mod 64) * 64
     + m mod 64"
proof -
  have "m mod 16777216 = 262144 * (m div 262144 mod 64) + m mod 262144"
    using mod_mult2_eq [of m 262144 64] by simp
  then show ?thesis by (simp only: sextets3)
qed

lemma one_byte:
  assumes "(a::nat) < 256"
  shows "(((a * 65536) div 262144 mod 64) * 64 + (a * 65536) div 4096 mod 64) div 16 = a"
proof -
  let ?m = "a * 16"
  have m: "(a * 65536) div 4096 = ?m" by simp
  have "(a * 65536) div 262144 = (a * 65536) div 4096 div 64"
    by (simp only: div_mult2_eq [symmetric]) simp
  then have h: "(a * 65536) div 262144 = ?m div 64" by (simp only: m)
  have "?m mod 4096 = ?m" using assms by simp
  then have "(?m div 64 mod 64) * 64 + ?m mod 64 = ?m" by (simp only: sextets2 [symmetric])
  then show ?thesis by (simp only: m h)
qed

lemma two_bytes:
  assumes "(a::nat) < 256" "(b::nat) < 256"
  shows "(((a * 65536 + b * 256) div 262144 mod 64) * 4096
          + ((a * 65536 + b * 256) div 4096 mod 64) * 64
          + (a * 65536 + b * 256) div 64 mod 64) = a * 1024 + b * 4"
proof -
  let ?n = "a * 65536 + b * 256"
  let ?m = "a * 1024 + b * 4"
  have "?n = 64 * ?m" by simp
  then have m: "?n div 64 = ?m" by (simp only: nonzero_mult_div_cancel_left)
  have h1: "?n div 4096 = ?m div 64"
  proof -
    have "?n div 4096 = ?n div 64 div 64" by (simp only: div_mult2_eq [symmetric]) simp
    then show ?thesis by (simp only: m)
  qed
  have h2: "?n div 262144 = ?m div 4096"
  proof -
    have "?n div 262144 = ?n div 64 div 4096" by (simp only: div_mult2_eq [symmetric]) simp
    then show ?thesis by (simp only: m)
  qed
  have "?m < 262144" using assms by linarith
  then have "?m mod 262144 = ?m" by simp
  then have "(?m div 4096 mod 64) * 4096 + (?m div 64 mod 64) * 64 + ?m mod 64 = ?m"
    by (simp only: sextets3 [symmetric])
  then show ?thesis by (simp only: m h1 h2)
qed

lemma three_bytes:
  assumes "(a::nat) < 256" "(b::nat) < 256" "(c::nat) < 256"
  shows "((a * 65536 + b * 256 + c) div 262144 mod 64) * 262144
          + ((a * 65536 + b * 256 + c) div 4096 mod 64) * 4096
          + ((a * 65536 + b * 256 + c) div 64 mod 64) * 64
          + (a * 65536 + b * 256 + c) mod 64 = a * 65536 + b * 256 + c"
proof -
  let ?n = "a * 65536 + b * 256 + c"
  have "?n < 16777216" using assms by linarith
  then have "?n mod 16777216 = ?n" by simp
  then show ?thesis by (simp only: sextets4 [symmetric])
qed

lemma byte_of_unat: "(of_nat (unat x) :: byte) = x"
  by simp

lemma byte_drop_high: "(of_nat (k * 256 + m) :: byte) = of_nat m"
  by (simp only: word_of_nat_eq_iff take_bit_eq_mod) simp

lemma unat_byte_less: "unat (x :: byte) < 256"
  using unsigned_less [of x, where 'a = nat] by simp

lemma split_two:
  assumes "(b::nat) < 256"
  shows "(a * 1024 + b * 4) div 4 = a * 256 + b" and "(a * 1024 + b * 4) div 1024 = a"
proof -
  have "a * 1024 + b * 4 = 4 * (a * 256 + b)" by simp
  then show "(a * 1024 + b * 4) div 4 = a * 256 + b"
    by (simp only: nonzero_mult_div_cancel_left)
  have "b * 4 < 1024" using assms by simp
  then show "(a * 1024 + b * 4) div 1024 = a" by simp
qed

lemma split_three:
  assumes "(b::nat) < 256" "(c::nat) < 256"
  shows "(a * 65536 + b * 256 + c) div 65536 = a"
    and "(a * 65536 + b * 256 + c) div 256 = a * 256 + b"
proof -
  have "b * 256 + c < 65536" using assms by linarith
  then have "(a * 65536 + (b * 256 + c)) div 65536 = a" by simp
  then show "(a * 65536 + b * 256 + c) div 65536 = a" by (simp only: add.assoc)
  have "a * 65536 + b * 256 + c = (a * 256 + b) * 256 + c" by simp
  moreover have "((a * 256 + b) * 256 + c) div 256 = a * 256 + b" using assms(2) by simp
  ultimately show "(a * 65536 + b * 256 + c) div 256 = a * 256 + b" by (simp only:)
qed

lemma index_of_nth:
  "distinct xs \<Longrightarrow> i < length xs \<Longrightarrow> index_of (xs ! i) xs = Some i"
proof (induction xs arbitrary: i)
  case Nil
  then show ?case by simp
next
  case (Cons x xs)
  show ?case
  proof (cases i)
    case 0
    then show ?thesis by simp
  next
    case (Suc k)
    with Cons.prems have "k < length xs" "xs ! k \<noteq> x" by auto
    with Cons.IH [of k] Cons.prems Suc show ?thesis by simp
  qed
qed

lemma b64_alphabet_length: "length b64_alphabet = 64"
  by (simp add: b64_alphabet_def)

lemma b64_alphabet_distinct: "distinct b64_alphabet"
  by (simp add: b64_alphabet_def)

lemma b64_alphabet_no_pad: "CHR ''='' \<notin> set b64_alphabet"
  by (simp add: b64_alphabet_def)

lemma b64_value_char: "b64_value (b64_char n) = Some (n mod 64)"
  by (simp add: b64_value_def b64_char_def index_of_nth b64_alphabet_distinct
      b64_alphabet_length)

lemma b64_char_not_pad: "b64_char n \<noteq> CHR ''=''"
proof -
  have "b64_char n \<in> set b64_alphabet"
    by (simp add: b64_char_def b64_alphabet_length)
  with b64_alphabet_no_pad show ?thesis by metis
qed

lemma decode_group1:
  "fromBase64 [b64_char p, b64_char q, CHR ''='', CHR ''='']
     = Some [of_nat (((p mod 64) * 64 + q mod 64) div 16)]"
  by (simp add: b64_value_char)

lemma decode_group2:
  "fromBase64 [b64_char p, b64_char q, b64_char r, CHR ''='']
     = Some [of_nat (((p mod 64) * 4096 + (q mod 64) * 64 + r mod 64) div 1024),
             of_nat (((p mod 64) * 4096 + (q mod 64) * 64 + r mod 64) div 4)]"
  by (simp add: b64_value_char b64_char_not_pad Let_def)

lemma decode_group3:
  "fromBase64 (b64_char p # b64_char q # b64_char r # b64_char s # rest)
     = map_option
         (\<lambda>bs. of_nat (((p mod 64) * 262144 + (q mod 64) * 4096 + (r mod 64) * 64 + s mod 64)
                        div 65536)
             # of_nat (((p mod 64) * 262144 + (q mod 64) * 4096 + (r mod 64) * 64 + s mod 64)
                        div 256)
             # of_nat ((p mod 64) * 262144 + (q mod 64) * 4096 + (r mod 64) * 64 + s mod 64)
             # bs)
         (fromBase64 rest)"
  by (simp add: b64_value_char b64_char_not_pad Let_def)

lemma fromBase64_toBase64: "fromBase64 (toBase64 bs) = Some bs"
proof (induction bs rule: toBase64.induct)
  case 1
  then show ?case by simp
next
  case (2 a)
  let ?n = "unat a * 65536"
  have "toBase64 [a] = [b64_char (?n div 262144), b64_char (?n div 4096), CHR ''='', CHR ''='']"
    by (simp only: toBase64.simps Let_def)
  then have "fromBase64 (toBase64 [a])
      = Some [of_nat (((?n div 262144 mod 64) * 64 + ?n div 4096 mod 64) div 16)]"
    by (simp only: decode_group1)
  also have "\<dots> = Some [a]"
    by (simp only: one_byte [OF unat_byte_less] byte_of_unat)
  finally show ?case .
next
  case (3 a b)
  let ?n = "unat a * 65536 + unat b * 256"
  have low: "(of_nat ((unat a * 1024 + unat b * 4) div 4) :: byte) = b"
    by (simp only: split_two [OF unat_byte_less] byte_drop_high byte_of_unat)
  have high: "(of_nat ((unat a * 1024 + unat b * 4) div 1024) :: byte) = a"
    by (simp only: split_two [OF unat_byte_less] byte_of_unat)
  have "toBase64 [a, b]
      = [b64_char (?n div 262144), b64_char (?n div 4096), b64_char (?n div 64), CHR ''='']"
    by (simp only: toBase64.simps Let_def)
  then have "fromBase64 (toBase64 [a, b])
      = Some [of_nat (((?n div 262144 mod 64) * 4096 + (?n div 4096 mod 64) * 64
                        + ?n div 64 mod 64) div 1024),
              of_nat (((?n div 262144 mod 64) * 4096 + (?n div 4096 mod 64) * 64
                        + ?n div 64 mod 64) div 4)]"
    by (simp only: decode_group2)
  also have "\<dots> = Some [a, b]"
    by (simp only: two_bytes [OF unat_byte_less unat_byte_less] low high)
  finally show ?case .
next
  case (4 a b c rest)
  let ?n = "unat a * 65536 + unat b * 256 + unat c"
  have hi: "(of_nat (?n div 65536) :: byte) = a"
    by (simp only: split_three [OF unat_byte_less unat_byte_less] byte_of_unat)
  have mid: "(of_nat (?n div 256) :: byte) = b"
    by (simp only: split_three [OF unat_byte_less unat_byte_less] byte_drop_high byte_of_unat)
  have lo: "(of_nat ?n :: byte) = c"
  proof -
    have "?n = (unat a * 256 + unat b) * 256 + unat c" by simp
    then show ?thesis by (simp only: byte_drop_high byte_of_unat)
  qed
  have "toBase64 (a # b # c # rest)
      = b64_char (?n div 262144) # b64_char (?n div 4096) # b64_char (?n div 64) # b64_char ?n
        # toBase64 rest"
    by (simp only: toBase64.simps Let_def append.simps)
  then have "fromBase64 (toBase64 (a # b # c # rest))
      = map_option
         (\<lambda>bs. of_nat (((?n div 262144 mod 64) * 262144 + (?n div 4096 mod 64) * 4096
                         + (?n div 64 mod 64) * 64 + ?n mod 64) div 65536)
             # of_nat (((?n div 262144 mod 64) * 262144 + (?n div 4096 mod 64) * 4096
                         + (?n div 64 mod 64) * 64 + ?n mod 64) div 256)
             # of_nat ((?n div 262144 mod 64) * 262144 + (?n div 4096 mod 64) * 4096
                         + (?n div 64 mod 64) * 64 + ?n mod 64)
             # bs)
         (fromBase64 (toBase64 rest))"
    by (simp only: decode_group3)
  also have "\<dots> = Some (a # b # c # rest)"
    by (simp only: three_bytes [OF unat_byte_less unat_byte_less unat_byte_less]
        hi mid lo "4.IH" option.map)
  finally show ?case .
qed

lemma decodeDataUrl_pdf:
  "decodeDataUrl (''data:application/pdf;base64,'' @ toBase64 bs) = Some (''application/pdf'', bs)"
  by (simp add: decodeDataUrl_def startsWith_def fromBase64_toBase64)

text \<open>
  Claim C6. A PDF request that validates with \<^verbatim>\<open>uploadToStorage\<close> false and whose render
  returns a buffer is answered 200 with a \<^verbatim>\<open>dataUrl\<close> and no \<^verbatim>\<open>url\<close>; decoding that data
  URL gives the media type \<^verbatim>\<open>application/pdf\<close> and exactly the bytes of the buffer, and
  \<^verbatim>\<open>fileSize\<close> is the number of those bytes.
\<close>

theorem pdf_data_url_round_trip:
  "PdfRenderRequestSchema_parse body = Valid request \<and> \<not> pdf_uploadToStorage request
   \<and> renderPdf env (x_page x) request jobId = Some (Inr pdfBuffer) \<longrightarrow>
   (\<exists>res w' r u. post_pdf env supabase x jobId body w = Some (res, w')
      \<and> res_status res = 200 \<and> res_body res = Success r
      \<and> ok_dataUrl r = Some u \<and> ok_url r = None
      \<and> decodeDataUrl u = Some (''application/pdf'', pdfBuffer)
      \<and> ok_fileSize r = length pdfBuffer)"
  by (simp add: post_pdf_def Let_def send_success_def decodeDataUrl_pdf [simplified])

theorem pdf_data_url_round_trip_witness:
  "(\<exists>request. PdfRenderRequestSchema_parse pdf_inline_body = Valid request
       \<and> \<not> pdf_uploadToStorage request
       \<and> renderPdf sample_env (x_page sample_external) request ''job-1''
           = Some (Inr [37, 80, 68, 70, 45]))
   \<and> (\<exists>res w' r u. post_pdf sample_env None sample_external ''job-1'' pdf_inline_body
          empty_world = Some (res, w')
        \<and> res_body res = Success r \<and> ok_dataUrl r = Some u
        \<and> decodeDataUrl u = Some (''application/pdf'', [37, 80, 68, 70, 45])
        \<and> ok_fileSize r = length [37 :: byte, 80, 68, 70, 45])
   \<and> toBase64 [37, 80, 68, 70, 45] = ''JVBERi0=''
   \<and> decodeDataUrl ''data:application/pdf;base64,JVBERi0=''
       = Some (''application/pdf'', [37, 80, 68, 70, 45])"
proof -
  have "\<exists>request. PdfRenderRequestSchema_parse pdf_inline_body = Valid request
       \<and> \<not> pdf_uploadToStorage request
       \<and> renderPdf sample_env (x_page sample_external) request ''job-1''
           = Some (Inr [37, 80, 68, 70, 45])"
    by (simp add: sample_defs zod_defs engine_defs Let_def)
  then obtain request where
    req: "PdfRenderRequestSchema_parse pdf_inline_body = Valid request"
      "\<not> pdf_uploadToStorage request"
      "renderPdf sample_env (x_page sample_external) request ''job-1''
         = Some (Inr [37, 80, 68, 70, 45])"
    by blast
  have enc: "toBase64 [37, 80, 68, 70, 45] = ''JVBERi0=''"
    by (simp add: b64_char_def b64_alphabet_def)
  have dec: "decodeDataUrl ''data:application/pdf;base64,JVBERi0=''
       = Some (''application/pdf'', [37, 80, 68, 70, 45])"
    by (simp add: decodeDataUrl_def startsWith_def b64_value_def b64_alphabet_def)
  from req
    pdf_data_url_round_trip [of pdf_inline_body request sample_env sample_external "''job-1''"
      "[37, 80, 68, 70, 45]" None empty_world]
  have "\<exists>res w' r u. post_pdf sample_env None sample_external ''job-1'' pdf_inline_body
          empty_world = Some (res, w')
        \<and> res_body res = Success r \<and> ok_dataUrl r = Some u
        \<and> decodeDataUrl u = Some (''application/pdf'', [37, 80, 68, 70, 45])
        \<and> ok_fileSize r = length [37 :: byte, 80, 68, 70, 45]"
    by blast
  with req enc dec show ?thesis by blast
qed

section \<open>Validation\<close>

lemma issues_of_and_field [simp]:
  "issues_of (and_field f v) = issues_of f @ issues_of v"
  by (cases f; cases v) simp_all

lemma number_range_issues:
  "issues_of (z_default (z_number_min_max lo hi path) d (Some (JNum v))) =
     (if v < lo then [issue too_small path] else []) @
     (if hi < v then [issue too_big path] else [])"
  by (simp add: z_default_def z_number_min_max_def Let_def)

lemma number_range_valid:
  "lo \<le> v \<Longrightarrow> v \<le> hi \<Longrightarrow>
   z_default (z_number_min_max lo hi path) d (Some (JNum v)) = Valid v"
  by (simp add: z_default_def z_number_min_max_def Let_def)

lemma post_image_invalid:
  "ImageRenderRequestSchema_parse body = Invalid es \<Longrightarrow>
   \<exists>w'. post_image env supabase x jobId body w =
     Some (\<lparr>res_status = 400,
            res_body = Failure
              \<lparr>err_error = VALIDATION_FAILED, err_message = ''Invalid request data'',
               err_jobId = Some jobId, err_details = Some (ValidationErrors es)\<rparr>\<rparr>, w')"
  by (simp add: post_image_def catch_finally_def handleRenderError_def Let_def)

lemma post_pdf_invalid:
  "PdfRenderRequestSchema_parse body = Invalid es \<Longrightarrow>
   \<exists>w'. post_pdf env supabase x jobId body w =
     Some (\<lparr>res_status = 400,
            res_body = Failure
              \<lparr>err_error = VALIDATION_FAILED, err_message = ''Invalid request data'',
               err_jobId = Some jobId, err_details = Some (ValidationErrors es)\<rparr>\<rparr>, w')"
  by (simp add: post_pdf_def catch_finally_def handleRenderError_def Let_def)

lemma image_accepts:
  assumes "map_of kvs ''url'' = Some (JStr u)" "u \<noteq> []"
    and "map_of kvs ''width'' = Some (JNum wd)" "1 \<le> wd" "wd \<le> 4096"
    and "map_of kvs ''height'' = Some (JNum ht)" "1 \<le> ht" "ht \<le> 4096"
    and "map_of kvs ''scale'' = Some (JNum sc)" "1 \<le> sc" "sc \<le> 3"
    and "map_of kvs ''authToken'' = None" "map_of kvs ''format'' = None"
    and "map_of kvs ''quality'' = None" "map_of kvs ''filename'' = None"
    and "map_of kvs ''uploadToStorage'' = None" "map_of kvs ''storagePath'' = None"
  shows "ImageRenderRequestSchema_parse (Some (JObj kvs)) =
     Valid \<lparr>img_url = u, img_authToken = None, img_format = Png, img_quality = 90,
            img_width = wd, img_height = ht, img_scale = sc, img_filename = None,
            img_uploadToStorage = True, img_storagePath = None\<rparr>"
proof -
  have "s_width (Some (JNum wd)) = Valid wd" "s_height (Some (JNum ht)) = Valid ht"
    "s_scale (Some (JNum sc)) = Valid sc"
    using assms by (simp_all add: s_width_def s_height_def s_scale_def number_range_valid)
  moreover have "s_url (Some (JStr u)) = Valid u"
    using assms(2) by (cases u) (simp_all add: s_url_def z_string_min_def z_string_def)
  moreover have "s_authToken None = Valid None" "s_filename None = Valid None"
    "s_storagePath None = Valid None" "s_format None = Valid Png"
    "s_quality None = Valid 90" "s_uploadToStorage None = Valid True"
    by (simp_all add: s_authToken_def s_filename_def s_storagePath_def s_format_def
        s_quality_def s_uploadToStorage_def z_optional_def z_default_def z_enum_def
        z_number_min_max_def z_boolean_def)
  ultimately show ?thesis
    using assms by (simp add: ImageRenderRequestSchema_parse_def)
qed

text \<open>
  Claim C7. The \<^verbatim>\<open>width\<close> and \<^verbatim>\<open>height\<close> schemas accept a number exactly from 1 to 4096
  and the \<^verbatim>\<open>scale\<close> schema exactly from 1 to 3, and an image request with such values, a
  non-empty \<^verbatim>\<open>url\<close> and nothing else is accepted. A \<^verbatim>\<open>width\<close> above 4096 puts the issue
  \<^verbatim>\<open>too_big\<close> with path \<^verbatim>\<open>width\<close> among the issues, and the handler answers an invalid
  body with 400, \<^verbatim>\<open>VALIDATION_FAILED\<close> and all the issues in \<^verbatim>\<open>details\<close>. For both
  schemas the issues of an object are those of every key of the shape, one after the
  other: a key that is invalid is reported whatever the other keys are.
\<close>

theorem validation_reports_every_field:
  "(issues_of (s_width (Some (JNum v))) = [] \<longleftrightarrow> 1 \<le> v \<and> v \<le> 4096)
   \<and> (issues_of (s_height (Some (JNum v))) = [] \<longleftrightarrow> 1 \<le> v \<and> v \<le> 4096)
   \<and> (issues_of (s_scale (Some (JNum v))) = [] \<longleftrightarrow> 1 \<le> v \<and> v \<le> 3)
   \<and> (map_of kvs ''url'' = Some (JStr u) \<and> u \<noteq> []
       \<and> map_of kvs ''width'' = Some (JNum wd) \<and> 1 \<le> wd \<and> wd \<le> 4096
       \<and> map_of kvs ''height'' = Some (JNum ht) \<and> 1 \<le> ht \<and> ht \<le> 4096
       \<and> map_of kvs ''scale'' = Some (JNum sc) \<and> 1 \<le> sc \<and> sc \<le> 3
       \<and> map_of kvs ''authToken'' = None \<and> map_of kvs ''format'' = None
       \<and> map_of kvs ''quality'' = None \<and> map_of kvs ''filename'' = None
       \<and> map_of kvs ''uploadToStorage'' = None \<and> map_of kvs ''storagePath'' = None \<longrightarrow>
       ImageRenderRequestSchema_parse (Some (JObj kvs)) =
         Valid \<lparr>img_url = u, img_authToken = None, img_format = Png, img_quality = 90,
                img_width = wd, img_height = ht, img_scale = sc, img_filename = None,
                img_uploadToStorage = True, img_storagePath = None\<rparr>)
   \<and> (map_of kvs ''width'' = Some (JNum wd) \<and> 4096 < wd \<longrightarrow>
       issue too_big [''width'']
         \<in> set (issues_of (ImageRenderRequestSchema_parse (Some (JObj kvs)))))
   \<and> (ImageRenderRequestSchema_parse body = Invalid es \<longrightarrow>
       (\<exists>w'. post_image env supabase x jobId body w =
          Some (\<lparr>res_status = 400,
                 res_body = Failure
                   \<lparr>err_error = VALIDATION_FAILED, err_message = ''Invalid request data'',
                    err_jobId = Some jobId, err_details = Some (ValidationErrors es)\<rparr>\<rparr>,
                w')))
   \<and> (PdfRenderRequestSchema_parse body = Invalid es \<longrightarrow>
       (\<exists>w'. post_pdf env supabase x jobId body w =
          Some (\<lparr>res_status = 400,
                 res_body = Failure
                   \<lparr>err_error = VALIDATION_FAILED, err_message = ''Invalid request data'',
                    err_jobId = Some jobId, err_details = Some (ValidationErrors es)\<rparr>\<rparr>,
                w')))
   \<and> issues_of (ImageRenderRequestSchema_parse (Some (JObj kvs))) =
       issues_of (s_url (map_of kvs ''url''))
       @ issues_of (s_authToken (map_of kvs ''authToken''))
       @ issues_of (s_format (map_of kvs ''format''))
       @ issues_of (s_quality (map_of kvs ''quality''))
       @ issues_of (s_width (map_of kvs ''width''))
       @ issues_of (s_height (map_of kvs ''height''))
       @ issues_of (s_scale (map_of kvs ''scale''))
       @ issues_of (s_filename (map_of kvs ''filename''))
       @ issues_of (s_uploadToStorage (map_of kvs ''uploadToStorage''))
       @ issues_of (s_storagePath (map_of kvs ''storagePath''))
   \<and> issues_of (PdfRenderRequestSchema_parse (Some (JObj kvs))) =
       issues_of (s_url (map_of kvs ''url''))
       @ issues_of (s_authToken (map_of kvs ''authToken''))
       @ issues_of (s_paperSize (map_of kvs ''paperSize''))
       @ issues_of (s_orientation (map_of kvs ''orientation''))
       @ issues_of (s_printBackground (map_of kvs ''printBackground''))
       @ issues_of (s_margins (map_of kvs ''margins''))
       @ issues_of (s_filename (map_of kvs ''filename''))
       @ issues_of (s_uploadToStorage (map_of kvs ''uploadToStorage''))
       @ issues_of (s_storagePath (map_of kvs ''storagePath''))
   \<and> issues_of (margins_object (Some (JObj kvs))) =
       issues_of (s_margin ''top'' ''20mm'' (map_of kvs ''top''))
       @ issues_of (s_margin ''bottom'' ''20mm'' (map_of kvs ''bottom''))
       @ issues_of (s_margin ''left'' ''15mm'' (map_of kvs ''left''))
       @ issues_of (s_margin ''right'' ''15mm'' (map_of kvs ''right''))"
proof (intro conjI impI)
  show "issues_of (s_width (Some (JNum v))) = [] \<longleftrightarrow> 1 \<le> v \<and> v \<le> 4096"
    by (auto simp: s_width_def number_range_issues)
  show "issues_of (s_height (Some (JNum v))) = [] \<longleftrightarrow> 1 \<le> v \<and> v \<le> 4096"
    by (auto simp: s_height_def number_range_issues)
  show "issues_of (s_scale (Some (JNum v))) = [] \<longleftrightarrow> 1 \<le> v \<and> v \<le> 3"
    by (auto simp: s_scale_def number_range_issues)
next
  assume "map_of kvs ''url'' = Some (JStr u) \<and> u \<noteq> []
       \<and> map_of kvs ''width'' = Some (JNum wd) \<and> 1 \<le> wd \<and> wd \<le> 4096
       \<and> map_of kvs ''height'' = Some (JNum ht) \<and> 1 \<le> ht \<and> ht \<le> 4096
       \<and> map_of kvs ''scale'' = Some (JNum sc) \<and> 1 \<le> sc \<and> sc \<le> 3
       \<and> map_of kvs ''authToken'' = None \<and> map_of kvs ''format'' = None
       \<and> map_of kvs ''quality'' = None \<and> map_of kvs ''filename'' = None
       \<and> map_of kvs ''uploadToStorage'' = None \<and> map_of kvs ''storagePath'' = None"
  then show "ImageRenderRequestSchema_parse (Some (JObj kvs)) =
         Valid \<lparr>img_url = u, img_authToken = None, img_format = Png, img_quality = 90,
                img_width = wd, img_height = ht, img_scale = sc, img_filename = None,
                img_uploadToStorage = True, img_storagePath = None\<rparr>"
    by (intro image_accepts) simp_all
next
  assume "map_of kvs ''width'' = Some (JNum wd) \<and> 4096 < wd"
  then show "issue too_big [''width'']
         \<in> set (issues_of (ImageRenderRequestSchema_parse (Some (JObj kvs))))"
    by (simp add: ImageRenderRequestSchema_parse_def s_width_def number_range_issues)
next
  assume "ImageRenderRequestSchema_parse body = Invalid es"
  then show "\<exists>w'. post_image env supabase x jobId body w =
          Some (\<lparr>res_status = 400,
                 res_body = Failure
                   \<lparr>err_error = VALIDATION_FAILED, err_message = ''Invalid request data'',
                    err_jobId = Some jobId, err_details = Some (ValidationErrors es)\<rparr>\<rparr>,
                w')"
    by (rule post_image_invalid)
next
  assume "PdfRenderRequestSchema_parse body = Invalid es"
  then show "\<exists>w'. post_pdf env supabase x jobId body w =
          Some (\<lparr>res_status = 400,
                 res_body = Failure
                   \<lparr>err_error = VALIDATION_FAILED, err_message = ''Invalid request data'',
                    err_jobId = Some jobId, err_details = Some (ValidationErrors es)\<rparr>\<rparr>,
                w')"
    by (rule post_pdf_invalid)
qed (simp_all add: ImageRenderRequestSchema_parse_def PdfRenderRequestSchema_parse_def
    margins_object_def)

theorem validation_reports_every_field_witness:
  "ImageRenderRequestSchema_parse image_max_body =
     Valid \<lparr>img_url = ''/render/social/post-456'', img_authToken = None, img_format = Png,
            img_quality = 90, img_width = 4096, img_height = 4096, img_scale = 3,
            img_filename = None, img_uploadToStorage = True, img_storagePath = None\<rparr>
   \<and> issue too_big [''width''] \<in> set (issues_of (ImageRenderRequestSchema_parse image_wide_body))
   \<and> ImageRenderRequestSchema_parse image_bad_body =
       Invalid [issue invalid_type [''url''], issue invalid_enum_value [''format''],
                issue too_big [''width''], issue too_small [''height''],
                issue invalid_type [''scale'']]
   \<and> (\<exists>w'. post_image sample_env None sample_external ''job-1'' image_bad_body empty_world =
          Some (\<lparr>res_status = 400,
                 res_body = Failure
                   \<lparr>err_error = VALIDATION_FAILED, err_message = ''Invalid request data'',
                    err_jobId = Some ''job-1'',
                    err_details = Some (ValidationErrors
                      [issue invalid_type [''url''], issue invalid_enum_value [''format''],
                       issue too_big [''width''], issue too_small [''height''],
                       issue invalid_type [''scale'']])\<rparr>\<rparr>,
                w'))
   \<and> PdfRenderRequestSchema_parse pdf_bad_body =
       Invalid [issue invalid_type [''url''], issue invalid_enum_value [''paperSize''],
                issue invalid_type [''margins'', ''top'']]
   \<and> (\<exists>w'. post_pdf sample_env None sample_external ''job-1'' pdf_bad_body empty_world =
          Some (\<lparr>res_status = 400,
                 res_body = Failure
                   \<lparr>err_error = VALIDATION_FAILED, err_message = ''Invalid request data'',
                    err_jobId = Some ''job-1'',
                    err_details = Some (ValidationErrors
                      [issue invalid_type [''url''], issue invalid_enum_value [''paperSize''],
                       issue invalid_type [''margins'', ''top'']])\<rparr>\<rparr>,
                w'))"
proof -
  let ?max = "[(''url'', JStr ''/render/social/post-456''), (''width'', JNum 4096),
               (''height'', JNum 4096), (''scale'', JNum 3)]"
  let ?wide = "[(''url'', JStr ''/render/social/post-456''), (''width'', JNum 4097)]"
  have "map_of ?max ''url'' = Some (JStr ''/render/social/post-456'')
       \<and> ''/render/social/post-456'' \<noteq> []
       \<and> map_of ?max ''width'' = Some (JNum 4096) \<and> (1::rat) \<le> 4096 \<and> (4096::rat) \<le> 4096
       \<and> map_of ?max ''height'' = Some (JNum 4096) \<and> (1::rat) \<le> 4096 \<and> (4096::rat) \<le> 4096
       \<and> map_of ?max ''scale'' = Some (JNum 3) \<and> (1::rat) \<le> 3 \<and> (3::rat) \<le> 3
       \<and> map_of ?max ''authToken'' = None \<and> map_of ?max ''format'' = None
       \<and> map_of ?max ''quality'' = None \<and> map_of ?max ''filename'' = None
       \<and> map_of ?max ''uploadToStorage'' = None \<and> map_of ?max ''storagePath'' = None"
    by simp
  with validation_reports_every_field [where kvs = ?max and u = "''/render/social/post-456''"
      and wd = 4096 and ht = 4096 and sc = 3]
  have accepted: "ImageRenderRequestSchema_parse (Some (JObj ?max)) =
     Valid \<lparr>img_url = ''/render/social/post-456'', img_authToken = None, img_format = Png,
            img_quality = 90, img_width = 4096, img_height = 4096, img_scale = 3,
            img_filename = None, img_uploadToStorage = True, img_storagePath = None\<rparr>"
    by blast
  have "map_of ?wide ''width'' = Some (JNum 4097) \<and> (4096::rat) < 4097"
    by simp
  with validation_reports_every_field [where kvs = ?wide and wd = 4097]
  have rejected: "issue too_big [''width'']
      \<in> set (issues_of (ImageRenderRequestSchema_parse (Some (JObj ?wide))))"
    by blast
  have bad: "ImageRenderRequestSchema_parse image_bad_body =
       Invalid [issue invalid_type [''url''], issue invalid_enum_value [''format''],
                issue too_big [''width''], issue too_small [''height''],
                issue invalid_type [''scale'']]"
    by (simp add: image_bad_body_def zod_defs)
  with validation_reports_every_field [where body = image_bad_body and env = sample_env
      and supabase = None and x = sample_external and jobId = "''job-1''" and w = empty_world]
  have "\<exists>w'. post_image sample_env None sample_external ''job-1'' image_bad_body empty_world =
          Some (\<lparr>res_status = 400,
                 res_body = Failure
                   \<lparr>err_error = VALIDATION_FAILED, err_message = ''Invalid request data'',
                    err_jobId = Some ''job-1'',
                    err_details = Some (ValidationErrors
                      [issue invalid_type [''url''], issue invalid_enum_value [''format''],
                       issue too_big [''width''], issue too_small [''height''],
                       issue invalid_type [''scale'']])\<rparr>\<rparr>,
                w')"
    by blast
  note image = this
  have pdf_bad: "PdfRenderRequestSchema_parse pdf_bad_body =
       Invalid [issue invalid_type [''url''], issue invalid_enum_value [''paperSize''],
                issue invalid_type [''margins'', ''top'']]"
    by (simp add: pdf_bad_body_def zod_defs)
  with validation_reports_every_field [where body = pdf_bad_body and env = sample_env
      and supabase = None and x = sample_external and jobId = "''job-1''" and w = empty_world]
  have "\<exists>w'. post_pdf sample_env None sample_external ''job-1'' pdf_bad_body empty_world =
          Some (\<lparr>res_status = 400,
                 res_body = Failure
                   \<lparr>err_error = VALIDATION_FAILED, err_message = ''Invalid request data'',
                    err_jobId = Some ''job-1'',
                    err_details = Some (ValidationErrors
                      [issue invalid_type [''url''], issue invalid_enum_value [''paperSize''],
                       issue invalid_type [''margins'', ''top'']])\<rparr>\<rparr>,
                w')"
    by blast
  with accepted rejected bad image pdf_bad show ?thesis
    by (simp only: image_max_body_def image_wide_body_def)
qed

section \<open>Readiness\<close>

lemma pollReady_true:
  assumes "k \<le> j" and "flag (s + 100 * j)"
    and "\<forall>i. k \<le> i \<and> i < j \<longrightarrow> \<not> flag (s + 100 * i) \<and> int (100 * i) \<le> timeout"
  shows "pollReady flag timeout s k = (True, s + 100 * j)"
  using assms
proof (induction "j - k" arbitrary: k)
  case 0
  then have "k = j" by simp
  with "0.prems" show ?case by (subst pollReady.simps) simp
next
  case (Suc d)
  then have less: "k < j" by simp
  with Suc.prems have now: "\<not> flag (s + 100 * k)" "int (100 * k) \<le> timeout" by auto
  from Suc.hyps less have "d = j - Suc k" "Suc k \<le> j" by simp_all
  moreover from Suc.prems
  have "\<forall>i. Suc k \<le> i \<and> i < j \<longrightarrow> \<not> flag (s + 100 * i) \<and> int (100 * i) \<le> timeout"
    by simp
  ultimately have "pollReady flag timeout s (Suc k) = (True, s + 100 * j)"
    using Suc.hyps(1) Suc.prems(2) by blast
  with now show ?case by (subst pollReady.simps) (simp add: Let_def)
qed

lemma pollReady_false:
  assumes "k \<le> j" and "timeout < int (100 * j)"
    and "\<forall>i. k \<le> i \<and> i \<le> j \<longrightarrow> \<not> flag (s + 100 * i)"
    and "\<forall>i. k \<le> i \<and> i < j \<longrightarrow> int (100 * i) \<le> timeout"
  shows "pollReady flag timeout s k = (False, s + 100 * j)"
  using assms
proof (induction "j - k" arbitrary: k)
  case 0
  then have "k = j" by simp
  with "0.prems" show ?case by (subst pollReady.simps) (simp add: Let_def)
next
  case (Suc d)
  then have less: "k < j" by simp
  with Suc.prems have now: "\<not> flag (s + 100 * k)" "int (100 * k) \<le> timeout" by auto
  from Suc.hyps less have "d = j - Suc k" "Suc k \<le> j" by simp_all
  moreover from Suc.prems
  have "\<forall>i. Suc k \<le> i \<and> i \<le> j \<longrightarrow> \<not> flag (s + 100 * i)"
    and "\<forall>i. Suc k \<le> i \<and> i < j \<longrightarrow> int (100 * i) \<le> timeout"
    by simp_all
  ultimately have "pollReady flag timeout s (Suc k) = (False, s + 100 * j)"
    using Suc.hyps(1) Suc.prems(2) by blast
  with now show ?case by (subst pollReady.simps) (simp add: Let_def)
qed

lemma ready_flag_timeout_classified:
  "handleRenderError nodeEnv
     (Error (''READY_FLAG_TIMEOUT: __RENDER_READY__ flag not set within '' @ n @ ''ms'')) jobId =
   \<lparr>err_error = READY_FLAG_TIMEOUT,
    err_message = ''Page did not signal render ready in time. Ensure __RENDER_READY__ is set.'',
    err_jobId = Some jobId, err_details = None\<rparr>"
  by (simp add: handleRenderError_def startsWith_def)

lemma waitForRenderReady_throws:
  "waitForRenderReady page timeout = Some (Inl e) \<Longrightarrow>
   e = Error (''READY_FLAG_TIMEOUT: __RENDER_READY__ flag not set within '' @ decimal timeout
              @ ''ms'')"
  by (auto simp: waitForRenderReady_def Let_def split: option.splits prod.splits if_splits)

lemma waitForRenderReady_immediately:
  "fontsReadyAt page = Some start \<Longrightarrow> readyFlag page start \<Longrightarrow>
   waitForRenderReady page timeout = Some (Inr (start + 150))"
  by (simp add: waitForRenderReady_def)

lemma waitForRenderReady_at_poll:
  assumes "fontsReadyAt page = Some start" and "readyFlag page (start + 100 * j)"
    and "\<forall>i<j. \<not> readyFlag page (start + 100 * i)"
    and "\<forall>i. 0 < i \<and> i < j \<longrightarrow> int (100 * i) \<le> timeout"
  shows "waitForRenderReady page timeout = Some (Inr (start + 100 * j + 150))"
proof (cases j)
  case 0
  with assms show ?thesis by (simp add: waitForRenderReady_immediately)
next
  case (Suc m)
  with assms(3) have first: "\<not> readyFlag page start" by fastforce
  from Suc assms have "pollReady (readyFlag page) timeout start 1 = (True, start + 100 * j)"
    by (intro pollReady_true) auto
  with assms(1) first show ?thesis by (simp add: waitForRenderReady_def)
qed

lemma waitForRenderReady_times_out:
  assumes "fontsReadyAt page = Some start" and "0 < j" and "timeout < int (100 * j)"
    and "\<forall>i\<le>j. \<not> readyFlag page (start + 100 * i)"
    and "\<forall>i. 0 < i \<and> i < j \<longrightarrow> int (100 * i) \<le> timeout"
  shows "waitForRenderReady page timeout =
     Some (Inl (Error (''READY_FLAG_TIMEOUT: __RENDER_READY__ flag not set within ''
                       @ decimal timeout @ ''ms'')))"
proof -
  from assms(4) have first: "\<not> readyFlag page start" by fastforce
  from assms have "pollReady (readyFlag page) timeout start 1 = (False, start + 100 * j)"
    by (intro pollReady_false) auto
  with assms(1) first show ?thesis by (simp add: waitForRenderReady_def)
qed

lemma decimal_10000: "decimal 10000 = ''10000''"
  by (simp add: decimal_def decimal_nat.simps digit_char_def)

text \<open>
  Claim C5, as stated, fails: the page below sets its flag 10050 ms after polling began,
  so the flag is false throughout the budget of 10000 ms; the poll at 10100 ms still sees
  the flag before it looks at the clock, and the detector succeeds, at 10250 ms.
\<close>

theorem ready_flag_budget_counterexample:
  "fontsReadyAt late_page = Some 0
   \<and> \<not> (\<exists>t\<le>10000. readyFlag late_page t)
   \<and> waitForRenderReady late_page 10000 = Some (Inr 10250)"
proof -
  have fonts: "fontsReadyAt late_page = Some 0" by (simp add: late_page_def sample_page_def)
  have flag: "readyFlag late_page t = (10050 \<le> t)" for t
    by (simp add: late_page_def sample_page_def)
  have "waitForRenderReady late_page 10000 = Some (Inr (0 + 100 * 101 + 150))"
    by (rule waitForRenderReady_at_poll [OF fonts]) (auto simp: flag)
  with fonts flag show ?thesis by simp
qed

lemma post_pdf_ready_flag_timeout:
  assumes "PdfRenderRequestSchema_parse body = Valid request"
    and "browserInitialized (x_page x)" and "newContext_fails (x_page x) = None"
    and "newPage_fails (x_page x) = None"
    and "goto_fails (x_page x) (pdf_url request) (pdf_authToken request) = None"
    and "waitForRenderReady (x_page x) (READY_FLAG_TIMEOUT_MS env) = Some (Inl e)"
  shows "\<exists>w'. post_pdf env supabase x jobId body w =
     Some (\<lparr>res_status = 408,
            res_body = Failure
              \<lparr>err_error = READY_FLAG_TIMEOUT,
               err_message =
                 ''Page did not signal render ready in time. Ensure __RENDER_READY__ is set.'',
               err_jobId = Some jobId, err_details = None\<rparr>\<rparr>, w')"
proof -
  from assms(6) have e: "e = Error (''READY_FLAG_TIMEOUT: __RENDER_READY__ flag not set within ''
      @ decimal (READY_FLAG_TIMEOUT_MS env) @ ''ms'')"
    by (rule waitForRenderReady_throws)
  from assms have "renderPdf env (x_page x) request jobId = Some (Inl e)"
    by (simp add: renderPdf_def getBrowser_def)
  with assms(1) show ?thesis
    unfolding e
    by (simp add: post_pdf_def Let_def catch_finally_def
        ready_flag_timeout_classified [simplified])
qed

text \<open>
  Claim C5, amended. With a timer that fires exactly every 100 ms: the detector does not
  return while the fonts are not ready, whatever the budget; once they are (at \<open>start\<close>) it
  looks at the flag at \<open>start\<close> and then every 100 ms, at each poll at the flag first and at
  the clock second. If the \<open>j\<close>-th poll is the first to see the flag, and every poll
  before it was within the budget, it succeeds and returns 150 ms after that poll. It
  throws only at the first poll that finds more than the budget elapsed, when no poll up
  to and including that one has seen the flag; the message names the configured budget.
  \<^verbatim>\<open>handleRenderError\<close> classifies that error as \<^verbatim>\<open>READY_FLAG_TIMEOUT\<close>, whose status is
  408, and so the PDF handler answers. The budget is 10000 ms when unset.
\<close>

theorem readiness_detector:
  "(fontsReadyAt page = None \<longrightarrow> waitForRenderReady page timeout = None)
   \<and> (fontsReadyAt page = Some start \<and> readyFlag page (start + 100 * j)
       \<and> (\<forall>i<j. \<not> readyFlag page (start + 100 * i))
       \<and> (\<forall>i. 0 < i \<and> i < j \<longrightarrow> int (100 * i) \<le> timeout) \<longrightarrow>
       waitForRenderReady page timeout = Some (Inr (start + 100 * j + 150)))
   \<and> (fontsReadyAt page = Some start \<and> 0 < j \<and> timeout < int (100 * j)
       \<and> (\<forall>i\<le>j. \<not> readyFlag page (start + 100 * i))
       \<and> (\<forall>i. 0 < i \<and> i < j \<longrightarrow> int (100 * i) \<le> timeout) \<longrightarrow>
       waitForRenderReady page timeout =
         Some (Inl (Error (''READY_FLAG_TIMEOUT: __RENDER_READY__ flag not set within ''
                           @ decimal timeout @ ''ms''))))
   \<and> handleRenderError nodeEnv
        (Error (''READY_FLAG_TIMEOUT: __RENDER_READY__ flag not set within ''
                @ decimal timeout @ ''ms'')) jobId =
       \<lparr>err_error = READY_FLAG_TIMEOUT,
        err_message =
          ''Page did not signal render ready in time. Ensure __RENDER_READY__ is set.'',
        err_jobId = Some jobId, err_details = None\<rparr>
   \<and> getStatusCode READY_FLAG_TIMEOUT = 408
   \<and> (PdfRenderRequestSchema_parse body = Valid request
       \<and> browserInitialized (x_page x) \<and> newContext_fails (x_page x) = None
       \<and> newPage_fails (x_page x) = None
       \<and> goto_fails (x_page x) (pdf_url request) (pdf_authToken request) = None
       \<and> waitForRenderReady (x_page x) (READY_FLAG_TIMEOUT_MS env) = Some (Inl e) \<longrightarrow>
       (\<exists>w'. post_pdf env supabase x jobId body w =
          Some (\<lparr>res_status = 408,
                 res_body = Failure
                   \<lparr>err_error = READY_FLAG_TIMEOUT,
                    err_message =
                      ''Page did not signal render ready in time. Ensure __RENDER_READY__ is set.'',
                    err_jobId = Some jobId, err_details = None\<rparr>\<rparr>, w')))
   \<and> parse_READY_FLAG_TIMEOUT_MS Unset = Some 10000"
proof (intro conjI impI)
  show "waitForRenderReady page timeout = None" if "fontsReadyAt page = None"
    using that by (simp add: waitForRenderReady_def)
  show "waitForRenderReady page timeout = Some (Inr (start + 100 * j + 150))"
    if "fontsReadyAt page = Some start \<and> readyFlag page (start + 100 * j)
       \<and> (\<forall>i<j. \<not> readyFlag page (start + 100 * i))
       \<and> (\<forall>i. 0 < i \<and> i < j \<longrightarrow> int (100 * i) \<le> timeout)"
    using that waitForRenderReady_at_poll [of page start j timeout] by blast
  show "waitForRenderReady page timeout =
         Some (Inl (Error (''READY_FLAG_TIMEOUT: __RENDER_READY__ flag not set within ''
                           @ decimal timeout @ ''ms'')))"
    if "fontsReadyAt page = Some start \<and> 0 < j \<and> timeout < int (100 * j)
       \<and> (\<forall>i\<le>j. \<not> readyFlag page (start + 100 * i))
       \<and> (\<forall>i. 0 < i \<and> i < j \<longrightarrow> int (100 * i) \<le> timeout)"
    using that waitForRenderReady_times_out [of page start j timeout] by blast
  show "handleRenderError nodeEnv
        (Error (''READY_FLAG_TIMEOUT: __RENDER_READY__ flag not set within ''
                @ decimal timeout @ ''ms'')) jobId =
       \<lparr>err_error = READY_FLAG_TIMEOUT,
        err_message =
          ''Page did not signal render ready in time. Ensure __RENDER_READY__ is set.'',
        err_jobId = Some jobId, err_details = None\<rparr>"
    by (rule ready_flag_timeout_classified)
  show "getStatusCode READY_FLAG_TIMEOUT = 408" by simp
  show "\<exists>w'. post_pdf env supabase x jobId body w =
          Some (\<lparr>res_status = 408,
                 res_body = Failure
                   \<lparr>err_error = READY_FLAG_TIMEOUT,
                    err_message =
                      ''Page did not signal render ready in time. Ensure __RENDER_READY__ is set.'',
                    err_jobId = Some jobId, err_details = None\<rparr>\<rparr>, w')"
    if "PdfRenderRequestSchema_parse body = Valid request
       \<and> browserInitialized (x_page x) \<and> newContext_fails (x_page x) = None
       \<and> newPage_fails (x_page x) = None
       \<and> goto_fails (x_page x) (pdf_url request) (pdf_authToken request) = None
       \<and> waitForRenderReady (x_page x) (READY_FLAG_TIMEOUT_MS env) = Some (Inl e)"
    using that post_pdf_ready_flag_timeout [of body request x env e supabase jobId w] by blast
  show "parse_READY_FLAG_TIMEOUT_MS Unset = Some 10000"
    by (simp add: parse_READY_FLAG_TIMEOUT_MS_def)
qed

theorem readiness_detector_witness:
  "waitForRenderReady never_ready_page 10000 =
     Some (Inl (Error ''READY_FLAG_TIMEOUT: __RENDER_READY__ flag not set within 10000ms''))
   \<and> waitForRenderReady late_page 10000 = Some (Inr 10250)
   \<and> waitForRenderReady sample_page 10000 = Some (Inr 150)
   \<and> waitForRenderReady (sample_page\<lparr>fontsReadyAt := None\<rparr>) 10000 = None
   \<and> (\<exists>w'. post_pdf sample_env None (sample_external\<lparr>x_page := never_ready_page\<rparr>) ''job-1''
          pdf_inline_body empty_world =
          Some (\<lparr>res_status = 408,
                 res_body = Failure
                   \<lparr>err_error = READY_FLAG_TIMEOUT,
                    err_message =
                      ''Page did not signal render ready in time. Ensure __RENDER_READY__ is set.'',
                    err_jobId = Some ''job-1'', err_details = None\<rparr>\<rparr>, w'))"
proof -
  have never: "fontsReadyAt never_ready_page = Some 0 \<and> (0::nat) < 101
       \<and> (10000::int) < int (100 * 101)
       \<and> (\<forall>i\<le>101. \<not> readyFlag never_ready_page (0 + 100 * i))
       \<and> (\<forall>i. 0 < i \<and> i < 101 \<longrightarrow> int (100 * i) \<le> 10000)"
    by (auto simp: never_ready_page_def sample_page_def)
  have late: "fontsReadyAt late_page = Some 0 \<and> readyFlag late_page (0 + 100 * 101)
       \<and> (\<forall>i<101. \<not> readyFlag late_page (0 + 100 * i))
       \<and> (\<forall>i. 0 < i \<and> i < 101 \<longrightarrow> int (100 * i) \<le> 10000)"
    by (auto simp: late_page_def sample_page_def)
  have now: "fontsReadyAt sample_page = Some 0 \<and> readyFlag sample_page (0 + 100 * 0)
       \<and> (\<forall>i<0. \<not> readyFlag sample_page (0 + 100 * i))
       \<and> (\<forall>i. 0 < i \<and> i < (0::nat) \<longrightarrow> int (100 * i) \<le> 10000)"
    by (simp add: sample_page_def)
  have fonts: "fontsReadyAt (sample_page\<lparr>fontsReadyAt := None\<rparr>) = None"
    by simp
  have r1: "waitForRenderReady never_ready_page 10000 =
     Some (Inl (Error ''READY_FLAG_TIMEOUT: __RENDER_READY__ flag not set within 10000ms''))"
    using never readiness_detector [where page = never_ready_page and start = 0 and j = 101
        and timeout = 10000]
    by (simp add: decimal_10000)
  have r2: "waitForRenderReady late_page 10000 = Some (Inr 10250)"
    using late readiness_detector [where page = late_page and start = 0 and j = 101
        and timeout = 10000]
    by simp
  have r3: "waitForRenderReady sample_page 10000 = Some (Inr 150)"
    using now readiness_detector [where page = sample_page and start = 0 and j = 0
        and timeout = 10000]
    by simp
  have r4: "waitForRenderReady (sample_page\<lparr>fontsReadyAt := None\<rparr>) 10000 = None"
    using fonts readiness_detector [where page = "sample_page\<lparr>fontsReadyAt := None\<rparr>"
        and timeout = 10000]
    by blast
  have "\<exists>request. PdfRenderRequestSchema_parse pdf_inline_body = Valid request
       \<and> goto_fails never_ready_page (pdf_url request) (pdf_authToken request) = None"
    by (simp add: sample_defs zod_defs)
  then obtain request where
    req: "PdfRenderRequestSchema_parse pdf_inline_body = Valid request"
      "goto_fails never_ready_page (pdf_url request) (pdf_authToken request) = None"
    by blast
  have page: "browserInitialized never_ready_page" "newContext_fails never_ready_page = None"
    "newPage_fails never_ready_page = None"
    by (simp_all add: never_ready_page_def sample_page_def)
  have env: "READY_FLAG_TIMEOUT_MS sample_env = 10000"
    "x_page (sample_external\<lparr>x_page := never_ready_page\<rparr>) = never_ready_page"
    by (simp_all add: sample_env_def)
  from req page env r1
    readiness_detector [where body = pdf_inline_body and request = request
      and x = "sample_external\<lparr>x_page := never_ready_page\<rparr>" and env = sample_env
      and e = "Error ''READY_FLAG_TIMEOUT: __RENDER_READY__ flag not set within 10000ms''"
      and supabase = None and jobId = "''job-1''" and w = empty_world]
  have r5: "\<exists>w'. post_pdf sample_env None (sample_external\<lparr>x_page := never_ready_page\<rparr>)
          ''job-1'' pdf_inline_body empty_world =
          Some (\<lparr>res_status = 408,
                 res_body = Failure
                   \<lparr>err_error = READY_FLAG_TIMEOUT,
                    err_message =
                      ''Page did not signal render ready in time. Ensure __RENDER_READY__ is set.'',
                    err_jobId = Some ''job-1'', err_details = None\<rparr>\<rparr>, w')"
    by simp
  from r1 r2 r3 r4 r5 show ?thesis by blast
qed

section \<open>The life of a job\<close>

lemma activeJobs_w_emit [simp]: "activeJobs (w_emit evs w) = activeJobs w"
  by (simp add: w_emit_def)

lemma map_of_w_registerJob [simp]:
  "map_of (activeJobs (w_registerJob job w)) k =
     (if k = job_id job then Some job else map_of (activeJobs w) k)"
  by (simp add: w_registerJob_def map_of_registerJob)

lemma map_of_w_updateJobStatus [simp]:
  "map_of (activeJobs (w_updateJobStatus jobId st w)) k =
     (if k = jobId then map_option (\<lambda>j. j\<lparr>job_status := st\<rparr>) (map_of (activeJobs w) jobId)
      else map_of (activeJobs w) k)"
  by (simp add: w_updateJobStatus_def map_of_updateJobStatus)

lemma map_of_w_others:
  "leaves_job jobId f \<Longrightarrow> map_of (activeJobs (w_others f w)) jobId = map_of (activeJobs w) jobId"
  by (simp add: leaves_job_def w_others_def)

lemma statuses_set_append [simp]:
  "statuses_set jobId (evs @ evs') = statuses_set jobId evs @ statuses_set jobId evs'"
  by (induction jobId evs rule: statuses_set.induct) simp_all

lemma statuses_set_uploadFile [simp]:
  "statuses_set jobId
     (snd (uploadFile env supabase sx clk buffer filename contentType storagePath j)) = []"
  by (simp add: uploadFile_def Let_def split: sum.splits option.splits)

lemma post_pdf_never_registered:
  assumes "PdfRenderRequestSchema_parse body = Invalid es"
  shows "\<exists>res w' e. post_pdf env supabase x jobId body w = Some (res, w')
     \<and> res_body res = Failure e \<and> err_error e = VALIDATION_FAILED
     \<and> status_path jobId (new_events w w') =
         Pending # (case map_of (activeJobs w) jobId of None \<Rightarrow> [] | Some _ \<Rightarrow> [Failed])
     \<and> filter is_render_work (new_events w w') = []
     \<and> map_of (activeJobs w') jobId = None"
  using assms
  by (simp add: post_pdf_def catch_finally_def handleRenderError_def Let_def status_path_def
      new_events_def trace_w_updateJobStatus split: option.splits)

lemma post_pdf_render_fails:
  assumes "leaves_job jobId (x_during_render x)"
    and "PdfRenderRequestSchema_parse body = Valid request"
    and "renderPdf env (x_page x) request jobId = Some (Inl error)"
  shows "\<exists>res w' e. post_pdf env supabase x jobId body w = Some (res, w')
     \<and> res_body res = Failure e
     \<and> status_path jobId (new_events w w') = [Pending, Rendering, Failed]
     \<and> follows_lifecycle (pdf_uploadToStorage request) (status_path jobId (new_events w w'))
     \<and> map_of (activeJobs w') jobId = None"
  using assms
  by (simp add: post_pdf_def catch_finally_def Let_def status_path_def new_events_def
      trace_w_updateJobStatus map_of_w_others)

lemma post_pdf_inline:
  assumes "leaves_job jobId (x_during_render x)"
    and "PdfRenderRequestSchema_parse body = Valid request"
    and "renderPdf env (x_page x) request jobId = Some (Inr pdfBuffer)"
    and "\<not> pdf_uploadToStorage request"
  shows "\<exists>res w' r u. post_pdf env supabase x jobId body w = Some (res, w')
     \<and> res_body res = Success r \<and> ok_dataUrl r = Some u \<and> ok_url r = None
     \<and> status_path jobId (new_events w w') = [Pending, Rendering, Completed]
     \<and> follows_lifecycle (pdf_uploadToStorage request) (status_path jobId (new_events w w'))
     \<and> map_of (activeJobs w') jobId = None"
  using assms
  by (simp add: post_pdf_def send_success_def Let_def status_path_def new_events_def
      trace_w_updateJobStatus map_of_w_others)

lemma post_pdf_upload_fails:
  assumes "leaves_job jobId (x_during_render x)" and "leaves_job jobId (x_during_upload x)"
    and "PdfRenderRequestSchema_parse body = Valid request"
    and "renderPdf env (x_page x) request jobId = Some (Inr pdfBuffer)"
    and "pdf_uploadToStorage request"
    and "fst (uploadFile env supabase (x_storage x) (x_clock x) pdfBuffer
           (output_filename (pdf_filename request) (filename_timestamp (x_clock x)) ''pdf'')
           ''application/pdf'' (pdf_storagePath request) jobId) = Inl error"
  shows "\<exists>res w' e. post_pdf env supabase x jobId body w = Some (res, w')
     \<and> res_body res = Failure e
     \<and> status_path jobId (new_events w w') = [Pending, Rendering, Uploading, Failed]
     \<and> follows_lifecycle (pdf_uploadToStorage request) (status_path jobId (new_events w w'))
     \<and> map_of (activeJobs w') jobId = None"
  using assms
  by (simp add: post_pdf_def catch_finally_def Let_def status_path_def new_events_def
      trace_w_updateJobStatus map_of_w_others split_beta)

lemma post_pdf_uploaded:
  assumes "leaves_job jobId (x_during_render x)" and "leaves_job jobId (x_during_upload x)"
    and "PdfRenderRequestSchema_parse body = Valid request"
    and "renderPdf env (x_page x) request jobId = Some (Inr pdfBuffer)"
    and "pdf_uploadToStorage request"
    and "fst (uploadFile env supabase (x_storage x) (x_clock x) pdfBuffer
           (output_filename (pdf_filename request) (filename_timestamp (x_clock x)) ''pdf'')
           ''application/pdf'' (pdf_storagePath request) jobId) = Inr uploadResult"
  shows "\<exists>res w' r. post_pdf env supabase x jobId body w = Some (res, w')
     \<and> res_body res = Success r \<and> ok_url r = Some (up_signedUrl uploadResult)
     \<and> ok_dataUrl r = None
     \<and> status_path jobId (new_events w w') = [Pending, Rendering, Uploading, Completed]
     \<and> follows_lifecycle (pdf_uploadToStorage request) (status_path jobId (new_events w w'))
     \<and> map_of (activeJobs w') jobId = None"
  using assms
  by (simp add: post_pdf_def send_success_def Let_def status_path_def new_events_def
      trace_w_updateJobStatus map_of_w_others split_beta)

lemma post_image_never_registered:
  assumes "ImageRenderRequestSchema_parse body = Invalid es"
  shows "\<exists>res w' e. post_image env supabase x jobId body w = Some (res, w')
     \<and> res_body res = Failure e \<and> err_error e = VALIDATION_FAILED
     \<and> status_path jobId (new_events w w') =
         Pending # (case map_of (activeJobs w) jobId of None \<Rightarrow> [] | Some _ \<Rightarrow> [Failed])
     \<and> filter is_render_work (new_events w w') = []
     \<and> map_of (activeJobs w') jobId = None"
  using assms
  by (simp add: post_image_def catch_finally_def handleRenderError_def Let_def status_path_def
      new_events_def trace_w_updateJobStatus split: option.splits)

lemma post_image_render_fails:
  assumes "leaves_job jobId (x_during_render x)"
    and "ImageRenderRequestSchema_parse body = Valid request"
    and "renderImage env (x_page x) request jobId = Some (Inl error)"
  shows "\<exists>res w' e. post_image env supabase x jobId body w = Some (res, w')
     \<and> res_body res = Failure e
     \<and> status_path jobId (new_events w w') = [Pending, Rendering, Failed]
     \<and> follows_lifecycle (img_uploadToStorage request) (status_path jobId (new_events w w'))
     \<and> map_of (activeJobs w') jobId = None"
  using assms
  by (simp add: post_image_def catch_finally_def Let_def status_path_def new_events_def
      trace_w_updateJobStatus map_of_w_others)

lemma post_image_inline:
  assumes "leaves_job jobId (x_during_render x)"
    and "ImageRenderRequestSchema_parse body = Valid request"
    and "renderImage env (x_page x) request jobId = Some (Inr imageBuffer)"
    and "\<not> img_uploadToStorage request"
  shows "\<exists>res w' r u. post_image env supabase x jobId body w = Some (res, w')
     \<and> res_body res = Success r \<and> ok_dataUrl r = Some u \<and> ok_url r = None
     \<and> status_path jobId (new_events w w') = [Pending, Rendering, Completed]
     \<and> follows_lifecycle (img_uploadToStorage request) (status_path jobId (new_events w w'))
     \<and> map_of (activeJobs w') jobId = None"
  using assms
  by (simp add: post_image_def send_success_def Let_def status_path_def new_events_def
      trace_w_updateJobStatus map_of_w_others)

lemma post_image_upload_fails:
  assumes "leaves_job jobId (x_during_render x)" and "leaves_job jobId (x_during_upload x)"
    and "ImageRenderRequestSchema_parse body = Valid request"
    and "renderImage env (x_page x) request jobId = Some (Inr imageBuffer)"
    and "img_uploadToStorage request"
    and "fst (uploadFile env supabase (x_storage x) (x_clock x) imageBuffer
           (output_filename (img_filename request) (filename_timestamp (x_clock x))
              (format_name (img_format request)))
           (image_contentType (img_format request)) (img_storagePath request) jobId) = Inl error"
  shows "\<exists>res w' e. post_image env supabase x jobId body w = Some (res, w')
     \<and> res_body res = Failure e
     \<and> status_path jobId (new_events w w') = [Pending, Rendering, Uploading, Failed]
     \<and> follows_lifecycle (img_uploadToStorage request) (status_path jobId (new_events w w'))
     \<and> map_of (activeJobs w') jobId = None"
  using assms
  by (simp add: post_image_def catch_finally_def Let_def status_path_def new_events_def
      trace_w_updateJobStatus map_of_w_others split_beta)

lemma post_image_uploaded:
  assumes "leaves_job jobId (x_during_render x)" and "leaves_job jobId (x_during_upload x)"
    and "ImageRenderRequestSchema_parse body = Valid request"
    and "renderImage env (x_page x) request jobId = Some (Inr imageBuffer)"
    and "img_uploadToStorage request"
    and "fst (uploadFile env supabase (x_storage x) (x_clock x) imageBuffer
           (output_filename (img_filename request) (filename_timestamp (x_clock x))
              (format_name (img_format request)))
           (image_contentType (img_format request)) (img_storagePath request) jobId) = Inr uploadResult"
  shows "\<exists>res w' r. post_image env supabase x jobId body w = Some (res, w')
     \<and> res_body res = Success r \<and> ok_url r = Some (up_signedUrl uploadResult)
     \<and> ok_dataUrl r = None
     \<and> status_path jobId (new_events w w') = [Pending, Rendering, Uploading, Completed]
     \<and> follows_lifecycle (img_uploadToStorage request) (status_path jobId (new_events w w'))
     \<and> map_of (activeJobs w') jobId = None"
  using assms
  by (simp add: post_image_def send_success_def Let_def status_path_def new_events_def
      trace_w_updateJobStatus map_of_w_others split_beta)

lemma pdf_job_lifecycle:
  "(map_of (activeJobs w) jobId = None \<and> PdfRenderRequestSchema_parse body = Invalid es \<longrightarrow>
      (\<exists>res w' e. post_pdf env supabase x jobId body w = Some (res, w')
         \<and> res_body res = Failure e \<and> err_error e = VALIDATION_FAILED
         \<and> status_path jobId (new_events w w') = [Pending]
         \<and> filter is_render_work (new_events w w') = []
         \<and> map_of (activeJobs w') jobId = None))
   \<and> (leaves_job jobId (x_during_render x)
       \<and> PdfRenderRequestSchema_parse body = Valid request
       \<and> renderPdf env (x_page x) request jobId = Some (Inl error) \<longrightarrow>
      (\<exists>res w' e. post_pdf env supabase x jobId body w = Some (res, w')
         \<and> res_body res = Failure e
         \<and> status_path jobId (new_events w w') = [Pending, Rendering, Failed]
         \<and> follows_lifecycle (pdf_uploadToStorage request) (status_path jobId (new_events w w'))
         \<and> map_of (activeJobs w') jobId = None))
   \<and> (leaves_job jobId (x_during_render x)
       \<and> PdfRenderRequestSchema_parse body = Valid request
       \<and> renderPdf env (x_page x) request jobId = Some (Inr buffer)
       \<and> \<not> pdf_uploadToStorage request \<longrightarrow>
      (\<exists>res w' r u. post_pdf env supabase x jobId body w = Some (res, w')
         \<and> res_body res = Success r \<and> ok_dataUrl r = Some u \<and> ok_url r = None
         \<and> status_path jobId (new_events w w') = [Pending, Rendering, Completed]
         \<and> follows_lifecycle (pdf_uploadToStorage request) (status_path jobId (new_events w w'))
         \<and> map_of (activeJobs w') jobId = None))
   \<and> (leaves_job jobId (x_during_render x) \<and> leaves_job jobId (x_during_upload x)
       \<and> PdfRenderRequestSchema_parse body = Valid request
       \<and> renderPdf env (x_page x) request jobId = Some (Inr buffer)
       \<and> pdf_uploadToStorage request
       \<and> fst (uploadFile env supabase (x_storage x) (x_clock x) buffer
              (output_filename (pdf_filename request) (filename_timestamp (x_clock x)) ''pdf'')
              ''application/pdf'' (pdf_storagePath request) jobId) = Inl error \<longrightarrow>
      (\<exists>res w' e. post_pdf env supabase x jobId body w = Some (res, w')
         \<and> res_body res = Failure e
         \<and> status_path jobId (new_events w w') = [Pending, Rendering, Uploading, Failed]
         \<and> follows_lifecycle (pdf_uploadToStorage request) (status_path jobId (new_events w w'))
         \<and> map_of (activeJobs w') jobId = None))
   \<and> (leaves_job jobId (x_during_render x) \<and> leaves_job jobId (x_during_upload x)
       \<and> PdfRenderRequestSchema_parse body = Valid request
       \<and> renderPdf env (x_page x) request jobId = Some (Inr buffer)
       \<and> pdf_uploadToStorage request
       \<and> fst (uploadFile env supabase (x_storage x) (x_clock x) buffer
              (output_filename (pdf_filename request) (filename_timestamp (x_clock x)) ''pdf'')
              ''application/pdf'' (pdf_storagePath request) jobId) = Inr uploadResult \<longrightarrow>
      (\<exists>res w' r. post_pdf env supabase x jobId body w = Some (res, w')
         \<and> res_body res = Success r \<and> ok_url r = Some (up_signedUrl uploadResult)
         \<and> ok_dataUrl r = None
         \<and> status_path jobId (new_events w w') = [Pending, Rendering, Uploading, Completed]
         \<and> follows_lifecycle (pdf_uploadToStorage request) (status_path jobId (new_events w w'))
         \<and> map_of (activeJobs w') jobId = None))"
  using post_pdf_never_registered [of body es env supabase x jobId w]
    post_pdf_render_fails [of jobId x body request env error supabase w]
    post_pdf_inline [of jobId x body request env buffer supabase w]
    post_pdf_upload_fails [of jobId x body request env buffer supabase error w]
    post_pdf_uploaded [of jobId x body request env buffer supabase uploadResult w]
  by (auto simp del: ex_simps)

lemma image_job_lifecycle:
  "(map_of (activeJobs w) jobId = None \<and> ImageRenderRequestSchema_parse body = Invalid es \<longrightarrow>
      (\<exists>res w' e. post_image env supabase x jobId body w = Some (res, w')
         \<and> res_body res = Failure e \<and> err_error e = VALIDATION_FAILED
         \<and> status_path jobId (new_events w w') = [Pending]
         \<and> filter is_render_work (new_events w w') = []
         \<and> map_of (activeJobs w') jobId = None))
   \<and> (leaves_job jobId (x_during_render x)
       \<and> ImageRenderRequestSchema_parse body = Valid request
       \<and> renderImage env (x_page x) request jobId = Some (Inl error) \<longrightarrow>
      (\<exists>res w' e. post_image env supabase x jobId body w = Some (res, w')
         \<and> res_body res = Failure e
         \<and> status_path jobId (new_events w w') = [Pending, Rendering, Failed]
         \<and> follows_lifecycle (img_uploadToStorage request) (status_path jobId (new_events w w'))
         \<and> map_of (activeJobs w') jobId = None))
   \<and> (leaves_job jobId (x_during_render x)
       \<and> ImageRenderRequestSchema_parse body = Valid request
       \<and> renderImage env (x_page x) request jobId = Some (Inr buffer)
       \<and> \<not> img_uploadToStorage request \<longrightarrow>
      (\<exists>res w' r u. post_image env supabase x jobId body w = Some (res, w')
         \<and> res_body res = Success r \<and> ok_dataUrl r = Some u \<and> ok_url r = None
         \<and> status_path jobId (new_events w w') = [Pending, Rendering, Completed]
         \<and> follows_lifecycle (img_uploadToStorage request) (status_path jobId (new_events w w'))
         \<and> map_of (activeJobs w') jobId = None))
   \<and> (leaves_job jobId (x_during_render x) \<and> leaves_job jobId (x_during_upload x)
       \<and> ImageRenderRequestSchema_parse body = Valid request
       \<and> renderImage env (x_page x) request jobId = Some (Inr buffer)
       \<and> img_uploadToStorage request
       \<and> fst (uploadFile env supabase (x_storage x) (x_clock x) buffer
              (output_filename (img_filename request) (filename_timestamp (x_clock x))
                 (format_name (img_format request)))
              (image_contentType (img_format request)) (img_storagePath request) jobId) = Inl error \<longrightarrow>
      (\<exists>res w' e. post_image env supabase x jobId body w = Some (res, w')
         \<and> res_body res = Failure e
         \<and> status_path jobId (new_events w w') = [Pending, Rendering, Uploading, Failed]
         \<and> follows_lifecycle (img_uploadToStorage request) (status_path jobId (new_events w w'))
         \<and> map_of (activeJobs w') jobId = None))
   \<and> (leaves_job jobId (x_during_render x) \<and> leaves_job jobId (x_during_upload x)
       \<and> ImageRenderRequestSchema_parse body = Valid request
       \<and> renderImage env (x_page x) request jobId = Some (Inr buffer)
       \<and> img_uploadToStorage request
       \<and> fst (uploadFile env supabase (x_storage x) (x_clock x) buffer
              (output_filename (img_filename request) (filename_timestamp (x_clock x))
                 (format_name (img_format request)))
              (image_contentType (img_format request)) (img_storagePath request) jobId) = Inr uploadResult \<longrightarrow>
      (\<exists>res w' r. post_image env supabase x jobId body w = Some (res, w')
         \<and> res_body res = Success r \<and> ok_url r = Some (up_signedUrl uploadResult)
         \<and> ok_dataUrl r = None
         \<and> status_path jobId (new_events w w') = [Pending, Rendering, Uploading, Completed]
         \<and> follows_lifecycle (img_uploadToStorage request) (status_path jobId (new_events w w'))
         \<and> map_of (activeJobs w') jobId = None))"
  using post_image_never_registered [of body es env supabase x jobId w]
    post_image_render_fails [of jobId x body request env error supabase w]
    post_image_inline [of jobId x body request env buffer supabase w]
    post_image_upload_fails [of jobId x body request env buffer supabase error w]
    post_image_uploaded [of jobId x body request env buffer supabase uploadResult w]
  by (auto simp del: ex_simps)

text \<open>
  Claim C4, as stated, fails: a request that fails validation is answered
  \<^verbatim>\<open>VALIDATION_FAILED\<close>, but its job was never registered, the update to \<^verbatim>\<open>failed\<close>
  in the \<^verbatim>\<open>catch\<close> block finds no job, and the job's status stays \<^verbatim>\<open>pending\<close>.
\<close>

theorem validation_failure_leaves_pending_counterexample:
  "post_image sample_env None sample_external ''job-1'' image_wide_body empty_world =
     Some (\<lparr>res_status = 400,
            res_body = Failure
              \<lparr>err_error = VALIDATION_FAILED, err_message = ''Invalid request data'',
               err_jobId = Some ''job-1'',
               err_details = Some (ValidationErrors [issue too_big [''width'']])\<rparr>\<rparr>,
           \<lparr>activeJobs = [], trace = [JobRemoved ''job-1'']\<rparr>)
   \<and> status_path ''job-1'' [JobRemoved ''job-1''] = [Pending]
   \<and> Failed \<notin> set (status_path ''job-1'' [JobRemoved ''job-1''])"
  by (simp add: post_image_def sample_defs zod_defs Let_def catch_finally_def
      handleRenderError_def world_defs status_path_def)

text \<open>
  Claim C4, amended. The job of a request (with an id no other request uses) is created
  \<^verbatim>\<open>pending\<close>. If validation fails, it is never registered, no engine is invoked, its
  status stays \<^verbatim>\<open>pending\<close> and the answer is \<^verbatim>\<open>VALIDATION_FAILED\<close>. Otherwise it is
  registered and goes to \<^verbatim>\<open>rendering\<close>; from there to \<^verbatim>\<open>failed\<close> if the render throws;
  to \<^verbatim>\<open>completed\<close> directly, with an inline \<^verbatim>\<open>dataUrl\<close> and no \<^verbatim>\<open>url\<close>, if no upload
  was requested; and to \<^verbatim>\<open>uploading\<close> if one was, then to \<^verbatim>\<open>failed\<close> if the upload
  throws and to \<^verbatim>\<open>completed\<close>, with the signed \<^verbatim>\<open>url\<close>, if it succeeds. These paths
  follow the transition relation, in which \<^verbatim>\<open>uploading\<close> is entered only with the upload
  flag, \<^verbatim>\<open>pending\<close> never goes to \<^verbatim>\<open>failed\<close>, and nothing leaves \<^verbatim>\<open>completed\<close> or
  \<^verbatim>\<open>failed\<close>. In every case the registry has no entry for the job when the handler
  returns. This holds for the PDF and for the image handler.
\<close>

theorem job_lifecycle:
  "(map_of (activeJobs w) jobId = None \<and> PdfRenderRequestSchema_parse body = Invalid es \<longrightarrow>
      (\<exists>res w' e. post_pdf env supabase x jobId body w = Some (res, w')
         \<and> res_body res = Failure e \<and> err_error e = VALIDATION_FAILED
         \<and> status_path jobId (new_events w w') = [Pending]
         \<and> filter is_render_work (new_events w w') = []
         \<and> map_of (activeJobs w') jobId = None))
   \<and> (leaves_job jobId (x_during_render x)
       \<and> PdfRenderRequestSchema_parse body = Valid request
       \<and> renderPdf env (x_page x) request jobId = Some (Inl error) \<longrightarrow>
      (\<exists>res w' e. post_pdf env supabase x jobId body w = Some (res, w')
         \<and> res_body res = Failure e
         \<and> status_path jobId (new_events w w') = [Pending, Rendering, Failed]
         \<and> follows_lifecycle (pdf_uploadToStorage request) (status_path jobId (new_events w w'))
         \<and> map_of (activeJobs w') jobId = None))
   \<and> (leaves_job jobId (x_during_render x)
       \<and> PdfRenderRequestSchema_parse body = Valid request
       \<and> renderPdf env (x_page x) request jobId = Some (Inr buffer)
       \<and> \<not> pdf_uploadToStorage request \<longrightarrow>
      (\<exists>res w' r u. post_pdf env supabase x jobId body w = Some (res, w')
         \<and> res_body res = Success r \<and> ok_dataUrl r = Some u \<and> ok_url r = None
         \<and> status_path jobId (new_events w w') = [Pending, Rendering, Completed]
         \<and> follows_lifecycle (pdf_uploadToStorage request) (status_path jobId (new_events w w'))
         \<and> map_of (activeJobs w') jobId = None))
   \<and> (leaves_job jobId (x_during_render x) \<and> leaves_job jobId (x_during_upload x)
       \<and> PdfRenderRequestSchema_parse body = Valid request
       \<and> renderPdf env (x_page x) request jobId = Some (Inr buffer)
       \<and> pdf_uploadToStorage request
       \<and> fst (uploadFile env supabase (x_storage x) (x_clock x) buffer
              (output_filename (pdf_filename request) (filename_timestamp (x_clock x)) ''pdf'')
              ''application/pdf'' (pdf_storagePath request) jobId) = Inl error \<longrightarrow>
      (\<exists>res w' e. post_pdf env supabase x jobId body w = Some (res, w')
         \<and> res_body res = Failure e
         \<and> status_path jobId (new_events w w') = [Pending, Rendering, Uploading, Failed]
         \<and> follows_lifecycle (pdf_uploadToStorage request) (status_path jobId (new_events w w'))
         \<and> map_of (activeJobs w') jobId = None))
   \<and> (leaves_job jobId (x_during_render x) \<and> leaves_job jobId (x_during_upload x)
       \<and> PdfRenderRequestSchema_parse body = Valid request
       \<and> renderPdf env (x_page x) request jobId = Some (Inr buffer)
       \<and> pdf_uploadToStorage request
       \<and> fst (uploadFile env supabase (x_storage x) (x_clock x) buffer
              (output_filename (pdf_filename request) (filename_timestamp (x_clock x)) ''pdf'')
              ''application/pdf'' (pdf_storagePath request) jobId) = Inr uploadResult \<longrightarrow>
      (\<exists>res w' r. post_pdf env supabase x jobId body w = Some (res, w')
         \<and> res_body res = Success r \<and> ok_url r = Some (up_signedUrl uploadResult)
         \<and> ok_dataUrl r = None
         \<and> status_path jobId (new_events w w') = [Pending, Rendering, Uploading, Completed]
         \<and> follows_lifecycle (pdf_uploadToStorage request) (status_path jobId (new_events w w'))
         \<and> map_of (activeJobs w') jobId = None))
   \<and> (map_of (activeJobs w) jobId = None \<and> ImageRenderRequestSchema_parse body = Invalid es \<longrightarrow>
      (\<exists>res w' e. post_image env supabase x jobId body w = Some (res, w')
         \<and> res_body res = Failure e \<and> err_error e = VALIDATION_FAILED
         \<and> status_path jobId (new_events w w') = [Pending]
         \<and> filter is_render_work (new_events w w') = []
         \<and> map_of (activeJobs w') jobId = None))
   \<and> (leaves_job jobId (x_during_render x)
       \<and> ImageRenderRequestSchema_parse body = Valid imageRequest
       \<and> renderImage env (x_page x) imageRequest jobId = Some (Inl error) \<longrightarrow>
      (\<exists>res w' e. post_image env supabase x jobId body w = Some (res, w')
         \<and> res_body res = Failure e
         \<and> status_path jobId (new_events w w') = [Pending, Rendering, Failed]
         \<and> follows_lifecycle (img_uploadToStorage imageRequest) (status_path jobId (new_events w w'))
         \<and> map_of (activeJobs w') jobId = None))
   \<and> (leaves_job jobId (x_during_render x)
       \<and> ImageRenderRequestSchema_parse body = Valid imageRequest
       \<and> renderImage env (x_page x) imageRequest jobId = Some (Inr buffer)
       \<and> \<not> img_uploadToStorage imageRequest \<longrightarrow>
      (\<exists>res w' r u. post_image env supabase x jobId body w = Some (res, w')
         \<and> res_body res = Success r \<and> ok_dataUrl r = Some u \<and> ok_url r = None
         \<and> status_path jobId (new_events w w') = [Pending, Rendering, Completed]
         \<and> follows_lifecycle (img_uploadToStorage imageRequest) (status_path jobId (new_events w w'))
         \<and> map_of (activeJobs w') jobId = None))
   \<and> (leaves_job jobId (x_during_render x) \<and> leaves_job jobId (x_during_upload x)
       \<and> ImageRenderRequestSchema_parse body = Valid imageRequest
       \<and> renderImage env (x_page x) imageRequest jobId = Some (Inr buffer)
       \<and> img_uploadToStorage imageRequest
       \<and> fst (uploadFile env supabase (x_storage x) (x_clock x) buffer
              (output_filename (img_filename imageRequest) (filename_timestamp (x_clock x))
                 (format_name (img_format imageRequest)))
              (image_contentType (img_format imageRequest)) (img_storagePath imageRequest) jobId) = Inl error \<longrightarrow>
      (\<exists>res w' e. post_image env supabase x jobId body w = Some (res, w')
         \<and> res_body res = Failure e
         \<and> status_path jobId (new_events w w') = [Pending, Rendering, Uploading, Failed]
         \<and> follows_lifecycle (img_uploadToStorage imageRequest) (status_path jobId (new_events w w'))
         \<and> map_of (activeJobs w') jobId = None))
   \<and> (leaves_job jobId (x_during_render x) \<and> leaves_job jobId (x_during_upload x)
       \<and> ImageRenderRequestSchema_parse body = Valid imageRequest
       \<and> renderImage env (x_page x) imageRequest jobId = Some (Inr buffer)
       \<and> img_uploadToStorage imageRequest
       \<and> fst (uploadFile env supabase (x_storage x) (x_clock x) buffer
              (output_filename (img_filename imageRequest) (filename_timestamp (x_clock x))
                 (format_name (img_format imageRequest)))
              (image_contentType (img_format imageRequest)) (img_storagePath imageRequest) jobId) = Inr uploadResult \<longrightarrow>
      (\<exists>res w' r. post_image env supabase x jobId body w = Some (res, w')
         \<and> res_body res = Success r \<and> ok_url r = Some (up_signedUrl uploadResult)
         \<and> ok_dataUrl r = None
         \<and> status_path jobId (new_events w w') = [Pending, Rendering, Uploading, Completed]
         \<and> follows_lifecycle (img_uploadToStorage imageRequest) (status_path jobId (new_events w w'))
         \<and> map_of (activeJobs w') jobId = None))
   \<and> (lifecycle upload Rendering Uploading \<longleftrightarrow> upload)
   \<and> (lifecycle upload Rendering Completed \<longleftrightarrow> \<not> upload)
   \<and> \<not> lifecycle upload Pending Failed
   \<and> \<not> lifecycle upload Completed st \<and> \<not> lifecycle upload Failed st"
proof -
  have "\<not> lifecycle upload Completed st" "\<not> lifecycle upload Failed st"
    by (cases st; simp)+
  with pdf_job_lifecycle [of w jobId body es env supabase x request error buffer uploadResult]
    image_job_lifecycle [of w jobId body es env supabase x imageRequest error buffer
      uploadResult]
  show ?thesis by simp
qed

theorem job_lifecycle_witness:
  "leaves_job ''job-1'' (x_during_render sample_external)
   \<and> leaves_job ''job-1'' (x_during_upload sample_external)
   \<and> map_of (activeJobs busy_world) ''job-1'' = None
   \<and> (\<exists>res w' e. post_pdf sample_env None sample_external ''job-1'' (Some (JObj [])) busy_world = Some (res, w')
        \<and> res_body res = Failure e \<and> err_error e = VALIDATION_FAILED
        \<and> status_path ''job-1'' (new_events busy_world w') = [Pending]
        \<and> map_of (activeJobs w') ''job-1'' = None)
   \<and> (\<exists>res w' e. post_pdf sample_env None (sample_external\<lparr>x_page := unreachable_page\<rparr>) ''job-1'' pdf_inline_body busy_world = Some (res, w')
        \<and> res_body res = Failure e
        \<and> status_path ''job-1'' (new_events busy_world w') = [Pending, Rendering, Failed]
        \<and> map_of (activeJobs w') ''job-1'' = None)
   \<and> (\<exists>res w' r u. post_pdf sample_env None sample_external ''job-1'' pdf_inline_body busy_world = Some (res, w')
        \<and> res_body res = Success r \<and> ok_dataUrl r = Some u \<and> ok_url r = None
        \<and> status_path ''job-1'' (new_events busy_world w') = [Pending, Rendering, Completed]
        \<and> map_of (activeJobs w') ''job-1'' = None)
   \<and> (\<exists>res w' e. post_pdf sample_env (Some (Client ''u'' ''k'')) (sample_external\<lparr>x_storage := throwing_storage\<rparr>) ''job-1'' pdf_upload_body busy_world = Some (res, w')
        \<and> res_body res = Failure e
        \<and> status_path ''job-1'' (new_events busy_world w')
            = [Pending, Rendering, Uploading, Failed]
        \<and> map_of (activeJobs w') ''job-1'' = None)
   \<and> (\<exists>res w' r. post_pdf sample_env (Some (Client ''u'' ''k'')) sample_external ''job-1'' pdf_upload_body busy_world = Some (res, w')
        \<and> res_body res = Success r \<and> ok_url r = Some ''https://storage.example/signed''
        \<and> ok_dataUrl r = None
        \<and> status_path ''job-1'' (new_events busy_world w')
            = [Pending, Rendering, Uploading, Completed]
        \<and> map_of (activeJobs w') ''job-1'' = None)
   \<and> (\<exists>res w' e. post_image sample_env None sample_external ''job-1'' image_wide_body busy_world = Some (res, w')
        \<and> res_body res = Failure e \<and> err_error e = VALIDATION_FAILED
        \<and> status_path ''job-1'' (new_events busy_world w') = [Pending]
        \<and> map_of (activeJobs w') ''job-1'' = None)
   \<and> (\<exists>res w' e. post_image sample_env None (sample_external\<lparr>x_page := unreachable_page\<rparr>) ''job-1'' image_inline_body busy_world = Some (res, w')
        \<and> res_body res = Failure e
        \<and> status_path ''job-1'' (new_events busy_world w') = [Pending, Rendering, Failed]
        \<and> map_of (activeJobs w') ''job-1'' = None)
   \<and> (\<exists>res w' r u. post_image sample_env None sample_external ''job-1'' image_inline_body busy_world = Some (res, w')
        \<and> res_body res = Success r \<and> ok_dataUrl r = Some u \<and> ok_url r = None
        \<and> status_path ''job-1'' (new_events busy_world w') = [Pending, Rendering, Completed]
        \<and> map_of (activeJobs w') ''job-1'' = None)
   \<and> (\<exists>res w' e. post_image sample_env (Some (Client ''u'' ''k'')) (sample_external\<lparr>x_storage := throwing_storage\<rparr>) ''job-1'' image_max_body busy_world = Some (res, w')
        \<and> res_body res = Failure e
        \<and> status_path ''job-1'' (new_events busy_world w')
            = [Pending, Rendering, Uploading, Failed]
        \<and> map_of (activeJobs w') ''job-1'' = None)
   \<and> (\<exists>res w' r. post_image sample_env (Some (Client ''u'' ''k'')) sample_external ''job-1'' image_max_body busy_world = Some (res, w')
        \<and> res_body res = Success r \<and> ok_url r = Some ''https://storage.example/signed''
        \<and> ok_dataUrl r = None
        \<and> status_path ''job-1'' (new_events busy_world w')
            = [Pending, Rendering, Uploading, Completed]
        \<and> map_of (activeJobs w') ''job-1'' = None)"
proof -
  have l1: "leaves_job ''job-1'' (x_during_render sample_external)"
    by (simp add: leaves_job_def sample_external_def map_of_registerJob other_job_def)
  have l2: "leaves_job ''job-1'' (x_during_upload sample_external)"
    by (simp add: leaves_job_def sample_external_def map_of_removeJob)
  have l3: "leaves_job ''job-1'' (x_during_render (sample_external\<lparr>x_page := unreachable_page\<rparr>))"
    "leaves_job ''job-1'' (x_during_render (sample_external\<lparr>x_storage := throwing_storage\<rparr>))"
    "leaves_job ''job-1'' (x_during_upload (sample_external\<lparr>x_storage := throwing_storage\<rparr>))"
    using l1 l2 by simp_all
  have fresh: "map_of (activeJobs busy_world) ''job-1'' = None"
    by (simp add: busy_world_def)
  have pdf_invalid:
    "PdfRenderRequestSchema_parse (Some (JObj [])) = Invalid [issue invalid_type [''url'']]"
    by (simp add: zod_defs)
  have image_invalid:
    "ImageRenderRequestSchema_parse image_wide_body = Invalid [issue too_big [''width'']]"
    by (simp add: image_wide_body_def zod_defs)
  have "\<exists>request. PdfRenderRequestSchema_parse pdf_inline_body = Valid request
      \<and> \<not> pdf_uploadToStorage request
      \<and> renderPdf sample_env (x_page (sample_external\<lparr>x_page := unreachable_page\<rparr>)) request
          ''job-1'' = Some (Inl (Error ''page.goto: Timeout 15000ms exceeded.''))
      \<and> renderPdf sample_env (x_page sample_external) request ''job-1''
          = Some (Inr [37, 80, 68, 70, 45])"
    by (simp add: sample_defs zod_defs engine_defs Let_def)
  then obtain inline where
    inline: "PdfRenderRequestSchema_parse pdf_inline_body = Valid inline"
      "\<not> pdf_uploadToStorage inline"
      "renderPdf sample_env (x_page (sample_external\<lparr>x_page := unreachable_page\<rparr>)) inline
          ''job-1'' = Some (Inl (Error ''page.goto: Timeout 15000ms exceeded.''))"
      "renderPdf sample_env (x_page sample_external) inline ''job-1''
          = Some (Inr [37, 80, 68, 70, 45])"
    by blast
  have "\<exists>request. ImageRenderRequestSchema_parse image_inline_body = Valid request
      \<and> \<not> img_uploadToStorage request
      \<and> renderImage sample_env (x_page (sample_external\<lparr>x_page := unreachable_page\<rparr>))
          request ''job-1'' = Some (Inl (Error ''page.goto: Timeout 15000ms exceeded.''))
      \<and> renderImage sample_env (x_page sample_external) request ''job-1''
          = Some (Inr [137, 80, 78, 71])"
    by (simp add: sample_defs zod_defs engine_defs Let_def)
  then obtain image_inline where
    image_inline: "ImageRenderRequestSchema_parse image_inline_body = Valid image_inline"
      "\<not> img_uploadToStorage image_inline"
      "renderImage sample_env (x_page (sample_external\<lparr>x_page := unreachable_page\<rparr>))
          image_inline ''job-1'' = Some (Inl (Error ''page.goto: Timeout 15000ms exceeded.''))"
      "renderImage sample_env (x_page sample_external) image_inline ''job-1''
          = Some (Inr [137, 80, 78, 71])"
    by blast
  have "\<exists>request. PdfRenderRequestSchema_parse pdf_upload_body = Valid request
      \<and> pdf_uploadToStorage request
      \<and> renderPdf sample_env (x_page sample_external) request ''job-1''
          = Some (Inr [37, 80, 68, 70, 45])
      \<and> fst (uploadFile sample_env (Some (Client ''u'' ''k'')) throwing_storage sample_clock
            [37, 80, 68, 70, 45]
            (output_filename (pdf_filename request) (filename_timestamp sample_clock) ''pdf'')
            ''application/pdf'' (pdf_storagePath request) ''job-1'')
          = Inl (Error ''socket hang up'')
      \<and> fst (uploadFile sample_env (Some (Client ''u'' ''k'')) sample_storage sample_clock
            [37, 80, 68, 70, 45]
            (output_filename (pdf_filename request) (filename_timestamp sample_clock) ''pdf'')
            ''application/pdf'' (pdf_storagePath request) ''job-1'')
          = Inr \<lparr>up_path = ''org-123/invoices/invoice.pdf'',
                 up_signedUrl = ''https://storage.example/signed'',
                 up_expiresAt = ''2026-02-02T10:30:00.000Z''\<rparr>"
    by (simp add: sample_defs zod_defs engine_defs Let_def)
  then obtain upload where
    upload: "PdfRenderRequestSchema_parse pdf_upload_body = Valid upload"
      "pdf_uploadToStorage upload"
      "renderPdf sample_env (x_page sample_external) upload ''job-1''
          = Some (Inr [37, 80, 68, 70, 45])"
      "fst (uploadFile sample_env (Some (Client ''u'' ''k'')) throwing_storage sample_clock
            [37, 80, 68, 70, 45]
            (output_filename (pdf_filename upload) (filename_timestamp sample_clock) ''pdf'')
            ''application/pdf'' (pdf_storagePath upload) ''job-1'')
          = Inl (Error ''socket hang up'')"
      "fst (uploadFile sample_env (Some (Client ''u'' ''k'')) sample_storage sample_clock
            [37, 80, 68, 70, 45]
            (output_filename (pdf_filename upload) (filename_timestamp sample_clock) ''pdf'')
            ''application/pdf'' (pdf_storagePath upload) ''job-1'')
          = Inr \<lparr>up_path = ''org-123/invoices/invoice.pdf'',
                 up_signedUrl = ''https://storage.example/signed'',
                 up_expiresAt = ''2026-02-02T10:30:00.000Z''\<rparr>"
    by blast
  have "\<exists>request. ImageRenderRequestSchema_parse image_max_body = Valid request
      \<and> img_uploadToStorage request
      \<and> renderImage sample_env (x_page sample_external) request ''job-1''
          = Some (Inr [137, 80, 78, 71])
      \<and> fst (uploadFile sample_env (Some (Client ''u'' ''k'')) throwing_storage sample_clock
            [137, 80, 78, 71]
            (output_filename (img_filename request) (filename_timestamp sample_clock)
               (format_name (img_format request)))
            (image_contentType (img_format request)) (img_storagePath request) ''job-1'')
          = Inl (Error ''socket hang up'')
      \<and> fst (uploadFile sample_env (Some (Client ''u'' ''k'')) sample_storage sample_clock
            [137, 80, 78, 71]
            (output_filename (img_filename request) (filename_timestamp sample_clock)
               (format_name (img_format request)))
            (image_contentType (img_format request)) (img_storagePath request) ''job-1'')
          = Inr \<lparr>up_path = ''render-2026-02-02T10-30-00-000Z.png'',
                 up_signedUrl = ''https://storage.example/signed'',
                 up_expiresAt = ''2026-02-02T10:30:00.000Z''\<rparr>"
    by (simp add: sample_defs zod_defs engine_defs Let_def)
  then obtain image where
    image: "ImageRenderRequestSchema_parse image_max_body = Valid image"
      "img_uploadToStorage image"
      "renderImage sample_env (x_page sample_external) image ''job-1''
          = Some (Inr [137, 80, 78, 71])"
      "fst (uploadFile sample_env (Some (Client ''u'' ''k'')) throwing_storage sample_clock
            [137, 80, 78, 71]
            (output_filename (img_filename image) (filename_timestamp sample_clock)
               (format_name (img_format image)))
            (image_contentType (img_format image)) (img_storagePath image) ''job-1'')
          = Inl (Error ''socket hang up'')"
      "fst (uploadFile sample_env (Some (Client ''u'' ''k'')) sample_storage sample_clock
            [137, 80, 78, 71]
            (output_filename (img_filename image) (filename_timestamp sample_clock)
               (format_name (img_format image)))
            (image_contentType (img_format image)) (img_storagePath image) ''job-1'')
          = Inr \<lparr>up_path = ''render-2026-02-02T10-30-00-000Z.png'',
                 up_signedUrl = ''https://storage.example/signed'',
                 up_expiresAt = ''2026-02-02T10:30:00.000Z''\<rparr>"
    by blast
  have x: "x_storage sample_external = sample_storage" "x_clock sample_external = sample_clock"
    "x_storage (sample_external\<lparr>x_storage := throwing_storage\<rparr>) = throwing_storage"
    "x_clock (sample_external\<lparr>x_storage := throwing_storage\<rparr>) = sample_clock"
    "x_page (sample_external\<lparr>x_storage := throwing_storage\<rparr>) = x_page sample_external"
    by (simp_all add: sample_external_def)
  have c1: "\<exists>res w' e. post_pdf sample_env None sample_external ''job-1'' (Some (JObj [])) busy_world = Some (res, w')
        \<and> res_body res = Failure e \<and> err_error e = VALIDATION_FAILED
        \<and> status_path ''job-1'' (new_events busy_world w') = [Pending]
        \<and> map_of (activeJobs w') ''job-1'' = None"
    using fresh pdf_invalid
      job_lifecycle [where w = busy_world and jobId = "''job-1''" and env = sample_env
        and body = "Some (JObj [])"
        and es = "[issue invalid_type [''url'']]" and supabase = None and x = sample_external,
        THEN conjunct1]
    by (simp; blast)
  have c2: "\<exists>res w' e. post_pdf sample_env None (sample_external\<lparr>x_page := unreachable_page\<rparr>) ''job-1'' pdf_inline_body busy_world = Some (res, w')
        \<and> res_body res = Failure e
        \<and> status_path ''job-1'' (new_events busy_world w') = [Pending, Rendering, Failed]
        \<and> map_of (activeJobs w') ''job-1'' = None"
    using l3 inline
      job_lifecycle [where w = busy_world and jobId = "''job-1''" and env = sample_env
        and body = pdf_inline_body and supabase = None
        and x = "sample_external\<lparr>x_page := unreachable_page\<rparr>" and request = inline
        and error = "Error ''page.goto: Timeout 15000ms exceeded.''",
        THEN conjunct2, THEN conjunct1]
    by (simp; blast)
  have c3: "\<exists>res w' r u. post_pdf sample_env None sample_external ''job-1'' pdf_inline_body busy_world = Some (res, w')
        \<and> res_body res = Success r \<and> ok_dataUrl r = Some u \<and> ok_url r = None
        \<and> status_path ''job-1'' (new_events busy_world w') = [Pending, Rendering, Completed]
        \<and> map_of (activeJobs w') ''job-1'' = None"
    using l1 inline
      job_lifecycle [where w = busy_world and jobId = "''job-1''" and env = sample_env
        and body = pdf_inline_body and supabase = None and x = sample_external
        and request = inline and buffer = "[37, 80, 68, 70, 45]",
        THEN conjunct2, THEN conjunct2, THEN conjunct1]
    by (simp; blast)
  have c4: "\<exists>res w' e. post_pdf sample_env (Some (Client ''u'' ''k'')) (sample_external\<lparr>x_storage := throwing_storage\<rparr>) ''job-1'' pdf_upload_body busy_world = Some (res, w')
        \<and> res_body res = Failure e
        \<and> status_path ''job-1'' (new_events busy_world w')
            = [Pending, Rendering, Uploading, Failed]
        \<and> map_of (activeJobs w') ''job-1'' = None"
    using l3 upload x
      job_lifecycle [where w = busy_world and jobId = "''job-1''" and env = sample_env
        and body = pdf_upload_body
        and supabase = "Some (Client ''u'' ''k'')" and x = "sample_external\<lparr>x_storage := throwing_storage\<rparr>"
        and request = upload and buffer = "[37, 80, 68, 70, 45]"
        and error = "Error ''socket hang up''",
        THEN conjunct2, THEN conjunct2, THEN conjunct2, THEN conjunct1]
    by (simp; blast)
  have c5: "\<exists>res w' r. post_pdf sample_env (Some (Client ''u'' ''k'')) sample_external ''job-1'' pdf_upload_body busy_world = Some (res, w')
        \<and> res_body res = Success r \<and> ok_url r = Some ''https://storage.example/signed''
        \<and> ok_dataUrl r = None
        \<and> status_path ''job-1'' (new_events busy_world w')
            = [Pending, Rendering, Uploading, Completed]
        \<and> map_of (activeJobs w') ''job-1'' = None"
    using l1 l2 upload x
      job_lifecycle [where w = busy_world and jobId = "''job-1''" and env = sample_env
        and body = pdf_upload_body
        and supabase = "Some (Client ''u'' ''k'')" and x = sample_external
        and request = upload and buffer = "[37, 80, 68, 70, 45]"
        and uploadResult = "\<lparr>up_path = ''org-123/invoices/invoice.pdf'',
                 up_signedUrl = ''https://storage.example/signed'',
                 up_expiresAt = ''2026-02-02T10:30:00.000Z''\<rparr>",
        THEN conjunct2, THEN conjunct2, THEN conjunct2, THEN conjunct2, THEN conjunct1]
    by (simp; blast)
  have c6: "\<exists>res w' e. post_image sample_env None sample_external ''job-1'' image_wide_body busy_world = Some (res, w')
        \<and> res_body res = Failure e \<and> err_error e = VALIDATION_FAILED
        \<and> status_path ''job-1'' (new_events busy_world w') = [Pending]
        \<and> map_of (activeJobs w') ''job-1'' = None"
    using fresh image_invalid
      job_lifecycle [where w = busy_world and jobId = "''job-1''" and env = sample_env
        and body = image_wide_body
        and es = "[issue too_big [''width'']]" and supabase = None and x = sample_external,
        THEN conjunct2, THEN conjunct2, THEN conjunct2, THEN conjunct2, THEN conjunct2, 
        THEN conjunct1]
    by (simp; blast)
  have c7: "\<exists>res w' e. post_image sample_env None (sample_external\<lparr>x_page := unreachable_page\<rparr>) ''job-1'' image_inline_body busy_world = Some (res, w')
        \<and> res_body res = Failure e
        \<and> status_path ''job-1'' (new_events busy_world w') = [Pending, Rendering, Failed]
        \<and> map_of (activeJobs w') ''job-1'' = None"
    using l3 image_inline
      job_lifecycle [where w = busy_world and jobId = "''job-1''" and env = sample_env
        and body = image_inline_body and supabase = None
        and x = "sample_external\<lparr>x_page := unreachable_page\<rparr>" and imageRequest = image_inline
        and error = "Error ''page.goto: Timeout 15000ms exceeded.''",
        THEN conjunct2, THEN conjunct2, THEN conjunct2, THEN conjunct2, THEN conjunct2, 
        THEN conjunct2, THEN conjunct1]
    by (simp; blast)
  have c8: "\<exists>res w' r u. post_image sample_env None sample_external ''job-1'' image_inline_body busy_world = Some (res, w')
        \<and> res_body res = Success r \<and> ok_dataUrl r = Some u \<and> ok_url r = None
        \<and> status_path ''job-1'' (new_events busy_world w') = [Pending, Rendering, Completed]
        \<and> map_of (activeJobs w') ''job-1'' = None"
    using l1 image_inline
      job_lifecycle [where w = busy_world and jobId = "''job-1''" and env = sample_env
        and body = image_inline_body and supabase = None
        and x = sample_external and imageRequest = image_inline
        and buffer = "[137, 80, 78, 71]",
        THEN conjunct2, THEN conjunct2, THEN conjunct2, THEN conjunct2, THEN conjunct2, 
        THEN conjunct2, THEN conjunct2, THEN conjunct1]
    by (simp; blast)
  have c9: "\<exists>res w' e. post_image sample_env (Some (Client ''u'' ''k'')) (sample_external\<lparr>x_storage := throwing_storage\<rparr>) ''job-1'' image_max_body busy_world = Some (res, w')
        \<and> res_body res = Failure e
        \<and> status_path ''job-1'' (new_events busy_world w')
            = [Pending, Rendering, Uploading, Failed]
        \<and> map_of (activeJobs w') ''job-1'' = None"
    using l3 image x
      job_lifecycle [where w = busy_world and jobId = "''job-1''" and env = sample_env
        and body = image_max_body
        and supabase = "Some (Client ''u'' ''k'')" and x = "sample_external\<lparr>x_storage := throwing_storage\<rparr>"
        and imageRequest = image and buffer = "[137, 80, 78, 71]"
        and error = "Error ''socket hang up''",
        THEN conjunct2, THEN conjunct2, THEN conjunct2, THEN conjunct2, THEN conjunct2, 
        THEN conjunct2, THEN conjunct2, THEN conjunct2, THEN conjunct1]
    by (simp; blast)
  have c10: "\<exists>res w' r. post_image sample_env (Some (Client ''u'' ''k'')) sample_external ''job-1'' image_max_body busy_world = Some (res, w')
        \<and> res_body res = Success r \<and> ok_url r = Some ''https://storage.example/signed''
        \<and> ok_dataUrl r = None
        \<and> status_path ''job-1'' (new_events busy_world w')
            = [Pending, Rendering, Uploading, Completed]
        \<and> map_of (activeJobs w') ''job-1'' = None"
    using l1 l2 image x
      job_lifecycle [where w = busy_world and jobId = "''job-1''" and env = sample_env
        and body = image_max_body
        and supabase = "Some (Client ''u'' ''k'')" and x = sample_external
        and imageRequest = image and buffer = "[137, 80, 78, 71]"
        and uploadResult = "\<lparr>up_path = ''render-2026-02-02T10-30-00-000Z.png'',
                 up_signedUrl = ''https://storage.example/signed'',
                 up_expiresAt = ''2026-02-02T10:30:00.000Z''\<rparr>",
        THEN conjunct2, THEN conjunct2, THEN conjunct2, THEN conjunct2, THEN conjunct2, 
        THEN conjunct2, THEN conjunct2, THEN conjunct2, THEN conjunct2, THEN conjunct1]
    by (simp; blast)
  from l1 l2 fresh c1 c2 c3 c4 c5 c6 c7 c8 c9 c10 show ?thesis by blast
qed

end
